(* ===== verification/Prelude.thy ===== *)
theory Prelude
  imports Main "HOL-Library.Word" "HOL-Library.Multiset"
begin

text \<open>
  Shared vocabulary of the development: the machine types of the C code
  (\<open>unsigned char\<close>, \<open>unsigned short\<close>, \<open>unsigned int\<close> as words), the C string
  primitives the source calls (\<open>snprintf\<close> into a fixed buffer, \<open>strncpy\<close> into a
  zeroed buffer), the named collections of simplification rules the component
  theories fill, and generic lemmas on lists and words they share.
  A C string is modelled by its characters before the terminating NUL.
\<close>

unbundle bit_operations_syntax

named_theorems coap_simps "evaluation rules of the modelled C functions"
named_theorems coap_limits "the fixed buffer sizes of the C code"

type_synonym u8 = "8 word"
type_synonym u16 = "16 word"
type_synonym u32 = "32 word"

text \<open>
  \<open>HAL_Snprintf(buf, n, fmt, ...)\<close> writes at most \<open>n - 1\<close> characters of the
  formatted text and a terminating NUL into the \<open>n\<close>-byte buffer \<open>buf\<close>.
\<close>

definition snprintf_buf :: "nat \<Rightarrow> string \<Rightarrow> string" where
  "snprintf_buf n s = take (n - 1) s"

text \<open>
  \<open>strncpy(dst, src, n)\<close> into a buffer that was zeroed before and is at least
  \<open>n + 1\<close> bytes long: the first \<open>n\<close> characters of \<open>src\<close>, NUL terminated.
\<close>

definition strncpy_zeroed :: "nat \<Rightarrow> string \<Rightarrow> string" where
  "strncpy_zeroed n s = take n s"

lemma snprintf_buf_length [simp]: "length (snprintf_buf n s) = min (n - 1) (length s)"
  by (simp add: snprintf_buf_def)

lemma snprintf_buf_fits [simp]: "length s < n \<Longrightarrow> snprintf_buf n s = s"
  by (simp add: snprintf_buf_def)

lemma strncpy_zeroed_length [simp]: "length (strncpy_zeroed n s) = min n (length s)"
  by (simp add: strncpy_zeroed_def)

lemma strncpy_zeroed_fits [simp]: "length s \<le> n \<Longrightarrow> strncpy_zeroed n s = s"
  by (simp add: strncpy_zeroed_def)

subsection \<open>Lists\<close>

lemma take_append_prefix_eq [simp]:
  "take (length p) (p @ s) = p"
  by simp

lemma drop_append_prefix_eq [simp]:
  "drop (length p) (p @ s) = s"
  by simp

lemma takeWhile_append_stop:
  "\<not> P c \<Longrightarrow> (\<forall>x\<in>set xs. P x) \<Longrightarrow> takeWhile P (xs @ c # ys) = xs"
  by (induction xs) auto

subsection \<open>Words\<close>

text \<open>The masks of \<open>iotx_get_coap_token\<close> as shifted 8-bit masks.\<close>

lemma byte_masks_u32:
  "(0xFF :: u32) = mask 8"
  "(0xFF00 :: u32) = push_bit 8 (mask 8)"
  "(0xFF0000 :: u32) = push_bit 16 (mask 8)"
  "(0xFF000000 :: u32) = push_bit 24 (mask 8)"
  by (simp_all add: mask_eq_exp_minus_1)

lemma u32_of_nat_inj:
  "i < 2 ^ 32 \<Longrightarrow> j < 2 ^ 32 \<Longrightarrow> (word_of_nat i :: u32) = word_of_nat j \<Longrightarrow> i = j"
proof -
  assume i: "i < 2 ^ 32" and j: "j < 2 ^ 32" and eq: "(word_of_nat i :: u32) = word_of_nat j"
  have "unat (word_of_nat i :: u32) = i" using i by (intro of_nat_inverse [OF refl]) simp
  moreover have "unat (word_of_nat j :: u32) = j" using j by (intro of_nat_inverse [OF refl]) simp
  ultimately show "i = j" using eq by metis
qed

lemma unat_u32_succ: "unat ((v :: u32) + 1) = (unat v + 1) mod 2 ^ 32"
  by (simp add: unat_word_ariths)

text \<open>Counting from zero: the first index and the shifted rest.\<close>

lemma upt_Suc_Cons: "[0..<Suc k] = 0 # map Suc [0..<k]"
  by (simp add: map_Suc_upt upt_conv_Cons)

text \<open>Fuel of at least four units has four successor layers to unfold.\<close>

lemma fuel4: "4 \<le> f \<Longrightarrow> \<exists>g. f = Suc (Suc (Suc (Suc g)))"
  by presburger

end
