(* ===== verification/Coap_Model.thy ===== *)
theory Coap_Model
  imports Prelude
begin

text \<open>
  The data of \<open>src/src/coap/iotx_coap_api.c\<close> and of the collaborators it calls.
  The session object \<open>iotx_coap_t\<close> is the record \<open>iotx_coap\<close>; result codes,
  CoAP codes, options and content types are datatypes with the source's
  constructor names.  The CoAP engine (\<open>CoAPMessage_*\<close>, \<open>CoAPContext_*\<close>), the
  host layer (\<open>HAL_*\<close>, \<open>coap_malloc\<close>) and the buffer-size macros of the
  headers are not under \<open>src/\<close>: they are modelled here from the specification,
  as the smallest behaviour the client code relies on.
\<close>

section \<open>Result codes and protocol constants\<close>

datatype iotx_ret =
    IOTX_SUCCESS
  | IOTX_ERR_INVALID_PARAM
  | IOTX_ERR_NO_MEM
  | IOTX_ERR_BUFF_TOO_SHORT
  | IOTX_ERR_AUTH_FAILED
  | IOTX_ERR_SEND_MSG_FAILED
  | IOTX_ERR_URI_TOO_LOOG
  | IOTX_ERR_MSG_TOO_LOOG
  | IOTX_ERR_NOT_AUTHED

text \<open>\<open>SUCCESS_RETURN\<close> and \<open>FAIL_RETURN\<close> of \<open>iotx_coap_report_mid\<close>.\<close>

datatype mid_ret = SUCCESS_RETURN | FAIL_RETURN

datatype coap_msg_code =
    COAP_MSG_CODE_EMPTY
  | COAP_MSG_CODE_GET
  | COAP_MSG_CODE_POST
  | COAP_MSG_CODE_205_CONTENT
  | COAP_MSG_CODE_401_UNAUTHORIZED
  | COAP_MSG_CODE_402_BAD_OPTION
  | COAP_MSG_CODE_500_INTERNAL_SERVER_ERROR
  | COAP_MSG_CODE_OTHER nat

datatype coap_msg_type = COAP_MESSAGE_TYPE_CON | COAP_MESSAGE_TYPE_NON

datatype coap_option_num =
    COAP_OPTION_URI_PATH
  | COAP_OPTION_CONTENT_FORMAT
  | COAP_OPTION_ACCEPT
  | COAP_OPTION_AUTH_TOKEN

datatype coap_ct =
    COAP_CT_APP_JSON
  | COAP_CT_APP_CBOR
  | COAP_CT_APP_OCTET_STREAM
  | COAP_CT_APP_LINK_FORMAT

datatype coap_opt_val = OptStr string | OptUint coap_ct

text \<open>
  Function pointers become tags: the response handlers the file installs, and
  an application callback named by a number.  A \<open>void *\<close> user pointer is
  \<open>U_session\<close> (the session object itself) or application data.
\<close>

datatype coap_handler =
    H_device_name_auth
  | H_mid_rsphdl
  | H_get_well_known
  | H_app nat

datatype user_ref = U_session | U_app nat

datatype iotx_content_type = IOTX_CONTENT_TYPE_JSON | IOTX_CONTENT_TYPE_CBOR

datatype iotx_msg_type = IOTX_MESSAGE_CON | IOTX_MESSAGE_NON

section \<open>Buffer sizes\<close>

text \<open>The macros of the source file (lines 32--36).\<close>

definition IOTX_SIGN_LENGTH :: nat where [coap_limits]: "IOTX_SIGN_LENGTH = 40 + 1"
definition IOTX_SIGN_SOURCE_LEN :: nat where [coap_limits]: "IOTX_SIGN_SOURCE_LEN = 256"
definition IOTX_AUTH_TOKEN_LEN :: nat where [coap_limits]: "IOTX_AUTH_TOKEN_LEN = 192 + 1"
definition IOTX_COAP_INIT_TOKEN :: u32 where [coap_limits]: "IOTX_COAP_INIT_TOKEN = 0x01020304"
definition IOTX_LIST_MAX_ITEM :: nat where [coap_limits]: "IOTX_LIST_MAX_ITEM = 10"

text \<open>The macros of the exported headers, which are not under \<open>src/\<close>.\<close>

definition IOTX_URI_MAX_LEN :: nat where [coap_limits]: "IOTX_URI_MAX_LEN = 135"
definition COAP_MSG_MAX_PATH_LEN :: nat where [coap_limits]: "COAP_MSG_MAX_PATH_LEN = 128"
definition COAP_MSG_MAX_PDU_LEN :: nat where [coap_limits]: "COAP_MSG_MAX_PDU_LEN = 1280"
definition IOTX_PRODUCT_KEY_LEN :: nat where [coap_limits]: "IOTX_PRODUCT_KEY_LEN = 20"
definition IOTX_DEVICE_NAME_LEN :: nat where [coap_limits]: "IOTX_DEVICE_NAME_LEN = 32"
definition IOTX_DEVICE_ID_LEN :: nat where [coap_limits]: "IOTX_DEVICE_ID_LEN = 64"
definition IOTX_DEVICE_SECRET_LEN :: nat where [coap_limits]: "IOTX_DEVICE_SECRET_LEN = 64"

section \<open>Messages\<close>

text \<open>\<open>CoAPMessage\<close>: the fields the client sets.\<close>

record coap_message =
  msg_type :: coap_msg_type
  msg_code :: coap_msg_code
  msg_id :: u16
  msg_token :: "u8 list"
  msg_handler :: "coap_handler option"
  msg_user :: "user_ref option"
  msg_options :: "(coap_option_num \<times> coap_opt_val) list"
  msg_payload :: string

text \<open>A response as the network delivers it to the engine.\<close>

record coap_response =
  rsp_code :: coap_msg_code
  rsp_token :: "u8 list"
  rsp_payload :: string

text \<open>\<open>iotx_message_t\<close>: the application's message.\<close>

record iotx_message =
  p_payload :: string
  payload_len :: u16
  resp_callback :: "coap_handler option"
  user_data :: "user_ref option"
  iotx_msg_type :: iotx_msg_type
  content_type :: iotx_content_type

record iotx_deviceinfo =
  product_key :: string
  device_name :: string
  device_id :: string
  device_secret :: string

section \<open>The CoAP engine (spec-modelled)\<close>

text \<open>
  \<open>CoAPContext\<close>: the URL and limits it was created with, its message-id
  counter, the messages it has put on the wire (oldest first) and the responses
  the network will deliver (in order of arrival).  \<open>ctx_net_ok\<close> says whether the
  network accepts a datagram.
\<close>

record coap_context =
  ctx_url :: string
  ctx_maxcount :: nat
  ctx_waittime :: nat
  ctx_message_id :: u16
  ctx_sent :: "coap_message list"
  ctx_inbox :: "coap_response list"
  ctx_net_ok :: bool

datatype coap_ret = COAP_SUCCESS | COAP_ERROR_DATA_SIZE | COAP_ERROR_NET

definition CoAPMessage_init :: coap_message where
  "CoAPMessage_init =
     \<lparr>msg_type = COAP_MESSAGE_TYPE_CON, msg_code = COAP_MSG_CODE_EMPTY, msg_id = 0,
      msg_token = [], msg_handler = None, msg_user = None, msg_options = [], msg_payload = []\<rparr>"

definition CoAPStrOption_add :: "coap_message \<Rightarrow> coap_option_num \<Rightarrow> string \<Rightarrow> coap_message" where
  "CoAPStrOption_add m n v = m\<lparr>msg_options := msg_options m @ [(n, OptStr v)]\<rparr>"

definition CoAPUintOption_add :: "coap_message \<Rightarrow> coap_option_num \<Rightarrow> coap_ct \<Rightarrow> coap_message" where
  "CoAPUintOption_add m n v = m\<lparr>msg_options := msg_options m @ [(n, OptUint v)]\<rparr>"

text \<open>\<open>CoAPMessageId_gen\<close>: the current id, and the counter moves on (16 bits).\<close>

definition CoAPMessageId_gen :: "coap_context \<Rightarrow> u16 \<times> coap_context" where
  "CoAPMessageId_gen c = (ctx_message_id c, c\<lparr>ctx_message_id := ctx_message_id c + 1\<rparr>)"

text \<open>
  Size of the encoded datagram: a 4-byte header, the token, one header byte per
  option and its value, and the payload after a marker byte.  Option headers of
  more than one byte are not counted: this is a lower bound of the real size.
\<close>

fun coap_opt_size :: "coap_option_num \<times> coap_opt_val \<Rightarrow> nat" where
  "coap_opt_size (n, OptStr s) = 1 + length s"
| "coap_opt_size (n, OptUint v) = 2"

definition coap_msg_size :: "coap_message \<Rightarrow> nat" where
  "coap_msg_size m = 4 + length (msg_token m) + sum_list (map coap_opt_size (msg_options m))
     + (if msg_payload m = [] then 0 else 1 + length (msg_payload m))"

text \<open>\<open>CoAPMessage_send\<close>: a message too large for one PDU is refused with
  \<open>COAP_ERROR_DATA_SIZE\<close>; otherwise it goes on the wire unless the network fails.\<close>

definition CoAPMessage_send :: "coap_context \<Rightarrow> coap_message \<Rightarrow> coap_ret \<times> coap_context" where
  "CoAPMessage_send c m =
     (if COAP_MSG_MAX_PDU_LEN < coap_msg_size m then (COAP_ERROR_DATA_SIZE, c)
      else if \<not> ctx_net_ok c then (COAP_ERROR_NET, c)
      else (COAP_SUCCESS, c\<lparr>ctx_sent := ctx_sent c @ [m]\<rparr>))"

text \<open>The request a response answers: the latest sent message with its token.\<close>

definition find_request :: "coap_context \<Rightarrow> u8 list \<Rightarrow> coap_message option" where
  "find_request c tok = find (\<lambda>m. msg_token m = tok) (rev (ctx_sent c))"

section \<open>The session object\<close>

text \<open>\<open>iotx_coap_t\<close> (lines 46--54).  A pointer field is an option: \<open>None\<close> is NULL.
  The token buffer holds a C string.\<close>

record iotx_coap =
  p_auth_token :: "string option"
  auth_token_len :: nat
  is_authed :: bool
  p_devinfo :: "iotx_deviceinfo option"
  p_coap_ctx :: "coap_context option"
  coap_token :: u32
  event_handle :: "nat option"

section \<open>The host\<close>

text \<open>
  The heap is a multiset of live blocks, named by what they hold.  An allocation
  of a block kind in \<open>alloc_fail\<close> returns NULL.  The host also provides the keyed
  digest \<open>utils_hmac_md5\<close>, the partner and module identifiers, and a clock that
  \<open>HAL_SleepMs\<close> advances.  \<open>c_ub\<close> records that the code has done something
  undefined in C: written past a stack buffer, or used a pointer as an object of
  another type.  As a failed guard in a C semantics, it ends what the model says
  of a run: the step that reaches it returns the world with the flag set and
  stops, and no theorem describes the world after it except through the flag.
  \<open>net_inbox\<close> and \<open>net_up\<close> are the network an engine context
  created now would see: the responses the server will send and whether
  datagrams go out.
\<close>

datatype block =
    B_iotx_coap
  | B_auth_token
  | B_devinfo
  | B_coap_ctx
  | B_sign_src
  | B_auth_payload
  | B_json_value
  | B_mid_payload

record world =
  w_ctx :: "iotx_coap option"
  heap :: "block multiset"
  alloc_fail :: "block set"
  hal_hmac :: "string \<Rightarrow> string \<Rightarrow> string"
  partner_id :: string
  module_id :: string
  clock_ms :: nat
  c_ub :: bool
  net_inbox :: "coap_response list"
  net_up :: bool

text \<open>A host with nothing allocated, no failing allocation and no session, for
  the witnesses.\<close>

definition example_world :: world where
  "example_world = \<lparr>w_ctx = None, heap = {#}, alloc_fail = {}, hal_hmac = (\<lambda>msg key. msg),
     partner_id = [], module_id = [], clock_ms = 0, c_ub = False, net_inbox = [], net_up = True\<rparr>"

text \<open>A session as \<open>IOT_CoAP_Init\<close> leaves it, for the witnesses.\<close>

definition example_devinfo :: iotx_deviceinfo where
  "example_devinfo = \<lparr>product_key = ''pk01'', device_name = ''lamp'', device_id = ''pk01.lamp'',
     device_secret = ''secret''\<rparr>"

definition example_ctx :: coap_context where
  "example_ctx = \<lparr>ctx_url = ''coaps://pk01.iot-as-coap.cn-shanghai.aliyuncs.com:5684'',
     ctx_maxcount = 10, ctx_waittime = 2000, ctx_message_id = 1, ctx_sent = [], ctx_inbox = [],
     ctx_net_ok = True\<rparr>"

definition example_session :: iotx_coap where
  "example_session = \<lparr>p_auth_token = Some [], auth_token_len = 193, is_authed = False,
     p_devinfo = Some example_devinfo, p_coap_ctx = Some example_ctx, coap_token = 0x01020304,
     event_handle = None\<rparr>"

definition coap_malloc :: "block \<Rightarrow> world \<Rightarrow> bool \<times> world" where
  "coap_malloc b w =
     (if b \<in> alloc_fail w then (False, w) else (True, w\<lparr>heap := heap w + {#b#}\<rparr>))"

definition coap_free :: "block \<Rightarrow> world \<Rightarrow> world" where
  "coap_free b w = w\<lparr>heap := heap w - {#b#}\<rparr>"

text \<open>Helpers to reach the session and the engine context through their pointers.\<close>

definition map_sess :: "(iotx_coap \<Rightarrow> iotx_coap) \<Rightarrow> world \<Rightarrow> world" where
  "map_sess f w = w\<lparr>w_ctx := map_option f (w_ctx w)\<rparr>"

definition get_cctx :: "world \<Rightarrow> coap_context option" where
  "get_cctx w = (case w_ctx w of Some s \<Rightarrow> p_coap_ctx s | None \<Rightarrow> None)"

definition map_cctx :: "(coap_context \<Rightarrow> coap_context) \<Rightarrow> world \<Rightarrow> world" where
  "map_cctx f = map_sess (\<lambda>s. s\<lparr>p_coap_ctx := map_option f (p_coap_ctx s)\<rparr>)"

definition inbox_len :: "world \<Rightarrow> nat" where
  "inbox_len w = (case get_cctx w of Some c \<Rightarrow> length (ctx_inbox c) | None \<Rightarrow> 0)"

definition sess_authed :: "world \<Rightarrow> bool" where
  "sess_authed w = (case w_ctx w of Some s \<Rightarrow> is_authed s | None \<Rightarrow> False)"

definition mark_ub :: "world \<Rightarrow> world" where
  "mark_ub w = w\<lparr>c_ub := True\<rparr>"

definition HAL_SleepMs :: "nat \<Rightarrow> world \<Rightarrow> world" where
  "HAL_SleepMs ms w = w\<lparr>clock_ms := clock_ms w + ms\<rparr>"

lemma coap_malloc_free:
  "coap_malloc b w = (True, w') \<Longrightarrow> heap (coap_free b w') = heap w"
  by (auto simp: coap_malloc_def coap_free_def split: if_splits)

lemma coap_malloc_heap:
  "coap_malloc b w = (ok, w') \<Longrightarrow> heap w' = (if ok then heap w + {#b#} else heap w)"
  by (auto simp: coap_malloc_def split: if_splits)

lemma coap_malloc_other:
  "coap_malloc b w = (ok, w') \<Longrightarrow> w_ctx w' = w_ctx w \<and> alloc_fail w' = alloc_fail w
     \<and> hal_hmac w' = hal_hmac w \<and> clock_ms w' = clock_ms w \<and> c_ub w' = c_ub w
     \<and> partner_id w' = partner_id w \<and> module_id w' = module_id w"
  by (auto simp: coap_malloc_def split: if_splits)

lemmas engine_defs = CoAPMessage_init_def CoAPStrOption_add_def CoAPUintOption_add_def
  CoAPMessageId_gen_def CoAPMessage_send_def

end
