(* ===== verification/Coap_Token.thy ===== *)
theory Coap_Token
  imports Coap_Model
begin

text \<open>
  The correlation token generator \<open>iotx_get_coap_token\<close> (lines 144--153): the
  session's 32-bit counter \<open>coap_token\<close> is written out as four bytes, least
  significant first, and post-incremented with C's unsigned wrap-around.
  Lemmas: the bytes decode back to the counter and the counter is
  post-incremented modulo \<open>2^32\<close>, and any \<open>2^32\<close> successive calls produce
  pairwise distinct tokens.
\<close>

definition iotx_get_coap_token :: "iotx_coap \<Rightarrow> u8 list \<times> iotx_coap" where
  "iotx_get_coap_token s =
     (let value = coap_token s
      in ([ucast (drop_bit 0 (value AND 0xFF)), ucast (drop_bit 8 (value AND 0xFF00)),
           ucast (drop_bit 16 (value AND 0xFF0000)), ucast (drop_bit 24 (value AND 0xFF000000))],
          s\<lparr>coap_token := value + 1\<rparr>))"

text \<open>Little-endian reading of a byte string, the inverse the server applies.\<close>

definition le_decode :: "u8 list \<Rightarrow> u32" where
  "le_decode bs = foldr (\<lambda>b acc. ucast b OR push_bit 8 acc) bs 0"

text \<open>The four bytes of a counter value, least significant first.\<close>

definition u32_le_bytes :: "u32 \<Rightarrow> u8 list" where
  "u32_le_bytes v = [ucast (v AND 0xFF), ucast (drop_bit 8 (v AND 0xFF00)),
     ucast (drop_bit 16 (v AND 0xFF0000)), ucast (drop_bit 24 (v AND 0xFF000000))]"

text \<open>\<open>n\<close> successive calls: the tokens in order, and the final session.\<close>

fun coap_tokens :: "nat \<Rightarrow> iotx_coap \<Rightarrow> u8 list list \<times> iotx_coap" where
  "coap_tokens 0 s = ([], s)"
| "coap_tokens (Suc n) s =
     (let (t, s') = iotx_get_coap_token s; (ts, s'') = coap_tokens n s' in (t # ts, s''))"

lemma iotx_get_coap_token_snd [coap_simps]:
  "snd (iotx_get_coap_token s) = s\<lparr>coap_token := coap_token s + 1\<rparr>"
  by (simp add: iotx_get_coap_token_def Let_def)

lemma iotx_get_coap_token_length [coap_simps]:
  "length (fst (iotx_get_coap_token s)) = 4"
  by (simp add: iotx_get_coap_token_def Let_def)

lemma iotx_get_coap_token_fst [coap_simps]: "fst (iotx_get_coap_token s) = u32_le_bytes (coap_token s)"
  by (simp add: iotx_get_coap_token_def u32_le_bytes_def Let_def)

lemma le_decode_token: "le_decode (fst (iotx_get_coap_token s)) = coap_token s"
proof (rule bit_word_eqI)
  fix n :: nat
  assume "n < LENGTH(32)"
  then consider "n < 8" | "8 \<le> n \<and> n < 16" | "16 \<le> n \<and> n < 24" | "24 \<le> n \<and> n < 32"
    by fastforce
  then show "bit (le_decode (fst (iotx_get_coap_token s))) n = bit (coap_token s) n"
    unfolding iotx_get_coap_token_def le_decode_def byte_masks_u32 Let_def
    by cases (auto simp: bit_simps)
qed

lemma coap_token_bytes_inj:
  "coap_token s = coap_token s' \<longleftrightarrow> fst (iotx_get_coap_token s) = fst (iotx_get_coap_token s')"
proof
  assume "coap_token s = coap_token s'"
  then show "fst (iotx_get_coap_token s) = fst (iotx_get_coap_token s')"
    by (simp add: iotx_get_coap_token_def Let_def)
next
  assume "fst (iotx_get_coap_token s) = fst (iotx_get_coap_token s')"
  then have "le_decode (fst (iotx_get_coap_token s)) = le_decode (fst (iotx_get_coap_token s'))"
    by simp
  then show "coap_token s = coap_token s'"
    by (simp add: le_decode_token)
qed

lemma coap_tokens_nth:
  "i < n \<Longrightarrow> le_decode (fst (coap_tokens n s) ! i) = coap_token s + word_of_nat i"
proof (induction n arbitrary: s i)
  case 0
  then show ?case by simp
next
  case (Suc n)
  show ?case
  proof (cases i)
    case 0
    then show ?thesis
      by (simp add: split_def Let_def le_decode_token)
  next
    case (Suc j)
    with Suc.prems have "j < n" by simp
    then have "le_decode (fst (coap_tokens n (snd (iotx_get_coap_token s))) ! j)
        = coap_token s + 1 + word_of_nat j"
      using Suc.IH by (simp add: iotx_get_coap_token_snd)
    with Suc show ?thesis
      by (simp add: split_def Let_def add.assoc)
  qed
qed

lemma coap_tokens_length [simp]: "length (fst (coap_tokens n s)) = n"
  by (induction n arbitrary: s) (simp_all add: split_def Let_def)

lemma coap_tokens_distinct_helper:
  assumes "n \<le> 2 ^ 32" and "i < n" and "j < n" and "fst (coap_tokens n s) ! i = fst (coap_tokens n s) ! j"
  shows "i = j"
proof -
  have "coap_token s + word_of_nat i = coap_token s + word_of_nat j"
    using assms(4) coap_tokens_nth [OF assms(2), of s] coap_tokens_nth [OF assms(3), of s] by simp
  then have "(word_of_nat i :: u32) = word_of_nat j" by simp
  then show "i = j" using assms(1-3) by (intro u32_of_nat_inj) simp_all
qed

lemma coap_tokens_counter:
  "coap_token (snd (coap_tokens n s)) = coap_token s + word_of_nat n"
  by (induction n arbitrary: s) (simp_all add: split_def Let_def iotx_get_coap_token_snd add.assoc)

subsection \<open>Properties of the generator\<close>

text \<open>C24: the four token bytes are the counter in little-endian order (reading them
  back gives the counter), and the call post-increments the counter.\<close>

theorem iotx_get_coap_token_roundtrip:
  "le_decode (fst (iotx_get_coap_token s)) = coap_token s
   \<and> length (fst (iotx_get_coap_token s)) = 4
   \<and> snd (iotx_get_coap_token s) = s\<lparr>coap_token := coap_token s + 1\<rparr>"
  by (simp add: le_decode_token iotx_get_coap_token_length iotx_get_coap_token_snd)

text \<open>C25: the tokens of up to \<open>2^32\<close> successive calls are pairwise distinct, so a
  response can be matched to its request for that many requests in flight.\<close>

theorem coap_tokens_distinct:
  assumes "n \<le> 2 ^ 32"
  shows "distinct (fst (coap_tokens n s))"
  unfolding distinct_conv_nth
  using coap_tokens_distinct_helper [OF assms, of _ _ s] by auto

theorem coap_tokens_distinct_witness:
  "distinct (fst (coap_tokens 3 \<lparr>p_auth_token = None, auth_token_len = 0, is_authed = False,
     p_devinfo = None, p_coap_ctx = None, coap_token = IOTX_COAP_INIT_TOKEN, event_handle = None\<rparr>))"
  using coap_tokens_distinct [of 3] by simp

end
