(* ===== verification/Coap_Path.thy ===== *)
theory Coap_Path
  imports Coap_Model
begin

text \<open>
  The path encoder \<open>iotx_split_path_2_option\<close> (lines 406--444).  The C loop walks
  \<open>ptr\<close> over the URI; \<open>pstr\<close> marks the start of the current segment.  In the model
  \<open>split_loop pstr rest m\<close> carries the characters from \<open>pstr\<close> up to \<open>ptr\<close>, the
  characters from \<open>ptr\<close> on, and the message whose option list grows.  The second
  result says whether a \<open>strncpy\<close> of a segment closed by \<open>/\<close> has overrun the
  \<open>COAP_MSG_MAX_PATH_LEN\<close>-byte stack buffer \<open>path\<close> (or left it unterminated,
  so that \<open>strlen\<close> reads past it): undefined behaviour in C.
  The reference \<open>uri_path_segments\<close> splits at every \<open>/\<close> and drops the empty
  pieces; the loop implements it whenever every segment fits the buffer.
\<close>

fun split_loop :: "string \<Rightarrow> string \<Rightarrow> coap_message \<Rightarrow> coap_message \<times> bool" where
  "split_loop pstr [] m = (m, False)"
| "split_loop pstr (c # rest) m =
     (let (m1, ovf, pstr') =
          (if c = CHR ''/'' then
             (if pstr \<noteq> []
              then (CoAPStrOption_add m COAP_OPTION_URI_PATH pstr, COAP_MSG_MAX_PATH_LEN \<le> length pstr, [])
              else (m, False, []))
           else (m, False, pstr @ [c]));
          m2 = (if rest = [] \<and> pstr' \<noteq> []
                then CoAPStrOption_add m1 COAP_OPTION_URI_PATH (take (COAP_MSG_MAX_PATH_LEN - 1) pstr')
                else m1);
          (m3, ovf') = split_loop pstr' rest m2
      in (m3, ovf \<or> ovf'))"

definition iotx_split_path_2_option ::
  "string option \<Rightarrow> coap_message option \<Rightarrow> iotx_ret \<times> coap_message option \<times> bool" where
  "iotx_split_path_2_option uri message =
     (case (uri, message) of
        (Some u, Some m) \<Rightarrow>
          (if IOTX_URI_MAX_LEN < length u then (IOTX_ERR_URI_TOO_LOOG, Some m, False)
           else (let (m', ovf) = split_loop [] u m in (IOTX_SUCCESS, Some m', ovf)))
      | _ \<Rightarrow> (IOTX_ERR_INVALID_PARAM, message, False))"

subsection \<open>Reference: the non-empty pieces between slashes\<close>

fun split_on :: "char \<Rightarrow> string \<Rightarrow> string list" where
  "split_on d [] = [[]]"
| "split_on d (x # xs) = (let r = split_on d xs in if x = d then [] # r else (x # hd r) # tl r)"

definition uri_path_segments :: "string \<Rightarrow> string list" where
  "uri_path_segments u = filter (\<lambda>s. s \<noteq> []) (split_on (CHR ''/'') u)"

definition uri_path_options :: "string \<Rightarrow> (coap_option_num \<times> coap_opt_val) list" where
  "uri_path_options u = map (\<lambda>s. (COAP_OPTION_URI_PATH, OptStr s)) (uri_path_segments u)"

text \<open>Segments closed by a slash that do not fit \<open>path\<close> with its terminator.\<close>

definition path_fits :: "string \<Rightarrow> bool" where
  "path_fits u \<longleftrightarrow> list_all (\<lambda>s. length s < COAP_MSG_MAX_PATH_LEN) (split_on (CHR ''/'') u)"

text \<open>The pieces closed by a slash that overrun \<open>path\<close>.\<close>

definition path_overflows :: "string \<Rightarrow> bool" where
  "path_overflows u \<longleftrightarrow>
     list_ex (\<lambda>s. COAP_MSG_MAX_PATH_LEN \<le> length s) (butlast (split_on (CHR ''/'') u))"

lemma split_on_not_Nil [simp]: "split_on d xs \<noteq> []"
  by (induction xs) (simp_all add: Let_def)

lemma split_on_no_delim:
  "d \<notin> set p \<Longrightarrow> split_on d (p @ xs) = (p @ hd (split_on d xs)) # tl (split_on d xs)"
  by (induction p) (auto simp: Let_def)

lemma split_on_delim:
  "d \<notin> set p \<Longrightarrow> split_on d (p @ d # xs) = p # split_on d xs"
  by (simp add: split_on_no_delim Let_def)

lemma uri_path_segments_slash:
  "CHR ''/'' \<notin> set p \<Longrightarrow>
     uri_path_segments (p @ CHR ''/'' # xs) = (if p = [] then [] else [p]) @ uri_path_segments xs"
  by (simp add: uri_path_segments_def split_on_delim)

lemma uri_path_segments_last:
  "CHR ''/'' \<notin> set p \<Longrightarrow> uri_path_segments p = (if p = [] then [] else [p])"
  using split_on_no_delim [of "CHR ''/''" p "[]"] by (simp add: uri_path_segments_def)

lemma path_fits_slash:
  "CHR ''/'' \<notin> set p \<Longrightarrow> path_fits (p @ CHR ''/'' # xs) \<longleftrightarrow> length p < COAP_MSG_MAX_PATH_LEN \<and> path_fits xs"
  by (simp add: path_fits_def split_on_delim)

lemma path_fits_last:
  "CHR ''/'' \<notin> set p \<Longrightarrow> path_fits p \<longleftrightarrow> length p < COAP_MSG_MAX_PATH_LEN"
  using split_on_no_delim [of "CHR ''/''" p "[]"] by (simp add: path_fits_def)

lemma CoAPStrOption_add_options [simp]:
  "msg_options (CoAPStrOption_add m n v) = msg_options m @ [(n, OptStr v)]"
  by (simp add: CoAPStrOption_add_def)

lemma CoAPStrOption_add_fields [simp]:
  "msg_type (CoAPStrOption_add m n v) = msg_type m"
  "msg_code (CoAPStrOption_add m n v) = msg_code m"
  "msg_id (CoAPStrOption_add m n v) = msg_id m"
  "msg_token (CoAPStrOption_add m n v) = msg_token m"
  "msg_handler (CoAPStrOption_add m n v) = msg_handler m"
  "msg_user (CoAPStrOption_add m n v) = msg_user m"
  "msg_payload (CoAPStrOption_add m n v) = msg_payload m"
  by (simp_all add: CoAPStrOption_add_def)

text \<open>The loop only adds options: every other field of the message is kept.\<close>

lemma split_loop_keeps:
  "msg_type (fst (split_loop p u m)) = msg_type m \<and> msg_code (fst (split_loop p u m)) = msg_code m
   \<and> msg_id (fst (split_loop p u m)) = msg_id m \<and> msg_token (fst (split_loop p u m)) = msg_token m
   \<and> msg_handler (fst (split_loop p u m)) = msg_handler m \<and> msg_user (fst (split_loop p u m)) = msg_user m
   \<and> msg_payload (fst (split_loop p u m)) = msg_payload m"
  by (induction u arbitrary: p m) (simp_all add: Let_def split_def)

lemma path_max_pos [simp]: "0 < COAP_MSG_MAX_PATH_LEN"
  by (simp add: COAP_MSG_MAX_PATH_LEN_def)

lemma path_overflows_slash:
  "CHR ''/'' \<notin> set p \<Longrightarrow>
     path_overflows (p @ CHR ''/'' # xs) \<longleftrightarrow> COAP_MSG_MAX_PATH_LEN \<le> length p \<or> path_overflows xs"
  by (simp add: path_overflows_def split_on_delim)

lemma path_overflows_last:
  "CHR ''/'' \<notin> set p \<Longrightarrow> \<not> path_overflows p"
  using split_on_no_delim [of "CHR ''/''" p "[]"] by (simp add: path_overflows_def)

lemma split_on_piece_length: "x \<in> set (split_on d u) \<Longrightarrow> length x \<le> length u"
proof (induction u arbitrary: x)
  case Nil
  then show ?case by simp
next
  case (Cons c cs)
  obtain r0 rs where r: "split_on d cs = r0 # rs" by (cases "split_on d cs") auto
  have IH: "\<forall>y \<in> set (split_on d cs). length y \<le> length cs" using Cons.IH by blast
  show ?case using Cons.prems r IH by (auto simp: Let_def split: if_splits intro: le_SucI)
qed

lemma path_fits_short: "length u < COAP_MSG_MAX_PATH_LEN \<Longrightarrow> path_fits u"
  unfolding path_fits_def list_all_iff by (fastforce dest: split_on_piece_length)

subsection \<open>The loop against the reference\<close>

lemma split_loop_reference:
  "CHR ''/'' \<notin> set p \<Longrightarrow> rest \<noteq> [] \<or> p = [] \<Longrightarrow> path_fits (p @ rest) \<Longrightarrow>
   split_loop p rest m
   = (m\<lparr>msg_options := msg_options m @ uri_path_options (p @ rest)\<rparr>, False)"
proof (induction rest arbitrary: p m)
  case Nil
  then show ?case by (simp add: uri_path_options_def uri_path_segments_def)
next
  case (Cons c rest)
  show ?case
  proof (cases "c = CHR ''/''")
    case True
    from Cons.prems(1,3) True have fits: "length p < COAP_MSG_MAX_PATH_LEN" "path_fits rest"
      by (simp_all add: path_fits_slash)
    have seg: "uri_path_segments (p @ c # rest) = (if p = [] then [] else [p]) @ uri_path_segments rest"
      using Cons.prems(1) True by (simp add: uri_path_segments_slash)
    show ?thesis
      using Cons.IH [of "[]"] fits True seg
      by (auto simp: Let_def CoAPStrOption_add_def uri_path_options_def)
  next
    case False
    show ?thesis
    proof (cases "rest = []")
      case True
      have "CHR ''/'' \<notin> set (p @ [c])" using Cons.prems(1) False by simp
      then have "length (p @ [c]) < COAP_MSG_MAX_PATH_LEN" "uri_path_segments (p @ [c]) = [p @ [c]]"
        using Cons.prems(3) True by (simp_all add: path_fits_last uri_path_segments_last)
      with False True show ?thesis
        by (simp add: Let_def CoAPStrOption_add_def uri_path_options_def)
    next
      case nonempty: False
      have "split_loop (p @ [c]) rest m
          = (m\<lparr>msg_options := msg_options m @ uri_path_options ((p @ [c]) @ rest)\<rparr>, False)"
        using Cons.prems(1,3) False nonempty by (intro Cons.IH) simp_all
      with False nonempty show ?thesis by (simp add: Let_def)
    qed
  qed
qed

lemma split_loop_overrun:
  "CHR ''/'' \<notin> set p \<Longrightarrow> rest \<noteq> [] \<or> p = [] \<Longrightarrow>
     snd (split_loop p rest m) \<longleftrightarrow> path_overflows (p @ rest)"
proof (induction rest arbitrary: p m)
  case Nil
  then show ?case by (simp add: path_overflows_def)
next
  case (Cons c rest)
  show ?case
  proof (cases "c = CHR ''/''")
    case True
    have "path_overflows (p @ c # rest) \<longleftrightarrow> COAP_MSG_MAX_PATH_LEN \<le> length p \<or> path_overflows rest"
      using True Cons.prems(1) by (simp add: path_overflows_slash)
    moreover have "snd (split_loop p (c # rest) m)
        \<longleftrightarrow> (p \<noteq> [] \<and> COAP_MSG_MAX_PATH_LEN \<le> length p) \<or> path_overflows rest"
      using True Cons.IH [of "[]"] by (simp add: Let_def split_def)
    ultimately show ?thesis
      using path_max_pos by (cases "p = []") auto
  next
    case False
    show ?thesis
    proof (cases "rest = []")
      case True
      with False Cons.prems(1) show ?thesis
        using path_overflows_last [of "p @ [c]"] by (simp add: Let_def split_def)
    next
      case nonempty: False
      have "snd (split_loop (p @ [c]) rest m') \<longleftrightarrow> path_overflows ((p @ [c]) @ rest)" for m'
        using Cons.prems(1) False nonempty by (intro Cons.IH) simp_all
      with False nonempty show ?thesis by (simp add: Let_def split_def)
    qed
  qed
qed

lemma split_loop_last:
  "CHR ''/'' \<notin> set (p @ rest) \<Longrightarrow> rest \<noteq> [] \<Longrightarrow>
     split_loop p rest m
     = (CoAPStrOption_add m COAP_OPTION_URI_PATH (take (COAP_MSG_MAX_PATH_LEN - 1) (p @ rest)), False)"
proof (induction rest arbitrary: p)
  case Nil
  then show ?case by simp
next
  case (Cons c rest)
  have c: "c \<noteq> CHR ''/''" using Cons.prems(1) by auto
  show ?case
  proof (cases "rest = []")
    case True
    with c show ?thesis by (simp add: Let_def)
  next
    case False
    with c Cons.prems(1) show ?thesis
      using Cons.IH [of "p @ [c]"] by (simp add: Let_def split_def)
  qed
qed

subsection \<open>Properties of the encoder\<close>

text \<open>C16: a URI of at most \<open>IOTX_URI_MAX_LEN\<close> characters whose segments fit the
  \<open>path\<close> buffer is accepted, and the message gains exactly one URI-path option per
  non-empty piece between slashes, in order.\<close>

lemma iotx_split_path_2_option_reference:
  assumes "length u \<le> IOTX_URI_MAX_LEN" and "path_fits u"
  shows "iotx_split_path_2_option (Some u) (Some m)
       = (IOTX_SUCCESS, Some (m\<lparr>msg_options := msg_options m @ uri_path_options u\<rparr>), False)"
  using assms split_loop_reference [of "[]" u m] by (simp add: iotx_split_path_2_option_def)

lemma iotx_split_path_2_option_reference_witness:
  "length ''/a/b/c'' \<le> IOTX_URI_MAX_LEN \<and> path_fits ''/a/b/c''
   \<and> iotx_split_path_2_option (Some ''/a/b/c'') (Some CoAPMessage_init)
     = (IOTX_SUCCESS, Some (CoAPMessage_init\<lparr>msg_options :=
         [(COAP_OPTION_URI_PATH, OptStr ''a''), (COAP_OPTION_URI_PATH, OptStr ''b''),
          (COAP_OPTION_URI_PATH, OptStr ''c'')]\<rparr>), False)"
proof -
  have h: "length ''/a/b/c'' \<le> IOTX_URI_MAX_LEN" "path_fits ''/a/b/c''"
    by (simp_all add: IOTX_URI_MAX_LEN_def path_fits_def COAP_MSG_MAX_PATH_LEN_def)
  show ?thesis
    using iotx_split_path_2_option_reference [OF h, of CoAPMessage_init] h
    by (simp add: uri_path_options_def uri_path_segments_def CoAPMessage_init_def)
qed

lemma uri_path_segments_empty_pieces: "uri_path_segments ''a//b/'' = [''a'', ''b'']"
  by (simp add: uri_path_segments_def)

text \<open>C28: a URI longer than \<open>IOTX_URI_MAX_LEN\<close> is rejected with
  \<open>IOTX_ERR_URI_TOO_LOOG\<close> and the message is left as it was (a URI of exactly the
  maximum length is accepted, by C20).\<close>

lemma iotx_split_path_2_option_too_long:
  assumes "IOTX_URI_MAX_LEN < length u"
  shows "iotx_split_path_2_option (Some u) (Some m) = (IOTX_ERR_URI_TOO_LOOG, Some m, False)"
  using assms by (simp add: iotx_split_path_2_option_def)

lemma iotx_split_path_2_option_too_long_witness:
  "IOTX_URI_MAX_LEN < length (replicate 136 CHR ''a'')
   \<and> iotx_split_path_2_option (Some (replicate 136 CHR ''a'')) (Some CoAPMessage_init)
     = (IOTX_ERR_URI_TOO_LOOG, Some CoAPMessage_init, False)"
proof -
  have h: "IOTX_URI_MAX_LEN < length (replicate 136 CHR ''a'')"
    by (simp add: IOTX_URI_MAX_LEN_def)
  show ?thesis using iotx_split_path_2_option_too_long [OF h] h by simp
qed

text \<open>C17: the encoder writes past its stack buffer \<open>path\<close> exactly when the URI passes
  the length check and some piece closed by a slash has \<open>COAP_MSG_MAX_PATH_LEN\<close> or more
  characters; since \<open>IOTX_URI_MAX_LEN\<close> exceeds the buffer, such URIs exist.\<close>

lemma iotx_split_path_2_option_overrun:
  "snd (snd (iotx_split_path_2_option (Some u) (Some m)))
     \<longleftrightarrow> length u \<le> IOTX_URI_MAX_LEN \<and> path_overflows u"
  using split_loop_overrun [of "[]" u m]
  by (simp add: iotx_split_path_2_option_def split_def)

lemma iotx_split_path_2_option_overrun_witness:
  "snd (snd (iotx_split_path_2_option (Some (replicate 128 CHR ''a'' @ ''/b'')) (Some CoAPMessage_init)))"
  using iotx_split_path_2_option_overrun [of "replicate 128 CHR ''a'' @ ''/b''" CoAPMessage_init]
  by (simp add: IOTX_URI_MAX_LEN_def path_overflows_def COAP_MSG_MAX_PATH_LEN_def split_on_delim)

text \<open>C35: the last piece of a URI, not closed by a slash, is cut to
  \<open>COAP_MSG_MAX_PATH_LEN - 1\<close> characters without an error.\<close>

lemma iotx_split_path_2_option_truncates_last:
  assumes "CHR ''/'' \<notin> set u" and "u \<noteq> []" and "length u \<le> IOTX_URI_MAX_LEN"
  shows "iotx_split_path_2_option (Some u) (Some m)
       = (IOTX_SUCCESS, Some (CoAPStrOption_add m COAP_OPTION_URI_PATH (take (COAP_MSG_MAX_PATH_LEN - 1) u)), False)"
  using assms split_loop_last [of "[]" u m] by (simp add: iotx_split_path_2_option_def)

lemma iotx_split_path_2_option_truncates_last_witness:
  "iotx_split_path_2_option (Some (replicate 130 CHR ''a'')) (Some CoAPMessage_init)
   = (IOTX_SUCCESS, Some (CoAPStrOption_add CoAPMessage_init COAP_OPTION_URI_PATH (replicate 127 CHR ''a'')), False)"
proof -
  have h: "CHR ''/'' \<notin> set (replicate 130 CHR ''a'')" "replicate 130 CHR ''a'' \<noteq> []"
    "length (replicate 130 CHR ''a'') \<le> IOTX_URI_MAX_LEN"
    by (simp_all add: IOTX_URI_MAX_LEN_def)
  show ?thesis
    using iotx_split_path_2_option_truncates_last [OF h, of CoAPMessage_init]
    by (simp add: COAP_MSG_MAX_PATH_LEN_def)
qed

subsection \<open>Size of the path options\<close>

text \<open>Each segment costs one header byte and its characters, so the
  path options of \<open>u\<close> take at most \<open>length u + 1\<close> bytes.\<close>

lemma split_on_size: "sum_list (map (\<lambda>s. Suc (length s)) (split_on d u)) = Suc (length u)"
proof (induction u)
  case (Cons x xs)
  then show ?case
    by (cases "split_on d xs") (auto simp: Let_def)
qed simp

lemma uri_path_options_size:
  "sum_list (map coap_opt_size (uri_path_options u)) \<le> Suc (length u)"
proof -
  have "sum_list (map coap_opt_size (uri_path_options u))
      = sum_list (map (\<lambda>s. Suc (length s)) (uri_path_segments u))"
    by (simp add: uri_path_options_def comp_def)
  also have "\<dots> \<le> sum_list (map (\<lambda>s. Suc (length s)) (split_on (CHR ''/'') u))"
    unfolding uri_path_segments_def by (rule sum_list_filter_le_nat)
  finally show ?thesis by (simp add: split_on_size)
qed

end
