(* ===== verification/Coap_Json.thy ===== *)
theory Coap_Json
  imports Coap_Model
begin

text \<open>
  The token extractor \<open>iotx_get_token_from_json\<close> (lines 81--101) and the JSON
  lookup it calls.  \<open>LITE_json_value_of\<close> belongs to the utility library, not to
  \<open>src/\<close>: it is modelled from the specification as a scan for the member
  \<open>"key":"\<close> of a flat object whose value is a string without escapes, returning
  a heap copy of the value (a \<open>B_json_value\<close> block, NULL when the allocation
  fails).  Lemmas: the extractor returns the token of a well-formed response
  (round trip with \<open>token_json\<close>), rejects a value that does not fit the buffer,
  and reports a missing member as an authentication failure.
\<close>

fun json_scan :: "string \<Rightarrow> string \<Rightarrow> string option" where
  "json_scan pat [] = None"
| "json_scan pat (c # cs) =
     (if take (length pat) (c # cs) = pat
      then Some (takeWhile (\<lambda>x. x \<noteq> CHR ''\"'') (drop (length pat) (c # cs)))
      else json_scan pat cs)"

definition json_key_pattern :: "string \<Rightarrow> string" where
  "json_key_pattern key = CHR ''\"'' # key @ ''\":\"''"

definition LITE_json_value_of :: "string \<Rightarrow> string \<Rightarrow> world \<Rightarrow> string option \<times> world" where
  "LITE_json_value_of key src w =
     (case json_scan (json_key_pattern key) src of
        None \<Rightarrow> (None, w)
      | Some v \<Rightarrow> (let (ok, w') = coap_malloc B_json_value w in (if ok then Some v else None, w')))"

text \<open>
  \<open>p_token\<close> is the session's token buffer of \<open>len\<close> bytes, \<open>None\<close> for NULL.  The
  test \<open>len - 1 < strlen(p_value)\<close> compares an \<open>int\<close> with a \<open>size_t\<close>: for
  \<open>len = 0\<close> the left side converts to the largest unsigned value and the test fails.
  On the too-short path the copy \<open>p_value\<close> is not freed.
\<close>

definition iotx_get_token_from_json ::
  "string option \<Rightarrow> string option \<Rightarrow> nat \<Rightarrow> world \<Rightarrow> iotx_ret \<times> string option \<times> world" where
  "iotx_get_token_from_json p_str p_token len w =
     (case (p_str, p_token) of
        (Some str, Some tok) \<Rightarrow>
          (case LITE_json_value_of ''token'' str w of
             (Some v, w1) \<Rightarrow>
               (if len \<noteq> 0 \<and> len - 1 < length v then (IOTX_ERR_BUFF_TOO_SHORT, p_token, w1)
                else (IOTX_SUCCESS, Some v, coap_free B_json_value w1))
           | (None, w1) \<Rightarrow> (IOTX_ERR_AUTH_FAILED, p_token, w1))
      | _ \<Rightarrow> (IOTX_ERR_INVALID_PARAM, p_token, w))"

text \<open>The response body the server sends, as the specification gives it.\<close>

definition token_json :: "string \<Rightarrow> string" where
  "token_json t = ''{\"token\":\"'' @ t @ ''\"}''"

declare json_scan.simps(2) [simp del]

lemma json_scan_here:
  "pat \<noteq> [] \<Longrightarrow> json_scan pat (pat @ rest) = Some (takeWhile (\<lambda>x. x \<noteq> CHR ''\"'') rest)"
proof -
  assume "pat \<noteq> []"
  then obtain c cs where "pat = c # cs" by (cases pat) auto
  then show ?thesis by (simp only: append_Cons json_scan.simps(2)) simp
qed

lemma json_scan_token_json:
  "CHR ''\"'' \<notin> set t \<Longrightarrow> json_scan (json_key_pattern ''token'') (token_json t) = Some t"
proof -
  assume t: "CHR ''\"'' \<notin> set t"
  have split: "token_json t = CHR ''{'' # (json_key_pattern ''token'' @ t @ ''\"}'')"
    by (simp add: token_json_def json_key_pattern_def)
  have skip: "take (length (json_key_pattern ''token'')) (token_json t) \<noteq> json_key_pattern ''token''"
    by (simp add: token_json_def json_key_pattern_def)
  have tw: "takeWhile (\<lambda>x. x \<noteq> CHR ''\"'') (t @ ''\"}'') = t"
    using t by (intro takeWhile_append_stop) auto
  have "json_scan (json_key_pattern ''token'') (token_json t)
      = json_scan (json_key_pattern ''token'') (json_key_pattern ''token'' @ t @ ''\"}'')"
    using skip by (simp only: split json_scan.simps(2)) (simp only: split [symmetric] if_False skip)
  also have "\<dots> = Some (takeWhile (\<lambda>x. x \<noteq> CHR ''\"'') (t @ ''\"}''))"
    by (rule json_scan_here) (simp add: json_key_pattern_def)
  also have "\<dots> = Some t"
    using tw by simp
  finally show ?thesis .
qed

lemma coap_malloc_ok:
  "b \<notin> alloc_fail w \<Longrightarrow> coap_malloc b w = (True, w\<lparr>heap := heap w + {#b#}\<rparr>)"
  by (simp add: coap_malloc_def)

lemma coap_malloc_fails:
  "b \<in> alloc_fail w \<Longrightarrow> coap_malloc b w = (False, w)"
  by (simp add: coap_malloc_def)

lemma coap_free_malloc [simp]:
  "coap_free b (w\<lparr>heap := add_mset b (heap w)\<rparr>) = w"
  by (simp add: coap_free_def)

lemma LITE_json_value_of_found:
  "json_scan (json_key_pattern key) src = Some v \<Longrightarrow> B_json_value \<notin> alloc_fail w \<Longrightarrow>
     LITE_json_value_of key src w = (Some v, w\<lparr>heap := heap w + {#B_json_value#}\<rparr>)"
  by (simp add: LITE_json_value_of_def coap_malloc_ok)

lemma LITE_json_value_of_absent:
  "json_scan (json_key_pattern key) src = None \<Longrightarrow> LITE_json_value_of key src w = (None, w)"
  by (simp add: LITE_json_value_of_def)

lemma token_from_json_fits:
  assumes "CHR ''\"'' \<notin> set t" and "length t < len" and "B_json_value \<notin> alloc_fail w"
  shows "iotx_get_token_from_json (Some (token_json t)) (Some b) len w = (IOTX_SUCCESS, Some t, w)"
proof -
  have "\<not> (len \<noteq> 0 \<and> len - 1 < length t)" using assms(2) by linarith
  then show ?thesis
    using assms json_scan_token_json [OF assms(1)]
    by (simp add: iotx_get_token_from_json_def LITE_json_value_of_found)
qed

lemma token_json_not_Nil [simp]: "token_json t \<noteq> []"
  by (simp add: token_json_def)

subsection \<open>Properties of the extractor\<close>

text \<open>C15: a response body \<open>{"token":"t"}\<close> whose token fits the buffer (at most
  \<open>len - 1\<close> characters, leaving room for the terminator) yields exactly \<open>t\<close>, and the
  heap is as before.\<close>

theorem iotx_get_token_from_json_roundtrip:
  assumes "CHR ''\"'' \<notin> set t" and "length t < len" and "B_json_value \<notin> alloc_fail w"
  shows "iotx_get_token_from_json (Some (token_json t)) (Some b) len w = (IOTX_SUCCESS, Some t, w)"
  using assms by (rule token_from_json_fits)

theorem iotx_get_token_from_json_roundtrip_witness:
  "iotx_get_token_from_json (Some (token_json ''T123'')) (Some []) IOTX_AUTH_TOKEN_LEN example_world
   = (IOTX_SUCCESS, Some ''T123'', example_world)"
  using iotx_get_token_from_json_roundtrip [of "''T123''" IOTX_AUTH_TOKEN_LEN example_world "[]"]
  by (simp add: IOTX_AUTH_TOKEN_LEN_def example_world_def)

text \<open>C27: a token of \<open>len\<close> or more characters is refused with
  \<open>IOTX_ERR_BUFF_TOO_SHORT\<close>; the buffer keeps its old content, and the heap copy of
  the value is never freed (one \<open>B_json_value\<close> block leaks per refusal).\<close>

theorem iotx_get_token_from_json_too_short:
  assumes "CHR ''\"'' \<notin> set t" and "0 < len" and "len \<le> length t" and "B_json_value \<notin> alloc_fail w"
  shows "iotx_get_token_from_json (Some (token_json t)) (Some b) len w
       = (IOTX_ERR_BUFF_TOO_SHORT, Some b, w\<lparr>heap := heap w + {#B_json_value#}\<rparr>)"
  using assms json_scan_token_json [OF assms(1)]
  by (simp add: iotx_get_token_from_json_def LITE_json_value_of_found)

theorem iotx_get_token_from_json_too_short_witness:
  "iotx_get_token_from_json (Some (token_json (replicate 193 CHR ''x''))) (Some []) IOTX_AUTH_TOKEN_LEN example_world
   = (IOTX_ERR_BUFF_TOO_SHORT, Some [], example_world\<lparr>heap := {#B_json_value#}\<rparr>)"
  using iotx_get_token_from_json_too_short [of "replicate 193 CHR ''x''" IOTX_AUTH_TOKEN_LEN example_world "[]"]
  by (simp add: IOTX_AUTH_TOKEN_LEN_def example_world_def)

text \<open>C34: a body without a \<open>token\<close> member is an authentication failure and
  changes nothing: neither the buffer nor the heap.\<close>

theorem iotx_get_token_from_json_absent:
  assumes "json_scan (json_key_pattern ''token'') str = None"
  shows "iotx_get_token_from_json (Some str) (Some b) len w = (IOTX_ERR_AUTH_FAILED, Some b, w)"
  using assms by (simp add: iotx_get_token_from_json_def LITE_json_value_of_absent)

theorem iotx_get_token_from_json_absent_witness:
  "iotx_get_token_from_json (Some ''{}'') (Some ''old'') IOTX_AUTH_TOKEN_LEN example_world
   = (IOTX_ERR_AUTH_FAILED, Some ''old'', example_world)"
proof -
  have h: "json_scan (json_key_pattern ''token'') ''{}'' = None"
    by (simp add: json_key_pattern_def json_scan.simps(2))
  show ?thesis using iotx_get_token_from_json_absent [OF h] by simp
qed

lemma iotx_get_token_from_json_null:
  "iotx_get_token_from_json None tok len w = (IOTX_ERR_INVALID_PARAM, tok, w)"
  "iotx_get_token_from_json p_str None len w = (IOTX_ERR_INVALID_PARAM, None, w)"
  by (simp_all add: iotx_get_token_from_json_def split: option.splits)

end
