(* ===== verification/Coap_Sign.thy ===== *)
theory Coap_Sign
  imports Coap_Json
begin

text \<open>
  The signature generator \<open>iotx_calc_sign\<close> (lines 57--79).  It allocates a
  scratch buffer of \<open>IOTX_SIGN_SOURCE_LEN\<close> bytes, formats
  \<open>clientId%sdeviceName%sproductKey%s\<close> into it with \<open>HAL_Snprintf\<close> (truncating),
  and lets the host's keyed digest \<open>utils_hmac_md5\<close> (\<open>hal_hmac\<close> of the world,
  an external collaborator) write the signature.  The \<open>sign\<close> argument is the
  caller's buffer: on an allocation failure it is returned untouched, since the
  \<open>memset\<close> comes after the check.
\<close>

definition sign_source :: "string \<Rightarrow> string \<Rightarrow> string \<Rightarrow> string" where
  "sign_source cid dn pk = ''clientId'' @ cid @ ''deviceName'' @ dn @ ''productKey'' @ pk"

definition iotx_calc_sign ::
  "string \<Rightarrow> string \<Rightarrow> string \<Rightarrow> string \<Rightarrow> string \<Rightarrow> world \<Rightarrow> iotx_ret \<times> string \<times> world" where
  "iotx_calc_sign secret cid dn pk sign w =
     (let (ok, w1) = coap_malloc B_sign_src w
      in if \<not> ok then (IOTX_ERR_NO_MEM, sign, w1)
         else (let p_msg = snprintf_buf IOTX_SIGN_SOURCE_LEN (sign_source cid dn pk)
               in (IOTX_SUCCESS, hal_hmac w1 p_msg secret, coap_free B_sign_src w1)))"

lemma sign_source_length:
  "length (sign_source cid dn pk) = 28 + length cid + length dn + length pk"
  by (simp add: sign_source_def)

lemma iotx_calc_sign_ok:
  "B_sign_src \<notin> alloc_fail w \<Longrightarrow>
     iotx_calc_sign secret cid dn pk sign w
     = (IOTX_SUCCESS, hal_hmac w (snprintf_buf IOTX_SIGN_SOURCE_LEN (sign_source cid dn pk)) secret, w)"
  by (simp add: iotx_calc_sign_def coap_malloc_ok)

lemma iotx_calc_sign_no_mem:
  "B_sign_src \<in> alloc_fail w \<Longrightarrow> iotx_calc_sign secret cid dn pk sign w = (IOTX_ERR_NO_MEM, sign, w)"
  by (simp add: iotx_calc_sign_def coap_malloc_fails)

lemma iotx_calc_sign_world:
  "snd (snd (iotx_calc_sign secret cid dn pk sign w)) = w"
  by (cases "B_sign_src \<in> alloc_fail w") (simp_all add: iotx_calc_sign_ok iotx_calc_sign_no_mem)

subsection \<open>Properties of the signature\<close>

text \<open>C29: for identifiers within the capacities of \<open>iotx_deviceinfo_t\<close> the canonical
  string \<open>clientId\<dots>deviceName\<dots>productKey\<dots>\<close> fits the scratch buffer, so the
  signature is the host digest of the whole string under the device secret; the
  call leaves the world (heap included) as it found it.\<close>

theorem iotx_calc_sign_canonical:
  assumes "length cid \<le> IOTX_DEVICE_ID_LEN" and "length dn \<le> IOTX_DEVICE_NAME_LEN"
    and "length pk \<le> IOTX_PRODUCT_KEY_LEN" and "B_sign_src \<notin> alloc_fail w"
  shows "iotx_calc_sign secret cid dn pk sign w
       = (IOTX_SUCCESS, hal_hmac w (''clientId'' @ cid @ ''deviceName'' @ dn @ ''productKey'' @ pk) secret, w)"
proof -
  have "length (sign_source cid dn pk) < IOTX_SIGN_SOURCE_LEN"
    using assms(1-3)
    by (simp add: sign_source_length IOTX_SIGN_SOURCE_LEN_def IOTX_DEVICE_ID_LEN_def
        IOTX_DEVICE_NAME_LEN_def IOTX_PRODUCT_KEY_LEN_def)
  then show ?thesis
    using assms(4) by (simp add: iotx_calc_sign_ok) (simp add: sign_source_def)
qed

theorem iotx_calc_sign_canonical_witness:
  "iotx_calc_sign ''secret'' ''dev1'' ''lamp'' ''pk01'' [] example_world
   = (IOTX_SUCCESS, ''clientIddev1deviceNamelampproductKeypk01'', example_world)"
  using iotx_calc_sign_canonical [of "''dev1''" "''lamp''" "''pk01''" example_world "''secret''" "[]"]
  by (simp add: example_world_def IOTX_DEVICE_ID_LEN_def IOTX_DEVICE_NAME_LEN_def IOTX_PRODUCT_KEY_LEN_def)

end
