(* ===== verification/Coap_Send.thy ===== *)
theory Coap_Send
  imports Coap_Token Coap_Path
begin

text \<open>
  The message dispatcher \<open>IOT_CoAP_SendMessage\<close> (lines 446--511), the
  well-known-resource request \<open>iotx_get_well_known\<close> (lines 196--222) and the
  response accessors (lines 514--543).  The dispatcher checks its pointers and
  the payload length, refuses an unauthenticated session, and otherwise builds a
  confirmable POST: fresh message id from the engine, fresh correlation token
  from the session, URI-path options from \<open>iotx_split_path_2_option\<close>, content
  format and accept options, the session token as the auth-token option, and the
  payload, and hands it to \<open>CoAPMessage_send\<close>.
\<close>

text \<open>Lines 489--495: the content options chosen by the message's content type.\<close>

definition iotx_content_options :: "iotx_content_type \<Rightarrow> coap_message \<Rightarrow> coap_message" where
  "iotx_content_options ct m =
     (if ct = IOTX_CONTENT_TYPE_CBOR
      then CoAPUintOption_add (CoAPUintOption_add m COAP_OPTION_CONTENT_FORMAT COAP_CT_APP_CBOR)
             COAP_OPTION_ACCEPT COAP_CT_APP_OCTET_STREAM
      else CoAPUintOption_add (CoAPUintOption_add m COAP_OPTION_CONTENT_FORMAT COAP_CT_APP_JSON)
             COAP_OPTION_ACCEPT COAP_CT_APP_OCTET_STREAM)"

text \<open>The session token as a C string; the buffer pointer is never NULL while
  the session exists (\<open>Coap_Lifecycle\<close> proves it).\<close>

definition auth_token_str :: "iotx_coap \<Rightarrow> string" where
  "auth_token_str s = (case p_auth_token s of Some t \<Rightarrow> t | None \<Rightarrow> [])"

definition IOT_CoAP_SendMessage ::
  "world \<Rightarrow> string option \<Rightarrow> iotx_message option \<Rightarrow> iotx_ret \<times> world" where
  "IOT_CoAP_SendMessage w p_path p_message =
     (case (w_ctx w, p_path, p_message) of
        (Some s, Some path, Some msg) \<Rightarrow>
          (case p_coap_ctx s of
             None \<Rightarrow> (IOTX_ERR_INVALID_PARAM, w)
           | Some ctx \<Rightarrow>
               (if COAP_MSG_MAX_PDU_LEN \<le> unat (payload_len msg) then (IOTX_ERR_MSG_TOO_LOOG, w)
                else if is_authed s then
                  (let (mid, ctx1) = CoAPMessageId_gen ctx;
                       (tok, s1) = iotx_get_coap_token s;
                       m1 = CoAPMessage_init\<lparr>msg_type := COAP_MESSAGE_TYPE_CON,
                              msg_code := COAP_MSG_CODE_POST, msg_id := mid, msg_token := tok,
                              msg_user := user_data msg, msg_handler := resp_callback msg\<rparr>;
                       (ret, m2, ovf) = iotx_split_path_2_option (Some path) (Some m1);
                       w1 = w\<lparr>w_ctx := Some (s1\<lparr>p_coap_ctx := Some ctx1\<rparr>), c_ub := c_ub w \<or> ovf\<rparr>
                   in if ret \<noteq> IOTX_SUCCESS then (ret, w1)
                      else (case m2 of
                              None \<Rightarrow> (ret, w1)
                            | Some m2' \<Rightarrow>
                                (let m3 = iotx_content_options (content_type msg) m2';
                                     m4 = CoAPStrOption_add m3 COAP_OPTION_AUTH_TOKEN (auth_token_str s);
                                     m5 = m4\<lparr>msg_payload := take (unat (payload_len msg)) (p_payload msg)\<rparr>;
                                     (r, ctx2) = CoAPMessage_send ctx1 m5
                                 in (if r = COAP_ERROR_DATA_SIZE then IOTX_ERR_MSG_TOO_LOOG else IOTX_SUCCESS,
                                     w1\<lparr>w_ctx := Some (s1\<lparr>p_coap_ctx := Some ctx2\<rparr>)\<rparr>))))
                else (IOTX_ERR_NOT_AUTHED, w)))
      | _ \<Rightarrow> (IOTX_ERR_INVALID_PARAM, w))"

text \<open>
  \<open>iotx_get_well_known\<close> dereferences the context without a check: a NULL session
  or engine context is undefined behaviour.  The request is a confirmable GET of
  \<open>/.well-known/core\<close> accepting link format; the send result is ignored.
\<close>

definition iotx_get_well_known :: "world \<Rightarrow> iotx_ret \<times> world" where
  "iotx_get_well_known w =
     (case w_ctx w of
        None \<Rightarrow> (IOTX_SUCCESS, mark_ub w)
      | Some s \<Rightarrow>
          (case p_coap_ctx s of
             None \<Rightarrow> (IOTX_SUCCESS, mark_ub w)
           | Some ctx \<Rightarrow>
               (let (mid, ctx1) = CoAPMessageId_gen ctx;
                    (tok, s1) = iotx_get_coap_token s;
                    m = CoAPMessage_init\<lparr>msg_type := COAP_MESSAGE_TYPE_CON,
                          msg_code := COAP_MSG_CODE_GET, msg_id := mid, msg_token := tok,
                          msg_handler := Some H_get_well_known\<rparr>;
                    m = CoAPStrOption_add m COAP_OPTION_URI_PATH ''.well-known'';
                    m = CoAPStrOption_add m COAP_OPTION_URI_PATH ''core'';
                    m = CoAPUintOption_add m COAP_OPTION_ACCEPT COAP_CT_APP_LINK_FORMAT;
                    m = m\<lparr>msg_user := Some U_session\<rparr>;
                    (r, ctx2) = CoAPMessage_send ctx1 m
                in (IOTX_SUCCESS, w\<lparr>w_ctx := Some (s1\<lparr>p_coap_ctx := Some ctx2\<rparr>)\<rparr>))))"

text \<open>
  The request the specification describes for an authenticated send (section 4.5):
  confirmable POST with a fresh id and correlation token, the URI-path options,
  content format (CBOR or JSON) and accept (octet stream), the session token as
  auth-token option, and the payload.
\<close>

definition spec_request :: "iotx_coap \<Rightarrow> coap_context \<Rightarrow> string \<Rightarrow> iotx_message \<Rightarrow> coap_message" where
  "spec_request s ctx path msg =
     \<lparr>msg_type = COAP_MESSAGE_TYPE_CON, msg_code = COAP_MSG_CODE_POST, msg_id = ctx_message_id ctx,
      msg_token = fst (iotx_get_coap_token s), msg_handler = resp_callback msg, msg_user = user_data msg,
      msg_options = uri_path_options path @
        [(COAP_OPTION_CONTENT_FORMAT,
          OptUint (if content_type msg = IOTX_CONTENT_TYPE_CBOR then COAP_CT_APP_CBOR else COAP_CT_APP_JSON)),
         (COAP_OPTION_ACCEPT, OptUint COAP_CT_APP_OCTET_STREAM),
         (COAP_OPTION_AUTH_TOKEN, OptStr (auth_token_str s))],
      msg_payload = take (unat (payload_len msg)) (p_payload msg)\<rparr>"

text \<open>An application message, for the witnesses.\<close>

definition example_msg :: iotx_message where
  "example_msg = \<lparr>p_payload = ''{\"on\":1}'', payload_len = 8, resp_callback = Some (H_app 1),
     user_data = Some (U_app 7), iotx_msg_type = IOTX_MESSAGE_CON, content_type = IOTX_CONTENT_TYPE_JSON\<rparr>"

definition IOT_CoAP_GetMessagePayload :: "coap_response option \<Rightarrow> iotx_ret \<times> (string \<times> nat) option" where
  "IOT_CoAP_GetMessagePayload p_message =
     (case p_message of
        None \<Rightarrow> (IOTX_ERR_INVALID_PARAM, None)
      | Some m \<Rightarrow> (IOTX_SUCCESS, Some (rsp_payload m, length (rsp_payload m))))"

definition IOT_CoAP_GetMessageCode :: "coap_response option \<Rightarrow> iotx_ret \<times> coap_msg_code option" where
  "IOT_CoAP_GetMessageCode p_message =
     (case p_message of
        None \<Rightarrow> (IOTX_ERR_INVALID_PARAM, None)
      | Some m \<Rightarrow> (IOTX_SUCCESS, Some (rsp_code m)))"

lemma iotx_content_options_options:
  "msg_options (iotx_content_options ct m) = msg_options m @
     [(COAP_OPTION_CONTENT_FORMAT,
       OptUint (if ct = IOTX_CONTENT_TYPE_CBOR then COAP_CT_APP_CBOR else COAP_CT_APP_JSON)),
      (COAP_OPTION_ACCEPT, OptUint COAP_CT_APP_OCTET_STREAM)]"
  by (simp add: iotx_content_options_def CoAPUintOption_add_def)

lemma iotx_content_options_other [simp]:
  "msg_type (iotx_content_options ct m) = msg_type m"
  "msg_code (iotx_content_options ct m) = msg_code m"
  "msg_id (iotx_content_options ct m) = msg_id m"
  "msg_token (iotx_content_options ct m) = msg_token m"
  "msg_handler (iotx_content_options ct m) = msg_handler m"
  "msg_user (iotx_content_options ct m) = msg_user m"
  by (simp_all add: iotx_content_options_def CoAPUintOption_add_def)

text \<open>The authenticated branch, once the path has been accepted: the request sent is
  \<open>spec_request\<close>, the session's token counter and the engine's id counter move on.\<close>

lemma IOT_CoAP_SendMessage_authed_unfold:
  assumes "w_ctx w = Some s" and "p_coap_ctx s = Some ctx" and "is_authed s"
    and "unat (payload_len msg) < COAP_MSG_MAX_PDU_LEN"
    and "length path \<le> IOTX_URI_MAX_LEN" and "path_fits path"
  shows "IOT_CoAP_SendMessage w (Some path) (Some msg)
       = (let (r, ctx2) = CoAPMessage_send (ctx\<lparr>ctx_message_id := ctx_message_id ctx + 1\<rparr>)
                            (spec_request s ctx path msg)
          in (if r = COAP_ERROR_DATA_SIZE then IOTX_ERR_MSG_TOO_LOOG else IOTX_SUCCESS,
              w\<lparr>w_ctx := Some (s\<lparr>coap_token := coap_token s + 1, p_coap_ctx := Some ctx2\<rparr>)\<rparr>))"
proof -
  have split: "iotx_split_path_2_option (Some path) (Some m)
      = (IOTX_SUCCESS, Some (m\<lparr>msg_options := msg_options m @ uri_path_options path\<rparr>), False)" for m
    using assms(5,6) split_loop_reference [of "[]" path m] by (simp add: iotx_split_path_2_option_def)
  show ?thesis
    using assms(1-4)
    by (simp add: IOT_CoAP_SendMessage_def CoAPMessageId_gen_def split split_def
        iotx_get_coap_token_snd Let_def spec_request_def CoAPStrOption_add_def iotx_content_options_def
        CoAPUintOption_add_def CoAPMessage_init_def)
qed

lemma IOT_CoAP_SendMessage_inbox:
  assumes "IOT_CoAP_SendMessage w p_path p_message = (r, w')"
  shows "inbox_len w' = inbox_len w \<and> heap w' = heap w \<and> alloc_fail w' = alloc_fail w
    \<and> partner_id w' = partner_id w \<and> module_id w' = module_id w \<and> (w_ctx w' = None \<longleftrightarrow> w_ctx w = None)"
  using assms
  by (auto simp: IOT_CoAP_SendMessage_def inbox_len_def get_cctx_def CoAPMessageId_gen_def
      CoAPMessage_send_def iotx_split_path_2_option_def split_def Let_def
      split: option.splits if_splits prod.splits)

subsection \<open>Properties of the dispatcher\<close>

text \<open>C1: a send on a session that is not authenticated returns
  \<open>IOTX_ERR_NOT_AUTHED\<close> and changes nothing: no message reaches the engine and no
  handshake is attempted.\<close>

theorem IOT_CoAP_SendMessage_not_authed:
  assumes "w_ctx w = Some s" and "p_coap_ctx s \<noteq> None" and "\<not> is_authed s"
    and "unat (payload_len msg) < COAP_MSG_MAX_PDU_LEN"
  shows "IOT_CoAP_SendMessage w (Some path) (Some msg) = (IOTX_ERR_NOT_AUTHED, w)"
  using assms by (auto simp: IOT_CoAP_SendMessage_def)

theorem IOT_CoAP_SendMessage_not_authed_witness:
  "IOT_CoAP_SendMessage (example_world\<lparr>w_ctx := Some example_session\<rparr>) (Some ''/topic/a'') (Some example_msg)
   = (IOTX_ERR_NOT_AUTHED, example_world\<lparr>w_ctx := Some example_session\<rparr>)"
  using IOT_CoAP_SendMessage_not_authed [of "example_world\<lparr>w_ctx := Some example_session\<rparr>" example_session example_msg]
  by (simp add: example_session_def example_msg_def COAP_MSG_MAX_PDU_LEN_def)

text \<open>C2: on an authenticated session, with a URI that the encoder accepts and a
  request that fits one PDU, the send succeeds and puts exactly the request of the
  specification on the wire: a confirmable POST carrying the session token as the
  auth-token option; the correlation-token counter and the message id move on.\<close>

theorem IOT_CoAP_SendMessage_authed:
  assumes "w_ctx w = Some s" and "p_coap_ctx s = Some ctx" and "is_authed s"
    and "unat (payload_len msg) < COAP_MSG_MAX_PDU_LEN"
    and "length path \<le> IOTX_URI_MAX_LEN" and "path_fits path"
    and "ctx_net_ok ctx" and "coap_msg_size (spec_request s ctx path msg) \<le> COAP_MSG_MAX_PDU_LEN"
  shows "IOT_CoAP_SendMessage w (Some path) (Some msg)
       = (IOTX_SUCCESS, w\<lparr>w_ctx := Some (s\<lparr>coap_token := coap_token s + 1,
            p_coap_ctx := Some (ctx\<lparr>ctx_message_id := ctx_message_id ctx + 1,
              ctx_sent := ctx_sent ctx @ [spec_request s ctx path msg]\<rparr>)\<rparr>)\<rparr>)"
  using assms IOT_CoAP_SendMessage_authed_unfold [OF assms(1-6)]
  by (simp add: CoAPMessage_send_def)

theorem IOT_CoAP_SendMessage_authed_witness:
  "IOT_CoAP_SendMessage
     (example_world\<lparr>w_ctx := Some (example_session\<lparr>is_authed := True, p_auth_token := Some ''T123''\<rparr>)\<rparr>)
     (Some ''/topic/a'') (Some example_msg)
   = (IOTX_SUCCESS, example_world\<lparr>w_ctx := Some (example_session\<lparr>is_authed := True,
        p_auth_token := Some ''T123'', coap_token := 0x01020305,
        p_coap_ctx := Some (example_ctx\<lparr>ctx_message_id := 2, ctx_sent :=
          [\<lparr>msg_type = COAP_MESSAGE_TYPE_CON, msg_code = COAP_MSG_CODE_POST, msg_id = 1,
            msg_token = [4, 3, 2, 1], msg_handler = Some (H_app 1), msg_user = Some (U_app 7),
            msg_options = [(COAP_OPTION_URI_PATH, OptStr ''topic''), (COAP_OPTION_URI_PATH, OptStr ''a''),
              (COAP_OPTION_CONTENT_FORMAT, OptUint COAP_CT_APP_JSON),
              (COAP_OPTION_ACCEPT, OptUint COAP_CT_APP_OCTET_STREAM),
              (COAP_OPTION_AUTH_TOKEN, OptStr ''T123'')],
            msg_payload = ''{\"on\":1}''\<rparr>]\<rparr>)\<rparr>)\<rparr>)"
proof -
  let ?s = "example_session\<lparr>is_authed := True, p_auth_token := Some ''T123''\<rparr>"
  have r: "spec_request ?s example_ctx ''/topic/a'' example_msg =
          \<lparr>msg_type = COAP_MESSAGE_TYPE_CON, msg_code = COAP_MSG_CODE_POST, msg_id = 1,
            msg_token = [4, 3, 2, 1], msg_handler = Some (H_app 1), msg_user = Some (U_app 7),
            msg_options = [(COAP_OPTION_URI_PATH, OptStr ''topic''), (COAP_OPTION_URI_PATH, OptStr ''a''),
              (COAP_OPTION_CONTENT_FORMAT, OptUint COAP_CT_APP_JSON),
              (COAP_OPTION_ACCEPT, OptUint COAP_CT_APP_OCTET_STREAM),
              (COAP_OPTION_AUTH_TOKEN, OptStr ''T123'')],
            msg_payload = ''{\"on\":1}''\<rparr>"
    by (simp add: spec_request_def example_session_def example_ctx_def example_msg_def
        iotx_get_coap_token_def uri_path_options_def uri_path_segments_def auth_token_str_def)
  have h: "length ''/topic/a'' \<le> IOTX_URI_MAX_LEN" "path_fits ''/topic/a''"
    "unat (payload_len example_msg) < COAP_MSG_MAX_PDU_LEN"
    by (simp_all add: IOTX_URI_MAX_LEN_def path_fits_def COAP_MSG_MAX_PATH_LEN_def
        example_msg_def COAP_MSG_MAX_PDU_LEN_def)
  have h2: "coap_msg_size (spec_request ?s example_ctx ''/topic/a'' example_msg) \<le> COAP_MSG_MAX_PDU_LEN"
    by (simp only: r) (simp add: coap_msg_size_def COAP_MSG_MAX_PDU_LEN_def)
  have a1: "w_ctx (example_world\<lparr>w_ctx := Some ?s\<rparr>) = Some ?s" by simp
  have a2: "p_coap_ctx ?s = Some example_ctx" by (simp add: example_session_def)
  have a3: "is_authed ?s" by simp
  have a7: "ctx_net_ok example_ctx" by (simp add: example_ctx_def)
  show ?thesis
    using IOT_CoAP_SendMessage_authed [OF a1 a2 a3 h(3) h(1) h(2) a7 h2]
    unfolding r by (simp add: example_session_def example_ctx_def)
qed
text \<open>C26: a payload of \<open>COAP_MSG_MAX_PDU_LEN\<close> bytes or more is refused with
  \<open>IOTX_ERR_MSG_TOO_LOOG\<close> before anything else happens; in particular a payload of
  exactly the maximum PDU size is refused.\<close>

theorem IOT_CoAP_SendMessage_payload_limit:
  assumes "w_ctx w = Some s" and "p_coap_ctx s \<noteq> None"
    and "COAP_MSG_MAX_PDU_LEN \<le> unat (payload_len msg)"
  shows "IOT_CoAP_SendMessage w (Some path) (Some msg) = (IOTX_ERR_MSG_TOO_LOOG, w)"
  using assms by (auto simp: IOT_CoAP_SendMessage_def)

theorem IOT_CoAP_SendMessage_payload_limit_witness:
  "IOT_CoAP_SendMessage (example_world\<lparr>w_ctx := Some (example_session\<lparr>is_authed := True\<rparr>)\<rparr>)
     (Some ''/topic/a'') (Some (example_msg\<lparr>payload_len := 1280\<rparr>))
   = (IOTX_ERR_MSG_TOO_LOOG, example_world\<lparr>w_ctx := Some (example_session\<lparr>is_authed := True\<rparr>)\<rparr>)"
  using IOT_CoAP_SendMessage_payload_limit [of "example_world\<lparr>w_ctx := Some (example_session\<lparr>is_authed := True\<rparr>)\<rparr>"
      "example_session\<lparr>is_authed := True\<rparr>" "example_msg\<lparr>payload_len := 1280\<rparr>" "''/topic/a''"]
  by (simp add: example_session_def COAP_MSG_MAX_PDU_LEN_def)

text \<open>C31: when the path is too long the send fails with \<open>IOTX_ERR_URI_TOO_LOOG\<close>, but
  only after a message id and a correlation token have been consumed: nothing is
  sent and both counters have moved on.\<close>

theorem IOT_CoAP_SendMessage_uri_too_long:
  assumes "w_ctx w = Some s" and "p_coap_ctx s = Some ctx" and "is_authed s"
    and "unat (payload_len msg) < COAP_MSG_MAX_PDU_LEN" and "IOTX_URI_MAX_LEN < length path"
  shows "IOT_CoAP_SendMessage w (Some path) (Some msg)
       = (IOTX_ERR_URI_TOO_LOOG, w\<lparr>w_ctx := Some (s\<lparr>coap_token := coap_token s + 1,
            p_coap_ctx := Some (ctx\<lparr>ctx_message_id := ctx_message_id ctx + 1\<rparr>)\<rparr>)\<rparr>)"
  using assms
  by (simp add: IOT_CoAP_SendMessage_def iotx_split_path_2_option_def CoAPMessageId_gen_def
      split_def iotx_get_coap_token_snd Let_def)

theorem IOT_CoAP_SendMessage_uri_too_long_witness:
  "IOT_CoAP_SendMessage (example_world\<lparr>w_ctx := Some (example_session\<lparr>is_authed := True\<rparr>)\<rparr>)
     (Some (replicate 136 CHR ''a'')) (Some example_msg)
   = (IOTX_ERR_URI_TOO_LOOG, example_world\<lparr>w_ctx := Some (example_session\<lparr>is_authed := True,
        coap_token := 0x01020305, p_coap_ctx := Some (example_ctx\<lparr>ctx_message_id := 2\<rparr>)\<rparr>)\<rparr>)"
proof -
  let ?s = "example_session\<lparr>is_authed := True\<rparr>"
  have a: "w_ctx (example_world\<lparr>w_ctx := Some ?s\<rparr>) = Some ?s" "p_coap_ctx ?s = Some example_ctx"
    "is_authed ?s" "unat (payload_len example_msg) < COAP_MSG_MAX_PDU_LEN"
    "IOTX_URI_MAX_LEN < length (replicate 136 CHR ''a'')"
    by (simp_all add: example_session_def example_msg_def COAP_MSG_MAX_PDU_LEN_def IOTX_URI_MAX_LEN_def)
  show ?thesis
    using IOT_CoAP_SendMessage_uri_too_long [OF a]
    by (simp add: example_session_def example_ctx_def)
qed

text \<open>C32: whatever the application asks for, a call puts at most one message on the
  wire, always a confirmable POST (the message type of \<open>iotx_message_t\<close> is
  ignored), and leaves the incoming responses alone.\<close>

theorem IOT_CoAP_SendMessage_dispatch:
  assumes "IOT_CoAP_SendMessage w p_path p_message = (r, w')" and "get_cctx w = Some c"
  shows "\<exists>c'. get_cctx w' = Some c' \<and> ctx_inbox c' = ctx_inbox c
           \<and> (ctx_sent c' = ctx_sent c \<or> (\<exists>m. ctx_sent c' = ctx_sent c @ [m]
                 \<and> msg_type m = COAP_MESSAGE_TYPE_CON \<and> msg_code m = COAP_MSG_CODE_POST))"
  using assms
  by (auto simp: IOT_CoAP_SendMessage_def get_cctx_def CoAPMessageId_gen_def CoAPMessage_send_def
      iotx_split_path_2_option_def split_def Let_def iotx_get_coap_token_snd split_loop_keeps
      iotx_content_options_def CoAPUintOption_add_def CoAPMessage_init_def
      split: option.splits if_splits prod.splits)

theorem IOT_CoAP_SendMessage_dispatch_witness:
  "\<exists>c'. get_cctx (snd (IOT_CoAP_SendMessage (example_world\<lparr>w_ctx := Some (example_session\<lparr>is_authed := True\<rparr>)\<rparr>)
          (Some ''/topic/a'') (Some (example_msg\<lparr>iotx_msg_type := IOTX_MESSAGE_NON\<rparr>)))) = Some c'
     \<and> ctx_inbox c' = ctx_inbox example_ctx
     \<and> (ctx_sent c' = ctx_sent example_ctx \<or> (\<exists>m. ctx_sent c' = ctx_sent example_ctx @ [m]
           \<and> msg_type m = COAP_MESSAGE_TYPE_CON \<and> msg_code m = COAP_MSG_CODE_POST))"
proof -
  let ?w = "example_world\<lparr>w_ctx := Some (example_session\<lparr>is_authed := True\<rparr>)\<rparr>"
  let ?m = "example_msg\<lparr>iotx_msg_type := IOTX_MESSAGE_NON\<rparr>"
  have c: "get_cctx ?w = Some example_ctx" by (simp add: get_cctx_def example_session_def)
  show ?thesis
    using IOT_CoAP_SendMessage_dispatch [OF prod.collapse [symmetric, of "IOT_CoAP_SendMessage ?w (Some ''/topic/a'') (Some ?m)"] c]
    by simp
qed

text \<open>C33: when the network refuses the datagram the dispatcher still reports
  \<open>IOTX_SUCCESS\<close>, although nothing was sent; only an oversize request is reported.\<close>

theorem IOT_CoAP_SendMessage_net_failure:
  assumes "w_ctx w = Some s" and "p_coap_ctx s = Some ctx" and "is_authed s"
    and "unat (payload_len msg) < COAP_MSG_MAX_PDU_LEN"
    and "length path \<le> IOTX_URI_MAX_LEN" and "path_fits path"
    and "\<not> ctx_net_ok ctx" and "coap_msg_size (spec_request s ctx path msg) \<le> COAP_MSG_MAX_PDU_LEN"
  shows "IOT_CoAP_SendMessage w (Some path) (Some msg)
       = (IOTX_SUCCESS, w\<lparr>w_ctx := Some (s\<lparr>coap_token := coap_token s + 1,
            p_coap_ctx := Some (ctx\<lparr>ctx_message_id := ctx_message_id ctx + 1\<rparr>)\<rparr>)\<rparr>)"
  using assms IOT_CoAP_SendMessage_authed_unfold [OF assms(1-6)]
  by (simp add: CoAPMessage_send_def)

theorem IOT_CoAP_SendMessage_net_failure_witness:
  "IOT_CoAP_SendMessage
     (example_world\<lparr>w_ctx := Some (example_session\<lparr>is_authed := True,
        p_coap_ctx := Some (example_ctx\<lparr>ctx_net_ok := False\<rparr>)\<rparr>)\<rparr>)
     (Some ''/topic/a'') (Some example_msg)
   = (IOTX_SUCCESS, example_world\<lparr>w_ctx := Some (example_session\<lparr>is_authed := True,
        coap_token := 0x01020305, p_coap_ctx := Some (example_ctx\<lparr>ctx_net_ok := False, ctx_message_id := 2\<rparr>)\<rparr>)\<rparr>)"
proof -
  let ?c = "example_ctx\<lparr>ctx_net_ok := False\<rparr>"
  let ?s = "example_session\<lparr>is_authed := True, p_coap_ctx := Some ?c\<rparr>"
  have a: "w_ctx (example_world\<lparr>w_ctx := Some ?s\<rparr>) = Some ?s" "p_coap_ctx ?s = Some ?c" "is_authed ?s"
    "unat (payload_len example_msg) < COAP_MSG_MAX_PDU_LEN"
    "length ''/topic/a'' \<le> IOTX_URI_MAX_LEN" "path_fits ''/topic/a''" "\<not> ctx_net_ok ?c"
    by (simp_all add: example_msg_def COAP_MSG_MAX_PDU_LEN_def IOTX_URI_MAX_LEN_def path_fits_def
        COAP_MSG_MAX_PATH_LEN_def)
  have b: "coap_msg_size (spec_request ?s ?c ''/topic/a'' example_msg) \<le> COAP_MSG_MAX_PDU_LEN"
    by (simp add: spec_request_def coap_msg_size_def COAP_MSG_MAX_PDU_LEN_def example_msg_def
        example_session_def iotx_get_coap_token_def uri_path_options_def uri_path_segments_def
        auth_token_str_def)
  show ?thesis
    using IOT_CoAP_SendMessage_net_failure [OF a b]
    by (simp add: example_session_def example_ctx_def)
qed

text \<open>An upper bound of the encoded size of an application request, from the
  lengths of its path, token and payload.\<close>

lemma spec_request_size:
  "coap_msg_size (spec_request s ctx path msg)
     \<le> length path + length (auth_token_str s) + unat (payload_len msg) + 15"
  using uri_path_options_size [of path]
  by (simp add: coap_msg_size_def spec_request_def iotx_get_coap_token_fst u32_le_bytes_def) (simp add: min_def)

text \<open>On an authenticated session whose engine takes datagrams, a request whose path,
  token and payload fit one PDU is sent: exactly \<open>spec_request\<close> goes on the wire.\<close>

lemma IOT_CoAP_SendMessage_fits:
  assumes s: "w_ctx w = Some s" "p_coap_ctx s = Some c" "is_authed s" and net: "ctx_net_ok c"
    and path: "length path \<le> IOTX_URI_MAX_LEN" "path_fits path"
    and size: "length path + length (auth_token_str s) + unat (payload_len msg) + 15 \<le> COAP_MSG_MAX_PDU_LEN"
  shows "IOT_CoAP_SendMessage w (Some path) (Some msg)
      = (IOTX_SUCCESS, w\<lparr>w_ctx := Some (s\<lparr>coap_token := coap_token s + 1,
             p_coap_ctx := Some (c\<lparr>ctx_message_id := ctx_message_id c + 1,
               ctx_sent := ctx_sent c @ [spec_request s c path msg]\<rparr>)\<rparr>)\<rparr>)"
proof -
  have len: "unat (payload_len msg) < COAP_MSG_MAX_PDU_LEN"
    using size by simp
  have sz: "\<not> COAP_MSG_MAX_PDU_LEN < coap_msg_size (spec_request s c path msg)"
    using spec_request_size [of s c path msg] size by simp
  show ?thesis
    using IOT_CoAP_SendMessage_authed_unfold [OF s len path] sz net by (simp add: CoAPMessage_send_def)
qed

end
