(* ===== verification/Coap_Auth.thy ===== *)
theory Coap_Auth
  imports Coap_Sign Coap_Send
begin

text \<open>
  The authentication handshake and the callbacks that drive it:
  \<open>IOT_CoAP_DeviceNameAuth\<close> (lines 332--404), its response handler
  \<open>iotx_device_name_auth_callback\<close> (lines 103--142), the engine's event notifier
  \<open>iotx_event_notifyer\<close> (lines 155--181) and the module-id report
  \<open>iotx_coap_report_mid\<close> (lines 249--330).  They call each other through the
  engine: the handshake blocks in \<open>CoAPMessage_recv\<close>, which hands each response to
  \<open>CoAPMessage_handle\<close>, which calls the notifier and the request's handler; the
  handler retries the handshake on \<open>5.00\<close> and the notifier re-runs it on \<open>4.01\<close> or
  \<open>4.02\<close>.  Nothing in the code bounds this recursion, so the family is defined with
  a fuel argument: \<open>None\<close> is "does not return within the fuel".  Every recursive
  call happens while a response is being handled, and handling takes the response
  out of the inbox, so fuel proportional to the number of pending responses is
  enough (theorem \<open>IOT_CoAP_DeviceNameAuth_terminates\<close>).
  The non-recursive parts of the two long functions are separate definitions:
  \<open>device_name_auth_send\<close> (lines 334--388) returns either the early result
  (\<open>Inl\<close>) or the world after the request went out (\<open>Inr\<close>), and
  \<open>report_mid_send\<close> (lines 251--323) likewise.
\<close>

subsection \<open>Payloads (spec-modelled formats of the utility library)\<close>

definition auth_payload_json :: "string \<Rightarrow> string \<Rightarrow> string \<Rightarrow> string \<Rightarrow> string" where
  "auth_payload_json pk dn cid sign =
     ''{\"productKey\":\"'' @ pk @ ''\",\"deviceName\":\"'' @ dn @ ''\",\"clientId\":\"'' @ cid
     @ ''\",\"sign\":\"'' @ sign @ ''\"}''"

definition iotx_midreport_reqid :: "string \<Rightarrow> string \<Rightarrow> string" where
  "iotx_midreport_reqid pk dn = pk @ ''_'' @ dn @ ''_mid''"

definition iotx_midreport_payload :: "string \<Rightarrow> string \<Rightarrow> string \<Rightarrow> string" where
  "iotx_midreport_payload reqid mid pid =
     ''{\"id\":\"'' @ reqid @ ''\",\"params\":{\"_sys_device_mid\":\"'' @ mid
     @ ''\",\"_sys_device_pid\":\"'' @ pid @ ''\"}}''"

definition iotx_midreport_topic :: "string \<Rightarrow> string \<Rightarrow> string \<Rightarrow> string" where
  "iotx_midreport_topic prefix pk dn = prefix @ ''/sys/'' @ pk @ ''/'' @ dn @ ''/thing/status/update''"

subsection \<open>The non-recursive parts\<close>

definition device_name_auth_send :: "world \<Rightarrow> (iotx_ret \<times> world) + world" where
  "device_name_auth_send w =
     (case w_ctx w of
        None \<Rightarrow> Inl (IOTX_ERR_INVALID_PARAM, w)
      | Some s \<Rightarrow>
          (case (p_auth_token s, p_coap_ctx s) of
             (Some tokbuf, Some ctx) \<Rightarrow>
               (if auth_token_len s = 0 then Inl (IOTX_ERR_INVALID_PARAM, w)
                else
                  (let (mid, ctx1) = CoAPMessageId_gen ctx;
                       (tok, s1) = iotx_get_coap_token s;
                       m = CoAPMessage_init\<lparr>msg_type := COAP_MESSAGE_TYPE_CON,
                             msg_code := COAP_MSG_CODE_POST, msg_id := mid, msg_token := tok,
                             msg_handler := Some H_device_name_auth\<rparr>;
                       m = CoAPStrOption_add m COAP_OPTION_URI_PATH ''auth'';
                       m = CoAPUintOption_add m COAP_OPTION_CONTENT_FORMAT COAP_CT_APP_JSON;
                       m = CoAPUintOption_add m COAP_OPTION_ACCEPT COAP_CT_APP_JSON;
                       m = m\<lparr>msg_user := Some U_session\<rparr>;
                       w1 = w\<lparr>w_ctx := Some (s1\<lparr>p_coap_ctx := Some ctx1\<rparr>)\<rparr>;
                       (ok, w2) = coap_malloc B_auth_payload w1
                   in if \<not> ok then Inl (IOTX_ERR_NO_MEM, w2)
                      else
                        (case p_devinfo s of
                           None \<Rightarrow> Inl (IOTX_ERR_INVALID_PARAM, mark_ub w2)
                         | Some di \<Rightarrow>
                             (let (_, sign, w3) = iotx_calc_sign (device_secret di) (device_id di)
                                     (device_name di) (product_key di) [] w2;
                                  payload = snprintf_buf COAP_MSG_MAX_PDU_LEN
                                     (auth_payload_json (product_key di) (device_name di) (device_id di) sign);
                                  m = m\<lparr>msg_payload := payload\<rparr>;
                                  (ret, ctx2) = CoAPMessage_send ctx1 m;
                                  w4 = coap_free B_auth_payload
                                         (w3\<lparr>w_ctx := Some (s1\<lparr>p_coap_ctx := Some ctx2\<rparr>)\<rparr>)
                              in if ret \<noteq> COAP_SUCCESS then Inl (IOTX_ERR_SEND_MSG_FAILED, w4)
                                 else Inr w4))))
           | _ \<Rightarrow> Inl (IOTX_ERR_INVALID_PARAM, w)))"

definition report_mid_send :: "world \<Rightarrow> (mid_ret \<times> world) + world" where
  "report_mid_send w =
     (if partner_id w = [] then Inl (SUCCESS_RETURN, w)
      else if module_id w = [] then Inl (SUCCESS_RETURN, w)
      else
        (case w_ctx w of
           None \<Rightarrow> Inl (FAIL_RETURN, w)
         | Some s \<Rightarrow>
             (case p_devinfo s of
                None \<Rightarrow> Inl (FAIL_RETURN, mark_ub w)
              | Some di \<Rightarrow>
                  (let requestId = iotx_midreport_reqid (product_key di) (device_name di);
                       (ok, w1) = coap_malloc B_mid_payload w
                   in if \<not> ok then Inl (FAIL_RETURN, w1)
                      else
                        (let msg = iotx_midreport_payload requestId (module_id w) (partner_id w);
                             message = \<lparr>p_payload = msg, payload_len = of_nat (length msg),
                               resp_callback = Some H_mid_rsphdl, user_data = None,
                               iotx_msg_type = IOTX_MESSAGE_NON, content_type = IOTX_CONTENT_TYPE_JSON\<rparr>;
                             topic_name = iotx_midreport_topic ''/topic'' (product_key di) (device_name di);
                             (ret, w2) = IOT_CoAP_SendMessage w1 (Some topic_name) (Some message)
                         in if ret \<noteq> IOTX_SUCCESS then Inl (FAIL_RETURN, coap_free B_mid_payload w2)
                            else Inr (coap_free B_mid_payload w2))))))"

text \<open>The \<open>2.05\<close> branch of the handler (lines 124--131): the token is extracted into
  the session's buffer, and the session is marked authenticated on success only.\<close>

definition auth_callback_content :: "iotx_coap \<Rightarrow> coap_response \<Rightarrow> world \<Rightarrow> world" where
  "auth_callback_content s r w =
     (let (ret, tok, w1) = iotx_get_token_from_json
            (if rsp_payload r = [] then None else Some (rsp_payload r)) (p_auth_token s) (auth_token_len s) w
      in w1\<lparr>w_ctx := Some (s\<lparr>p_auth_token := tok, is_authed := (ret = IOTX_SUCCESS \<or> is_authed s)\<rparr>)\<rparr>)"

subsection \<open>The recursive family\<close>

text \<open>
  \<open>CoAPMessage_recv f n w\<close> is the engine's receive with read count \<open>n\<close>: it takes
  responses from the inbox and handles each; it returns \<open>True\<close> (a positive
  length) when \<open>n\<close> responses were read, and \<open>False\<close> (0, the timeout) when the
  inbox runs dry first.  \<open>CoAPMessage_handle\<close> matches a response to the latest
  request with its token, passes the code and that request to the notifier, and
  runs the request's handler; only the handshake's handler touches the session.
  When the request's user pointer is an application's \<open>user_data\<close>
  (\<open>U_app\<close>), the notifier and the handshake's handler would use it as the
  session (lines 166--170 and 113): the model marks undefined behaviour and
  stops there, without the call of \<open>IOT_CoAP_DeviceNameAuth\<close> on that object.
  Both are spec-modelled: the engine is not under \<open>src/\<close>.
\<close>

fun IOT_CoAP_DeviceNameAuth :: "nat \<Rightarrow> world \<Rightarrow> (iotx_ret \<times> world) option"
and iotx_coap_report_mid :: "nat \<Rightarrow> world \<Rightarrow> (mid_ret \<times> world) option"
and CoAPMessage_recv :: "nat \<Rightarrow> nat \<Rightarrow> world \<Rightarrow> (bool \<times> world) option"
and CoAPMessage_handle :: "nat \<Rightarrow> coap_response \<Rightarrow> world \<Rightarrow> world option"
and iotx_event_notifyer :: "nat \<Rightarrow> coap_msg_code \<Rightarrow> coap_message option \<Rightarrow> world \<Rightarrow> world option"
and iotx_device_name_auth_callback ::
  "nat \<Rightarrow> user_ref option \<Rightarrow> coap_response option \<Rightarrow> world \<Rightarrow> world option" where
  "IOT_CoAP_DeviceNameAuth 0 w = None"
| "IOT_CoAP_DeviceNameAuth (Suc f) w =
     (case device_name_auth_send w of
        Inl r \<Rightarrow> Some r
      | Inr w4 \<Rightarrow>
          (case CoAPMessage_recv f 2 w4 of
             None \<Rightarrow> None
           | Some (got, w5) \<Rightarrow>
               (if got \<and> \<not> sess_authed w5 then Some (IOTX_ERR_AUTH_FAILED, w5)
                else
                  (case iotx_coap_report_mid f w5 of
                     None \<Rightarrow> None
                   | Some (r, w6) \<Rightarrow>
                       Some (if r \<noteq> SUCCESS_RETURN then IOTX_ERR_SEND_MSG_FAILED else IOTX_SUCCESS, w6)))))"
| "iotx_coap_report_mid 0 w = None"
| "iotx_coap_report_mid (Suc f) w =
     (case report_mid_send w of
        Inl r \<Rightarrow> Some r
      | Inr w3 \<Rightarrow>
          (case CoAPMessage_recv f 1 w3 of
             None \<Rightarrow> None
           | Some (_, w4) \<Rightarrow> Some (SUCCESS_RETURN, w4)))"
| "CoAPMessage_recv 0 n w = None"
| "CoAPMessage_recv (Suc f) n w =
     (case get_cctx w of
        None \<Rightarrow> Some (False, w)
      | Some c \<Rightarrow>
          (case ctx_inbox c of
             [] \<Rightarrow> Some (False, w)
           | r # rs \<Rightarrow>
               (case CoAPMessage_handle f r (map_cctx (\<lambda>c. c\<lparr>ctx_inbox := rs\<rparr>) w) of
                  None \<Rightarrow> None
                | Some w1 \<Rightarrow> (if n = 1 then Some (True, w1) else CoAPMessage_recv f (n - 1) w1))))"
| "CoAPMessage_handle 0 r w = None"
| "CoAPMessage_handle (Suc f) r w =
     (case get_cctx w of
        None \<Rightarrow> Some w
      | Some c \<Rightarrow>
          (case find_request c (rsp_token r) of
             None \<Rightarrow> Some w
           | Some req \<Rightarrow>
               (case iotx_event_notifyer f (rsp_code r) (Some req) w of
                  None \<Rightarrow> None
                | Some w1 \<Rightarrow>
                    (if msg_handler req = Some H_device_name_auth
                     then iotx_device_name_auth_callback f (msg_user req) (Some r) w1
                     else Some w1))))"
| "iotx_event_notifyer 0 code msg w = None"
| "iotx_event_notifyer (Suc f) code msg w =
     (case msg of
        None \<Rightarrow> Some w
      | Some m \<Rightarrow>
          (if code = COAP_MSG_CODE_402_BAD_OPTION \<or> code = COAP_MSG_CODE_401_UNAUTHORIZED then
             (case msg_user m of
                None \<Rightarrow> Some w
              | Some U_session \<Rightarrow>
                  (case w_ctx w of
                     None \<Rightarrow> Some (mark_ub w)
                   | Some s \<Rightarrow>
                       map_option snd (IOT_CoAP_DeviceNameAuth f (w\<lparr>w_ctx := Some (s\<lparr>is_authed := False\<rparr>)\<rparr>)))
              | Some (U_app n) \<Rightarrow> Some (mark_ub w))
           else Some w))"
| "iotx_device_name_auth_callback 0 user message w = None"
| "iotx_device_name_auth_callback (Suc f) user message w =
     (case user of
        None \<Rightarrow> Some w
      | Some (U_app n) \<Rightarrow> Some (mark_ub w)
      | Some U_session \<Rightarrow>
          (case message of
             None \<Rightarrow> Some w
           | Some r \<Rightarrow>
               (case w_ctx w of
                  None \<Rightarrow> Some (mark_ub w)
                | Some s \<Rightarrow>
                    (case rsp_code r of
                       COAP_MSG_CODE_205_CONTENT \<Rightarrow> Some (auth_callback_content s r w)
                     | COAP_MSG_CODE_500_INTERNAL_SERVER_ERROR \<Rightarrow>
                         map_option snd (IOT_CoAP_DeviceNameAuth f (HAL_SleepMs 1000 w))
                     | _ \<Rightarrow> Some w))))"

subsection \<open>The authentication request\<close>

text \<open>\<open>devinfo_fits\<close>: the identity fields are within the capacities of
  \<open>iotx_deviceinfo_t\<close> (what \<open>IOT_CoAP_Init\<close>'s bounded copies guarantee).
  \<open>auth_request\<close> is the request of section 4.3 of the specification: a confirmable
  POST to \<open>auth\<close> with JSON content and accept options and the payload
  \<open>{"productKey","deviceName","clientId","sign"}\<close>; \<open>auth_sent\<close> is the world once it
  is on the wire.\<close>

definition devinfo_fits :: "iotx_deviceinfo \<Rightarrow> bool" where
  "devinfo_fits di \<longleftrightarrow> length (product_key di) \<le> IOTX_PRODUCT_KEY_LEN
     \<and> length (device_name di) \<le> IOTX_DEVICE_NAME_LEN \<and> length (device_id di) \<le> IOTX_DEVICE_ID_LEN
     \<and> length (device_secret di) \<le> IOTX_DEVICE_SECRET_LEN"

definition auth_sign :: "world \<Rightarrow> iotx_deviceinfo \<Rightarrow> string" where
  "auth_sign w di = hal_hmac w (sign_source (device_id di) (device_name di) (product_key di)) (device_secret di)"

definition auth_request :: "iotx_coap \<Rightarrow> coap_context \<Rightarrow> iotx_deviceinfo \<Rightarrow> string \<Rightarrow> coap_message" where
  "auth_request s c di sign =
     \<lparr>msg_type = COAP_MESSAGE_TYPE_CON, msg_code = COAP_MSG_CODE_POST, msg_id = ctx_message_id c,
      msg_token = fst (iotx_get_coap_token s), msg_handler = Some H_device_name_auth, msg_user = Some U_session,
      msg_options = [(COAP_OPTION_URI_PATH, OptStr ''auth''), (COAP_OPTION_CONTENT_FORMAT, OptUint COAP_CT_APP_JSON),
                     (COAP_OPTION_ACCEPT, OptUint COAP_CT_APP_JSON)],
      msg_payload = auth_payload_json (product_key di) (device_name di) (device_id di) sign\<rparr>"

definition auth_sent :: "world \<Rightarrow> iotx_coap \<Rightarrow> coap_context \<Rightarrow> iotx_deviceinfo \<Rightarrow> world" where
  "auth_sent w s c di = w\<lparr>w_ctx := Some (s\<lparr>coap_token := coap_token s + 1,
     p_coap_ctx := Some (c\<lparr>ctx_message_id := ctx_message_id c + 1,
       ctx_sent := ctx_sent c @ [auth_request s c di (auth_sign w di)]\<rparr>)\<rparr>)\<rparr>"

subsection \<open>Termination\<close>

text \<open>\<open>fuel_enough f\<close>: with \<open>f\<close> units of fuel each member of the family returns,
  provided the fuel exceeds five times the number of pending responses (plus a
  constant per member), and never leaves more responses pending than it found.\<close>

definition fuel_enough :: "nat \<Rightarrow> bool" where
  "fuel_enough f \<longleftrightarrow>
     (\<forall>w. 5 * inbox_len w + 3 \<le> f \<longrightarrow>
        (\<exists>r w'. IOT_CoAP_DeviceNameAuth f w = Some (r, w') \<and> inbox_len w' \<le> inbox_len w))
   \<and> (\<forall>w. 5 * inbox_len w + 2 \<le> f \<longrightarrow>
        (\<exists>r w'. iotx_coap_report_mid f w = Some (r, w') \<and> inbox_len w' \<le> inbox_len w))
   \<and> (\<forall>n w. 5 * inbox_len w + 1 \<le> f \<longrightarrow>
        (\<exists>b w'. CoAPMessage_recv f n w = Some (b, w') \<and> inbox_len w' \<le> inbox_len w))
   \<and> (\<forall>r w. 5 * inbox_len w + 5 \<le> f \<longrightarrow>
        (\<exists>w'. CoAPMessage_handle f r w = Some w' \<and> inbox_len w' \<le> inbox_len w))
   \<and> (\<forall>c m w. 5 * inbox_len w + 4 \<le> f \<longrightarrow>
        (\<exists>w'. iotx_event_notifyer f c m w = Some w' \<and> inbox_len w' \<le> inbox_len w))
   \<and> (\<forall>u mr w. 5 * inbox_len w + 4 \<le> f \<longrightarrow>
        (\<exists>w'. iotx_device_name_auth_callback f u mr w = Some w' \<and> inbox_len w' \<le> inbox_len w))"


lemma inbox_len_simps [simp]:
  "inbox_len (mark_ub w) = inbox_len w"
  "inbox_len (HAL_SleepMs ms w) = inbox_len w"
  "inbox_len (coap_free b w) = inbox_len w"
  "inbox_len (w\<lparr>heap := h\<rparr>) = inbox_len w"
  by (simp_all add: inbox_len_def get_cctx_def mark_ub_def HAL_SleepMs_def coap_free_def)

lemma inbox_len_set_authed:
  "w_ctx w = Some s \<Longrightarrow> inbox_len (w\<lparr>w_ctx := Some (s\<lparr>is_authed := b\<rparr>)\<rparr>) = inbox_len w"
  by (simp add: inbox_len_def get_cctx_def)

lemma coap_malloc_inbox: "coap_malloc b w = (ok, w') \<Longrightarrow> inbox_len w' = inbox_len w \<and> w_ctx w' = w_ctx w"
  by (auto simp: coap_malloc_def inbox_len_def get_cctx_def split: if_splits)

lemma iotx_get_token_from_json_ctx:
  "w_ctx (snd (snd (iotx_get_token_from_json p t l w))) = w_ctx w"
  by (auto simp: iotx_get_token_from_json_def LITE_json_value_of_def coap_malloc_def coap_free_def
      split: option.splits prod.splits if_splits)

lemma auth_callback_content_inbox:
  "w_ctx w = Some s \<Longrightarrow> inbox_len (auth_callback_content s r w) = inbox_len w"
  using iotx_get_token_from_json_ctx
  by (auto simp: auth_callback_content_def inbox_len_def get_cctx_def split_def Let_def)

lemma device_name_auth_send_inbox:
  "(device_name_auth_send w = Inl (r, w') \<longrightarrow> inbox_len w' = inbox_len w)
   \<and> (device_name_auth_send w = Inr w' \<longrightarrow> inbox_len w' = inbox_len w)"
  using iotx_calc_sign_world
  by (auto simp: device_name_auth_send_def inbox_len_def get_cctx_def CoAPMessageId_gen_def
      coap_malloc_def CoAPMessage_send_def coap_free_def mark_ub_def split_def Let_def
      split: option.splits if_splits prod.splits)

lemma report_mid_send_inbox:
  "(report_mid_send w = Inl (r, w') \<longrightarrow> inbox_len w' = inbox_len w)
   \<and> (report_mid_send w = Inr w' \<longrightarrow> inbox_len w' = inbox_len w)"
proof -
  have send: "inbox_len (snd (IOT_CoAP_SendMessage w1 p m)) = inbox_len w1" for w1 p m
    using IOT_CoAP_SendMessage_inbox [of w1 p m "fst (IOT_CoAP_SendMessage w1 p m)"] by simp
  show ?thesis
    using send
    by (auto simp: report_mid_send_def coap_malloc_def split_def Let_def
        split: option.splits if_splits prod.splits)
qed

lemma inbox_len_pop:
  "get_cctx w = Some c \<Longrightarrow> ctx_inbox c = r # rs \<Longrightarrow>
     inbox_len (map_cctx (\<lambda>c. c\<lparr>ctx_inbox := rs\<rparr>) w) = length rs \<and> inbox_len w = Suc (length rs)"
  by (auto simp: inbox_len_def get_cctx_def map_cctx_def map_sess_def split: option.splits)

lemma fuel_enough_D:
  assumes "fuel_enough f"
  shows "5 * inbox_len w + 3 \<le> f \<Longrightarrow>
          \<exists>r w'. IOT_CoAP_DeviceNameAuth f w = Some (r, w') \<and> inbox_len w' \<le> inbox_len w"
    and "5 * inbox_len w + 2 \<le> f \<Longrightarrow>
          \<exists>r w'. iotx_coap_report_mid f w = Some (r, w') \<and> inbox_len w' \<le> inbox_len w"
    and "5 * inbox_len w + 1 \<le> f \<Longrightarrow>
          \<exists>b w'. CoAPMessage_recv f n w = Some (b, w') \<and> inbox_len w' \<le> inbox_len w"
    and "5 * inbox_len w + 5 \<le> f \<Longrightarrow>
          \<exists>w'. CoAPMessage_handle f r w = Some w' \<and> inbox_len w' \<le> inbox_len w"
    and "5 * inbox_len w + 4 \<le> f \<Longrightarrow>
          \<exists>w'. iotx_event_notifyer f c m w = Some w' \<and> inbox_len w' \<le> inbox_len w"
    and "5 * inbox_len w + 4 \<le> f \<Longrightarrow>
          \<exists>w'. iotx_device_name_auth_callback f u mr w = Some w' \<and> inbox_len w' \<le> inbox_len w"
  using assms unfolding fuel_enough_def by blast+

lemma fuel_enough_auth:
  assumes IH: "fuel_enough f" and f: "5 * inbox_len w + 3 \<le> Suc f"
  shows "\<exists>r w'. IOT_CoAP_DeviceNameAuth (Suc f) w = Some (r, w') \<and> inbox_len w' \<le> inbox_len w"
proof (cases "device_name_auth_send w")
  case (Inl a)
  then show ?thesis using device_name_auth_send_inbox [of w "fst a" "snd a"] by (cases a) auto
next
  case (Inr w4)
  have k: "inbox_len w4 = inbox_len w" using Inr device_name_auth_send_inbox [of w _ w4] by simp
  have "5 * inbox_len w4 + 1 \<le> f" using f k by simp
  then obtain got w5 where recv: "CoAPMessage_recv f 2 w4 = Some (got, w5)"
      and k5: "inbox_len w5 \<le> inbox_len w4"
    using fuel_enough_D(3) [OF IH] by blast
  have "5 * inbox_len w5 + 2 \<le> f" using f k k5 by simp
  then obtain r w6 where mid: "iotx_coap_report_mid f w5 = Some (r, w6)"
      and k6: "inbox_len w6 \<le> inbox_len w5"
    using fuel_enough_D(2) [OF IH] by blast
  show ?thesis using Inr recv mid k k5 k6 by auto
qed
lemma fuel_enough_mid:
  assumes IH: "fuel_enough f" and f: "5 * inbox_len w + 2 \<le> Suc f"
  shows "\<exists>r w'. iotx_coap_report_mid (Suc f) w = Some (r, w') \<and> inbox_len w' \<le> inbox_len w"
proof (cases "report_mid_send w")
  case (Inl a)
  then show ?thesis using report_mid_send_inbox [of w "fst a" "snd a"] by (cases a) auto
next
  case (Inr w3)
  have k: "inbox_len w3 = inbox_len w" using Inr report_mid_send_inbox [of w _ w3] by simp
  have "5 * inbox_len w3 + 1 \<le> f" using f k by simp
  then obtain got w4 where "CoAPMessage_recv f 1 w3 = Some (got, w4)" and "inbox_len w4 \<le> inbox_len w3"
    using fuel_enough_D(3) [OF IH] by blast
  then show ?thesis using Inr k by auto
qed

lemma fuel_enough_recv:
  assumes IH: "fuel_enough f" and f: "5 * inbox_len w + 1 \<le> Suc f"
  shows "\<exists>b w'. CoAPMessage_recv (Suc f) n w = Some (b, w') \<and> inbox_len w' \<le> inbox_len w"
proof (cases "get_cctx w")
  case None
  then show ?thesis by auto
next
  case (Some c)
  show ?thesis
  proof (cases "ctx_inbox c")
    case Nil
    with Some show ?thesis by auto
  next
    case (Cons r rs)
    let ?w0 = "map_cctx (\<lambda>c. c\<lparr>ctx_inbox := rs\<rparr>) w"
    have k: "inbox_len ?w0 = length rs" "inbox_len w = Suc (length rs)"
      using inbox_len_pop [OF Some Cons] by simp_all
    have "5 * inbox_len ?w0 + 5 \<le> f" using f k by simp
    then obtain w1 where h: "CoAPMessage_handle f r ?w0 = Some w1" and k1: "inbox_len w1 \<le> length rs"
      using fuel_enough_D(4) [OF IH] k(1) by fastforce
    show ?thesis
    proof (cases "n = 1")
      case True
      with Some Cons h k k1 show ?thesis by auto
    next
      case False
      have "5 * inbox_len w1 + 1 \<le> f" using f k k1 by simp
      then obtain b w2 where "CoAPMessage_recv f (n - 1) w1 = Some (b, w2)" and "inbox_len w2 \<le> inbox_len w1"
        using fuel_enough_D(3) [OF IH] by blast
      with Some Cons h k k1 False show ?thesis by fastforce
    qed
  qed
qed

lemma fuel_enough_notify:
  assumes IH: "fuel_enough f" and f: "5 * inbox_len w + 4 \<le> Suc f"
  shows "\<exists>w'. iotx_event_notifyer (Suc f) code msg w = Some w' \<and> inbox_len w' \<le> inbox_len w"
proof (cases "\<exists>m s. msg = Some m \<and> (code = COAP_MSG_CODE_402_BAD_OPTION \<or> code = COAP_MSG_CODE_401_UNAUTHORIZED)
     \<and> msg_user m = Some U_session \<and> w_ctx w = Some s")
  case True
  then obtain m s where m: "msg = Some m" "code = COAP_MSG_CODE_402_BAD_OPTION \<or> code = COAP_MSG_CODE_401_UNAUTHORIZED"
    "msg_user m = Some U_session" "w_ctx w = Some s" by blast
  let ?w1 = "w\<lparr>w_ctx := Some (s\<lparr>is_authed := False\<rparr>)\<rparr>"
  have k: "inbox_len ?w1 = inbox_len w" using inbox_len_set_authed [OF m(4)] .
  have "5 * inbox_len ?w1 + 3 \<le> f" using f k by simp
  then obtain r w' where "IOT_CoAP_DeviceNameAuth f ?w1 = Some (r, w')" and "inbox_len w' \<le> inbox_len ?w1"
    using fuel_enough_D(1) [OF IH] by blast
  with m k show ?thesis by auto
next
  case False
  then show ?thesis
    by (auto split: option.splits user_ref.splits)
qed

lemma fuel_enough_callback:
  assumes IH: "fuel_enough f" and f: "5 * inbox_len w + 4 \<le> Suc f"
  shows "\<exists>w'. iotx_device_name_auth_callback (Suc f) user message w = Some w' \<and> inbox_len w' \<le> inbox_len w"
proof (cases "\<exists>r s. user = Some U_session \<and> message = Some r \<and> w_ctx w = Some s")
  case True
  then obtain r s where u: "user = Some U_session" "message = Some r" "w_ctx w = Some s" by blast
  have "5 * inbox_len (HAL_SleepMs 1000 w) + 3 \<le> f" using f by simp
  then obtain res w' where a: "IOT_CoAP_DeviceNameAuth f (HAL_SleepMs 1000 w) = Some (res, w')"
      and "inbox_len w' \<le> inbox_len w"
    using fuel_enough_D(1) [OF IH] by fastforce
  then show ?thesis
    using u auth_callback_content_inbox [OF u(3)]
    by (cases "rsp_code r") auto
next
  case False
  then show ?thesis by (auto split: option.splits user_ref.splits)
qed

lemma fuel_enough_handle:
  assumes IH: "fuel_enough f" and f: "5 * inbox_len w + 5 \<le> Suc f"
  shows "\<exists>w'. CoAPMessage_handle (Suc f) r w = Some w' \<and> inbox_len w' \<le> inbox_len w"
proof (cases "\<exists>c req. get_cctx w = Some c \<and> find_request c (rsp_token r) = Some req")
  case True
  then obtain c req where c: "get_cctx w = Some c" "find_request c (rsp_token r) = Some req" by blast
  have "5 * inbox_len w + 4 \<le> f" using f by simp
  then obtain w1 where n: "iotx_event_notifyer f (rsp_code r) (Some req) w = Some w1"
      and k1: "inbox_len w1 \<le> inbox_len w"
    using fuel_enough_D(5) [OF IH] by blast
  have "5 * inbox_len w1 + 4 \<le> f" using f k1 by simp
  then obtain w2 where "iotx_device_name_auth_callback f (msg_user req) (Some r) w1 = Some w2"
      and "inbox_len w2 \<le> inbox_len w1"
    using fuel_enough_D(6) [OF IH] by blast
  with c n k1 show ?thesis by auto
next
  case False
  then show ?thesis by (auto split: option.splits)
qed

lemma fuel_enough_all: "fuel_enough f"
proof (induction f)
  case 0
  then show ?case by (simp add: fuel_enough_def)
next
  case (Suc f)
  have "\<And>w. 5 * inbox_len w + 3 \<le> Suc f \<Longrightarrow>
      \<exists>r w'. IOT_CoAP_DeviceNameAuth (Suc f) w = Some (r, w') \<and> inbox_len w' \<le> inbox_len w"
    using Suc.IH by (rule fuel_enough_auth)
  moreover have "\<And>w. 5 * inbox_len w + 2 \<le> Suc f \<Longrightarrow>
      \<exists>r w'. iotx_coap_report_mid (Suc f) w = Some (r, w') \<and> inbox_len w' \<le> inbox_len w"
    using Suc.IH by (rule fuel_enough_mid)
  moreover have "\<And>n w. 5 * inbox_len w + 1 \<le> Suc f \<Longrightarrow>
      \<exists>b w'. CoAPMessage_recv (Suc f) n w = Some (b, w') \<and> inbox_len w' \<le> inbox_len w"
    using Suc.IH by (rule fuel_enough_recv)
  moreover have "\<And>r w. 5 * inbox_len w + 5 \<le> Suc f \<Longrightarrow>
      \<exists>w'. CoAPMessage_handle (Suc f) r w = Some w' \<and> inbox_len w' \<le> inbox_len w"
    using Suc.IH by (rule fuel_enough_handle)
  moreover have "\<And>c m w. 5 * inbox_len w + 4 \<le> Suc f \<Longrightarrow>
      \<exists>w'. iotx_event_notifyer (Suc f) c m w = Some w' \<and> inbox_len w' \<le> inbox_len w"
    using Suc.IH by (rule fuel_enough_notify)
  moreover have "\<And>u mr w. 5 * inbox_len w + 4 \<le> Suc f \<Longrightarrow>
      \<exists>w'. iotx_device_name_auth_callback (Suc f) u mr w = Some w' \<and> inbox_len w' \<le> inbox_len w"
    using Suc.IH by (rule fuel_enough_callback)
  ultimately show ?case unfolding fuel_enough_def by blast
qed
text \<open>C4: the handshake always returns: with \<open>5 k + 3\<close> units of fuel, where \<open>k\<close> is
  the number of responses the network still holds, \<open>IOT_CoAP_DeviceNameAuth\<close> comes
  back with a result (every nested retry or re-authentication consumes a response).\<close>

theorem IOT_CoAP_DeviceNameAuth_terminates:
  assumes "5 * inbox_len w + 3 \<le> f"
  shows "\<exists>r w'. IOT_CoAP_DeviceNameAuth f w = Some (r, w')"
  using fuel_enough_D(1) [OF fuel_enough_all assms] by blast

theorem IOT_CoAP_DeviceNameAuth_terminates_witness:
  "\<exists>r w'. IOT_CoAP_DeviceNameAuth 8 (example_world\<lparr>w_ctx := Some (example_session\<lparr>p_coap_ctx :=
      Some (example_ctx\<lparr>ctx_inbox := [\<lparr>rsp_code = COAP_MSG_CODE_500_INTERNAL_SERVER_ERROR,
        rsp_token = [4, 3, 2, 1], rsp_payload = []\<rparr>]\<rparr>)\<rparr>)\<rparr>) = Some (r, w')"
  by (rule IOT_CoAP_DeviceNameAuth_terminates)
    (simp add: inbox_len_def get_cctx_def)

end
