(* ===== verification/Coap_Handshake.thy ===== *)
theory Coap_Handshake
  imports Coap_Auth
begin

text \<open>
  What the handshake does, run by run.  The lemmas of the first group state one
  step of each member of the recursive family of \<open>Coap_Auth\<close> (the handshake
  sends, receives and reports; a receive hands a response to its handler; the
  handler of a \<open>2.05\<close> stores the token, that of a \<open>5.00\<close> sleeps and starts over),
  so that a run is a chain of these steps rather than an unfolding of the whole
  family.  On top of them: the request the handshake sends
  (\<open>device_name_auth_send_ok\<close>), a handshake answered by one \<open>2.05\<close>
  (\<open>auth_one_response_mid\<close>, whatever the module-id report that follows
  returns, and \<open>auth_one_response\<close> when there is no report) and by \<open>k\<close> consecutive \<open>5.00\<close> (\<open>auth_retry_chain\<close>, by
  induction on \<open>k\<close> through the nested calls).  The module-id report that follows
  a successful authentication is unfolded to the request it sends
  (\<open>report_mid_ok\<close>, from the send lemma of \<open>Coap_Send\<close>) or to its allocation
  failure (\<open>report_mid_oom\<close>).
\<close>

text \<open>\<open>retry_inbox s k\<close>: the server answers the next \<open>k\<close> authentication requests of
  session \<open>s\<close> with \<open>5.00\<close>; \<open>auth_requests s c di sign k\<close>: the \<open>k\<close> requests the
  handshake sends meanwhile, with consecutive ids and correlation tokens.\<close>

definition retry_inbox :: "iotx_coap \<Rightarrow> nat \<Rightarrow> coap_response list" where
  "retry_inbox s k = map (\<lambda>i. \<lparr>rsp_code = COAP_MSG_CODE_500_INTERNAL_SERVER_ERROR,
     rsp_token = u32_le_bytes (coap_token s + word_of_nat i), rsp_payload = []\<rparr>) [0..<k]"

definition auth_requests :: "iotx_coap \<Rightarrow> coap_context \<Rightarrow> iotx_deviceinfo \<Rightarrow> string \<Rightarrow> nat \<Rightarrow> coap_message list" where
  "auth_requests s c di sign k = map (\<lambda>i. auth_request (s\<lparr>coap_token := coap_token s + word_of_nat i\<rparr>)
     (c\<lparr>ctx_message_id := ctx_message_id c + word_of_nat i\<rparr>) di sign) [0..<k]"

text \<open>A session, as \<open>IOT_CoAP_Init\<close> leaves it, waiting for the given responses to
  its requests, on a host whose digest is a fixed 32-character string.\<close>

definition example_auth_world :: "coap_response list \<Rightarrow> world" where
  "example_auth_world rs = example_world\<lparr>hal_hmac := (\<lambda>m k. ''0123456789abcdef0123456789abcdef''),
     w_ctx := Some (example_session\<lparr>p_coap_ctx := Some (example_ctx\<lparr>ctx_inbox := rs\<rparr>)\<rparr>)\<rparr>"

subsection \<open>The request\<close>

lemma auth_payload_json_length:
  "length (auth_payload_json pk dn cid sign) = 57 + length pk + length dn + length cid + length sign"
  by (simp add: auth_payload_json_def)

lemma devinfo_fits_sign_source:
  "devinfo_fits di \<Longrightarrow>
     length (sign_source (device_id di) (device_name di) (product_key di)) < IOTX_SIGN_SOURCE_LEN"
  by (simp add: devinfo_fits_def sign_source_length coap_limits)

lemma auth_request_size:
  assumes "devinfo_fits di" and "length sign < IOTX_SIGN_LENGTH"
  shows "length (msg_payload (auth_request s c di sign)) < COAP_MSG_MAX_PDU_LEN"
    and "coap_msg_size (auth_request s c di sign) \<le> COAP_MSG_MAX_PDU_LEN"
  using assms
  by (simp_all add: auth_request_def coap_msg_size_def auth_payload_json_length devinfo_fits_def
      coap_limits iotx_get_coap_token_length)

lemma device_name_auth_send_ok:
  assumes s: "w_ctx w = Some s" "p_auth_token s = Some b" "p_coap_ctx s = Some c" "auth_token_len s \<noteq> 0"
    "p_devinfo s = Some di"
    and fits: "devinfo_fits di" "length (auth_sign w di) < IOTX_SIGN_LENGTH"
    and mem: "B_auth_payload \<notin> alloc_fail w" "B_sign_src \<notin> alloc_fail w"
    and net: "ctx_net_ok c"
  shows "device_name_auth_send w = Inr (auth_sent w s c di)"
proof -
  have src: "snprintf_buf IOTX_SIGN_SOURCE_LEN (sign_source (device_id di) (device_name di) (product_key di))
      = sign_source (device_id di) (device_name di) (product_key di)"
    using devinfo_fits_sign_source [OF fits(1)] by simp
  have pl: "length (auth_payload_json (product_key di) (device_name di) (device_id di) (auth_sign w di))
      < COAP_MSG_MAX_PDU_LEN"
    using auth_request_size(1) [OF fits, of s c] by (simp add: auth_request_def)
  have sz: "coap_msg_size (auth_request s c di (auth_sign w di)) \<le> COAP_MSG_MAX_PDU_LEN"
    using auth_request_size(2) [OF fits] .
  show ?thesis
    using s mem net src pl sz
    by (simp add: device_name_auth_send_def CoAPMessageId_gen_def iotx_get_coap_token_snd split_def Let_def
        coap_malloc_ok iotx_calc_sign_ok CoAPMessage_send_def engine_defs auth_sign_def coap_free_def
        auth_sent_def auth_request_def)
qed


lemma auth_callback_content_ok:
  assumes "CHR ''\"'' \<notin> set t" and "length t < auth_token_len s" and "B_json_value \<notin> alloc_fail w"
    and "p_auth_token s = Some b" and "rsp_payload r = token_json t"
  shows "auth_callback_content s r w = w\<lparr>w_ctx := Some (s\<lparr>p_auth_token := Some t, is_authed := True\<rparr>)\<rparr>"
  using token_from_json_fits [OF assms(1-3), of b] assms(4,5) by (simp add: auth_callback_content_def)

lemma find_request_last [simp]:
  "find_request (c\<lparr>ctx_sent := ms @ [m], ctx_inbox := i\<rparr>) (msg_token m) = Some m"
  by (simp add: find_request_def)

subsection \<open>Steps of the family\<close>

lemma retry_inbox_Suc:
  assumes "coap_token s' = coap_token s + 1"
  shows "retry_inbox s (Suc k) = \<lparr>rsp_code = COAP_MSG_CODE_500_INTERNAL_SERVER_ERROR,
     rsp_token = fst (iotx_get_coap_token s), rsp_payload = []\<rparr> # retry_inbox s' k"
  using assms by (simp add: retry_inbox_def upt_Suc_Cons iotx_get_coap_token_fst ac_simps del: upt_Suc)

lemma auth_requests_Suc:
  assumes "coap_token s' = coap_token s + 1" and "ctx_message_id c' = ctx_message_id c + 1"
  shows "auth_requests s c di sign (Suc k) = auth_request s c di sign # auth_requests s' c' di sign k"
  using assms by (simp add: auth_requests_def upt_Suc_Cons auth_request_def iotx_get_coap_token_fst ac_simps del: upt_Suc)

lemma auth_sign_simps [simp]:
  "auth_sign (HAL_SleepMs ms w) di = auth_sign w di"
  "auth_sign (w\<lparr>w_ctx := x\<rparr>) di = auth_sign w di"
  by (simp_all add: auth_sign_def HAL_SleepMs_def)

lemma recv_empty:
  "get_cctx w = Some c \<Longrightarrow> ctx_inbox c = [] \<Longrightarrow> CoAPMessage_recv (Suc f) n w = Some (False, w)"
  by simp

lemma report_mid_no_partner:
  "partner_id w = [] \<Longrightarrow> iotx_coap_report_mid (Suc f) w = Some (SUCCESS_RETURN, w)"
  by (simp add: report_mid_send_def)

lemma notifier_other:
  "code \<noteq> COAP_MSG_CODE_401_UNAUTHORIZED \<Longrightarrow> code \<noteq> COAP_MSG_CODE_402_BAD_OPTION \<Longrightarrow>
     iotx_event_notifyer (Suc f) code m w = Some w"
  by (simp split: option.splits)

lemma auth_request_fields [simp]:
  "msg_token (auth_request s c di sign) = fst (iotx_get_coap_token s)"
  "msg_handler (auth_request s c di sign) = Some H_device_name_auth"
  "msg_user (auth_request s c di sign) = Some U_session"
  by (simp_all add: auth_request_def)

lemma handle_auth_response:
  assumes "get_cctx w = Some c" and "find_request c (rsp_token r) = Some (auth_request s' c' di sign)"
    and "rsp_code r \<noteq> COAP_MSG_CODE_401_UNAUTHORIZED" and "rsp_code r \<noteq> COAP_MSG_CODE_402_BAD_OPTION"
  shows "CoAPMessage_handle (Suc (Suc f)) r w = iotx_device_name_auth_callback (Suc f) (Some U_session) (Some r) w"
  using assms notifier_other [OF assms(3,4)] by simp

lemma auth_sent_cctx:
  "w_ctx w = Some s \<Longrightarrow> get_cctx (auth_sent w s c di)
     = Some (c\<lparr>ctx_message_id := ctx_message_id c + 1, ctx_sent := ctx_sent c @ [auth_request s c di (auth_sign w di)]\<rparr>)"
  by (simp add: auth_sent_def get_cctx_def)

lemma auth_run:
  "device_name_auth_send w = Inr w4 \<Longrightarrow> CoAPMessage_recv f 2 w4 = Some (got, w5) \<Longrightarrow>
     \<not> (got \<and> \<not> sess_authed w5) \<Longrightarrow> iotx_coap_report_mid f w5 = Some (r, w6) \<Longrightarrow>
     IOT_CoAP_DeviceNameAuth (Suc f) w = Some (if r \<noteq> SUCCESS_RETURN then IOTX_ERR_SEND_MSG_FAILED else IOTX_SUCCESS, w6)"
  by simp

lemma recv_step:
  "get_cctx w = Some c \<Longrightarrow> ctx_inbox c = r # rs \<Longrightarrow>
     CoAPMessage_handle f r (map_cctx (\<lambda>c. c\<lparr>ctx_inbox := rs\<rparr>) w) = Some w1 \<Longrightarrow>
     CoAPMessage_recv (Suc f) n w = (if n = 1 then Some (True, w1) else CoAPMessage_recv f (n - 1) w1)"
  by simp

lemma callback_500:
  "w_ctx w = Some s \<Longrightarrow> rsp_code r = COAP_MSG_CODE_500_INTERNAL_SERVER_ERROR \<Longrightarrow>
     IOT_CoAP_DeviceNameAuth f (HAL_SleepMs 1000 w) = Some (x, w') \<Longrightarrow>
     iotx_device_name_auth_callback (Suc f) (Some U_session) (Some r) w = Some w'"
  by simp

subsection \<open>Runs\<close>

lemma auth_retry_chain:
  assumes s: "w_ctx w = Some s" "p_auth_token s = Some b" "p_coap_ctx s = Some c" "auth_token_len s \<noteq> 0"
    "p_devinfo s = Some di"
    and fits: "devinfo_fits di" "length (auth_sign w di) < IOTX_SIGN_LENGTH"
    and mem: "B_auth_payload \<notin> alloc_fail w" "B_sign_src \<notin> alloc_fail w"
    and net: "ctx_net_ok c" and pid: "partner_id w = []"
    and rsp: "ctx_inbox c = retry_inbox s k"
    and f: "4 * k + 4 \<le> f"
  shows "IOT_CoAP_DeviceNameAuth f w = Some (IOTX_SUCCESS,
     w\<lparr>clock_ms := clock_ms w + 1000 * k,
       w_ctx := Some (s\<lparr>coap_token := coap_token s + word_of_nat (Suc k),
         p_coap_ctx := Some (c\<lparr>ctx_message_id := ctx_message_id c + word_of_nat (Suc k),
           ctx_sent := ctx_sent c @ auth_requests s c di (auth_sign w di) (Suc k), ctx_inbox := []\<rparr>)\<rparr>)\<rparr>)"
  using assms
proof (induction k arbitrary: w s b c f)
  case 0
  obtain g where g: "f = Suc (Suc (Suc (Suc g)))" using fuel4 [of f] "0.prems"(13) by auto
  have send: "device_name_auth_send w = Inr (auth_sent w s c di)"
    by (rule device_name_auth_send_ok [OF "0.prems"(1-10)])
  show ?case
    using send "0.prems"(1,3,11,12)
    by (simp add: g auth_sent_def get_cctx_def report_mid_send_def retry_inbox_def auth_requests_def)
next
  case (Suc k)
  obtain g where g: "f = Suc (Suc (Suc (Suc g)))" and g4: "4 * k + 4 \<le> g"
    using fuel4 [of f] Suc.prems(13) by auto
  define sign where "sign = auth_sign w di"
  define req where "req = auth_request s c di sign"
  define s1 where "s1 = s\<lparr>coap_token := coap_token s + 1\<rparr>"
  define c1 where "c1 = c\<lparr>ctx_message_id := ctx_message_id c + 1, ctx_sent := ctx_sent c @ [req],
    ctx_inbox := retry_inbox s1 k\<rparr>"
  define sn where "sn = s1\<lparr>p_coap_ctx := Some c1\<rparr>"
  define w0 where "w0 = w\<lparr>w_ctx := Some sn\<rparr>"
  define r0 where "r0 = \<lparr>rsp_code = COAP_MSG_CODE_500_INTERNAL_SERVER_ERROR,
     rsp_token = fst (iotx_get_coap_token s), rsp_payload = []\<rparr>"
  define W' where "W' = w\<lparr>clock_ms := clock_ms w + 1000 * Suc k,
       w_ctx := Some (sn\<lparr>coap_token := coap_token sn + word_of_nat (Suc k),
         p_coap_ctx := Some (c1\<lparr>ctx_message_id := ctx_message_id c1 + word_of_nat (Suc k),
           ctx_sent := ctx_sent c1 @ auth_requests sn c1 di sign (Suc k), ctx_inbox := []\<rparr>)\<rparr>)\<rparr>"
  have send: "device_name_auth_send w = Inr (auth_sent w s c di)"
    by (rule device_name_auth_send_ok [OF Suc.prems(1-10)])
  have inbox: "ctx_inbox c = r0 # retry_inbox s1 k"
    using Suc.prems(12) retry_inbox_Suc [of s1 s k] by (simp add: s1_def r0_def)
  have pop: "map_cctx (\<lambda>c. c\<lparr>ctx_inbox := retry_inbox s1 k\<rparr>) (auth_sent w s c di) = w0"
    using Suc.prems(1,3) inbox
    by (simp add: auth_sent_def map_cctx_def map_sess_def w0_def sn_def s1_def c1_def req_def sign_def)
  have IH: "IOT_CoAP_DeviceNameAuth g (HAL_SleepMs 1000 w0) = Some (IOTX_SUCCESS, W')"
  proof -
    have "IOT_CoAP_DeviceNameAuth g (HAL_SleepMs 1000 w0) = Some (IOTX_SUCCESS,
       (HAL_SleepMs 1000 w0)\<lparr>clock_ms := clock_ms (HAL_SleepMs 1000 w0) + 1000 * k,
         w_ctx := Some (sn\<lparr>coap_token := coap_token sn + word_of_nat (Suc k),
           p_coap_ctx := Some (c1\<lparr>ctx_message_id := ctx_message_id c1 + word_of_nat (Suc k),
             ctx_sent := ctx_sent c1 @ auth_requests sn c1 di (auth_sign (HAL_SleepMs 1000 w0) di) (Suc k),
             ctx_inbox := []\<rparr>)\<rparr>)\<rparr>)"
      by (rule Suc.IH)
        (use Suc.prems g4 in \<open>simp_all add: HAL_SleepMs_def auth_sign_def w0_def sn_def s1_def c1_def retry_inbox_def\<close>)
    then show ?thesis
      by (simp add: W'_def w0_def HAL_SleepMs_def sign_def auth_sign_def)
  qed
  have W'_cctx: "get_cctx W' = Some (c1\<lparr>ctx_message_id := ctx_message_id c1 + word_of_nat (Suc k),
      ctx_sent := ctx_sent c1 @ auth_requests sn c1 di sign (Suc k), ctx_inbox := []\<rparr>)"
    by (simp add: W'_def get_cctx_def)
  have find: "find_request c1 (rsp_token r0) = Some req"
    by (simp add: find_request_def c1_def r0_def req_def)
  have w0_cctx: "get_cctx w0 = Some c1" by (simp add: w0_def sn_def get_cctx_def)
  have cb: "iotx_device_name_auth_callback (Suc g) (Some U_session) (Some r0) w0 = Some W'"
    by (rule callback_500 [OF _ _ IH]) (simp_all add: w0_def r0_def)
  have handle: "CoAPMessage_handle (Suc (Suc g)) r0 w0 = Some W'"
    using handle_auth_response [OF w0_cctx, of r0 s c di sign] find cb by (simp add: req_def r0_def)
  have c0: "get_cctx (auth_sent w s c di) = Some (c\<lparr>ctx_message_id := ctx_message_id c + 1,
      ctx_sent := ctx_sent c @ [auth_request s c di (auth_sign w di)]\<rparr>)"
    by (rule auth_sent_cctx [OF Suc.prems(1)])
  have h': "CoAPMessage_handle (Suc (Suc g)) r0
      (map_cctx (\<lambda>c. c\<lparr>ctx_inbox := retry_inbox s1 k\<rparr>) (auth_sent w s c di)) = Some W'"
    unfolding pop by (rule handle)
  have "CoAPMessage_recv (Suc (Suc (Suc g))) 2 (auth_sent w s c di)
      = (if (2::nat) = 1 then Some (True, W') else CoAPMessage_recv (Suc (Suc g)) (2 - 1) W')"
    by (rule recv_step [OF c0 _ h']) (simp add: inbox)
  also have "\<dots> = CoAPMessage_recv (Suc (Suc g)) 1 W'"
    by (simp del: CoAPMessage_recv.simps)
  also have "\<dots> = Some (False, W')"
    by (rule recv_empty [OF W'_cctx]) simp
  finally have recv: "CoAPMessage_recv (Suc (Suc (Suc g))) 2 (auth_sent w s c di) = Some (False, W')" .
  have mid: "iotx_coap_report_mid (Suc (Suc (Suc g))) W' = Some (SUCCESS_RETURN, W')"
    by (rule report_mid_no_partner) (simp add: W'_def Suc.prems(11))
  have reqs: "auth_requests s c di sign (Suc (Suc k)) = req # auth_requests sn c1 di sign (Suc k)"
    unfolding req_def by (rule auth_requests_Suc) (simp_all add: sn_def s1_def c1_def)
  have "IOT_CoAP_DeviceNameAuth f w = Some (IOTX_SUCCESS, W')"
    unfolding g using auth_run [OF send recv _ mid] by simp
  then show ?case
    using reqs by (simp add: W'_def sn_def s1_def c1_def sign_def ac_simps)
qed

lemma callback_205:
  "w_ctx w = Some s \<Longrightarrow> rsp_code r = COAP_MSG_CODE_205_CONTENT \<Longrightarrow>
     iotx_device_name_auth_callback (Suc f) (Some U_session) (Some r) w = Some (auth_callback_content s r w)"
  by simp

lemma auth_callback_content_frame:
  "w_ctx w = Some s \<Longrightarrow>
     get_cctx (auth_callback_content s r w) = p_coap_ctx s \<and> partner_id (auth_callback_content s r w) = partner_id w"
  using iotx_get_token_from_json_ctx
  by (auto simp: auth_callback_content_def get_cctx_def split_def Let_def iotx_get_token_from_json_def
      LITE_json_value_of_def coap_malloc_def coap_free_def split: option.splits prod.splits if_splits)

lemma auth_callback_content_absent:
  assumes "json_scan (json_key_pattern ''token'') (rsp_payload r) = None" and "p_auth_token s = Some b"
  shows "auth_callback_content s r w = w\<lparr>w_ctx := Some s\<rparr>"
  using assms
  by (simp add: auth_callback_content_def iotx_get_token_from_json_def LITE_json_value_of_absent)

text \<open>One \<open>2.05\<close> answers the request: the handshake's result is decided by the
  module-id report that follows, whatever it does.\<close>

lemma auth_one_response_mid:
  assumes s: "w_ctx w = Some s" "p_auth_token s = Some b" "p_coap_ctx s = Some c" "auth_token_len s \<noteq> 0"
    "p_devinfo s = Some di"
    and fits: "devinfo_fits di" "length (auth_sign w di) < IOTX_SIGN_LENGTH"
    and mem: "B_auth_payload \<notin> alloc_fail w" "B_sign_src \<notin> alloc_fail w"
    and net: "ctx_net_ok c"
    and rsp: "ctx_inbox c = [r]" "rsp_code r = COAP_MSG_CODE_205_CONTENT" "rsp_token r = fst (iotx_get_coap_token s)"
    and f: "4 \<le> f"
    and mid: "\<And>g. iotx_coap_report_mid (Suc (Suc g))
       (auth_callback_content (s\<lparr>coap_token := coap_token s + 1,
         p_coap_ctx := Some (c\<lparr>ctx_message_id := ctx_message_id c + 1,
           ctx_sent := ctx_sent c @ [auth_request s c di (auth_sign w di)], ctx_inbox := []\<rparr>)\<rparr>) r
         (w\<lparr>w_ctx := Some (s\<lparr>coap_token := coap_token s + 1,
         p_coap_ctx := Some (c\<lparr>ctx_message_id := ctx_message_id c + 1,
           ctx_sent := ctx_sent c @ [auth_request s c di (auth_sign w di)], ctx_inbox := []\<rparr>)\<rparr>)\<rparr>))
       = Some (q, W')"
  shows "IOT_CoAP_DeviceNameAuth f w
     = Some (if q \<noteq> SUCCESS_RETURN then IOTX_ERR_SEND_MSG_FAILED else IOTX_SUCCESS, W')"
proof -
  obtain g where g: "f = Suc (Suc (Suc (Suc g)))" using fuel4 [OF f] by blast
  let ?c0 = "c\<lparr>ctx_message_id := ctx_message_id c + 1,
         ctx_sent := ctx_sent c @ [auth_request s c di (auth_sign w di)], ctx_inbox := []\<rparr>"
  let ?s0 = "s\<lparr>coap_token := coap_token s + 1, p_coap_ctx := Some ?c0\<rparr>"
  let ?w0 = "w\<lparr>w_ctx := Some ?s0\<rparr>"
  define W where "W = auth_callback_content ?s0 r ?w0"
  have send: "device_name_auth_send w = Inr (auth_sent w s c di)"
    by (rule device_name_auth_send_ok [OF s fits mem net])
  have c0: "get_cctx (auth_sent w s c di) = Some (c\<lparr>ctx_message_id := ctx_message_id c + 1,
      ctx_sent := ctx_sent c @ [auth_request s c di (auth_sign w di)]\<rparr>)"
    by (rule auth_sent_cctx [OF s(1)])
  have pop: "map_cctx (\<lambda>c. c\<lparr>ctx_inbox := []\<rparr>) (auth_sent w s c di) = ?w0"
    using s(1,3) by (simp add: auth_sent_def map_cctx_def map_sess_def)
  have w0c: "get_cctx ?w0 = Some ?c0" by (simp add: get_cctx_def)
  have find: "find_request ?c0 (rsp_token r) = Some (auth_request s c di (auth_sign w di))"
    using rsp(3) by (simp add: find_request_def)
  have handle: "CoAPMessage_handle (Suc (Suc g)) r ?w0 = Some W"
    using handle_auth_response [OF w0c find] rsp(2) callback_205 [of ?w0 ?s0 r g] by (simp add: W_def)
  have Wc: "get_cctx W = Some ?c0"
    using auth_callback_content_frame [of ?w0 ?s0 r] by (simp add: W_def)
  have h': "CoAPMessage_handle (Suc (Suc g)) r (map_cctx (\<lambda>c. c\<lparr>ctx_inbox := []\<rparr>) (auth_sent w s c di)) = Some W"
    unfolding pop by (rule handle)
  have "CoAPMessage_recv (Suc (Suc (Suc g))) 2 (auth_sent w s c di)
      = (if (2::nat) = 1 then Some (True, W) else CoAPMessage_recv (Suc (Suc g)) (2 - 1) W)"
    by (rule recv_step [OF c0 _ h']) (simp add: rsp(1))
  also have "\<dots> = CoAPMessage_recv (Suc (Suc g)) 1 W"
    by (simp del: CoAPMessage_recv.simps)
  also have "\<dots> = Some (False, W)"
    by (rule recv_empty [OF Wc]) simp
  finally have recv: "CoAPMessage_recv (Suc (Suc (Suc g))) 2 (auth_sent w s c di) = Some (False, W)" .
  show ?thesis
    unfolding g using auth_run [OF send recv _ mid [of "Suc g", folded W_def]] by simp
qed

lemma auth_one_response:
  assumes s: "w_ctx w = Some s" "p_auth_token s = Some b" "p_coap_ctx s = Some c" "auth_token_len s \<noteq> 0"
    "p_devinfo s = Some di"
    and fits: "devinfo_fits di" "length (auth_sign w di) < IOTX_SIGN_LENGTH"
    and mem: "B_auth_payload \<notin> alloc_fail w" "B_sign_src \<notin> alloc_fail w"
    and net: "ctx_net_ok c" and pid: "partner_id w = []"
    and rsp: "ctx_inbox c = [r]" "rsp_code r = COAP_MSG_CODE_205_CONTENT" "rsp_token r = fst (iotx_get_coap_token s)"
    and f: "4 \<le> f"
  shows "IOT_CoAP_DeviceNameAuth f w = Some (IOTX_SUCCESS,
     auth_callback_content (s\<lparr>coap_token := coap_token s + 1,
       p_coap_ctx := Some (c\<lparr>ctx_message_id := ctx_message_id c + 1,
         ctx_sent := ctx_sent c @ [auth_request s c di (auth_sign w di)], ctx_inbox := []\<rparr>)\<rparr>) r
       (w\<lparr>w_ctx := Some (s\<lparr>coap_token := coap_token s + 1,
       p_coap_ctx := Some (c\<lparr>ctx_message_id := ctx_message_id c + 1,
         ctx_sent := ctx_sent c @ [auth_request s c di (auth_sign w di)], ctx_inbox := []\<rparr>)\<rparr>)\<rparr>))"
  using auth_one_response_mid [OF s fits mem net rsp f report_mid_no_partner]
    auth_callback_content_frame pid by simp

subsection \<open>Properties of the handshake\<close>

lemma device_name_auth_send_no_sign:
  assumes s: "w_ctx w = Some s" "p_auth_token s = Some b" "p_coap_ctx s = Some c" "auth_token_len s \<noteq> 0"
    "p_devinfo s = Some di"
    and fits: "devinfo_fits di"
    and mem: "B_auth_payload \<notin> alloc_fail w" "B_sign_src \<in> alloc_fail w"
    and net: "ctx_net_ok c"
  shows "device_name_auth_send w = Inr (w\<lparr>w_ctx := Some (s\<lparr>coap_token := coap_token s + 1,
     p_coap_ctx := Some (c\<lparr>ctx_message_id := ctx_message_id c + 1,
       ctx_sent := ctx_sent c @ [auth_request s c di []]\<rparr>)\<rparr>)\<rparr>)"
proof -
  have pl: "length (auth_payload_json (product_key di) (device_name di) (device_id di) []) < COAP_MSG_MAX_PDU_LEN"
    using auth_request_size(1) [OF fits, of "[]" s c] by (simp add: auth_request_def IOTX_SIGN_LENGTH_def)
  have sz: "coap_msg_size (auth_request s c di []) \<le> COAP_MSG_MAX_PDU_LEN"
    using auth_request_size(2) [OF fits, of "[]"] by (simp add: IOTX_SIGN_LENGTH_def)
  show ?thesis
    using s mem net pl sz
    by (simp add: device_name_auth_send_def CoAPMessageId_gen_def iotx_get_coap_token_snd split_def Let_def
        coap_malloc_ok iotx_calc_sign_no_mem CoAPMessage_send_def engine_defs coap_free_def auth_request_def)
qed

lemma notifier_unauthorized:
  "w_ctx w = Some s \<Longrightarrow> msg_user m = Some U_session \<Longrightarrow>
     code = COAP_MSG_CODE_401_UNAUTHORIZED \<or> code = COAP_MSG_CODE_402_BAD_OPTION \<Longrightarrow>
     IOT_CoAP_DeviceNameAuth f (w\<lparr>w_ctx := Some (s\<lparr>is_authed := False\<rparr>)\<rparr>) = Some (x, w') \<Longrightarrow>
     iotx_event_notifyer (Suc f) code (Some m) w = Some w'"
  by auto

lemma handle_other_handler:
  "get_cctx w = Some c \<Longrightarrow> find_request c (rsp_token r) = Some req \<Longrightarrow>
     iotx_event_notifyer f (rsp_code r) (Some req) w = Some w1 \<Longrightarrow> msg_handler req \<noteq> Some H_device_name_auth \<Longrightarrow>
     CoAPMessage_handle (Suc f) r w = Some w1"
  by simp

lemma auth_requests_one [simp]:
  "auth_requests s c di sign 1 = [auth_request s c di sign]"
  by (simp add: auth_requests_def)

lemma auth_request_authed [simp]:
  "auth_request (s\<lparr>is_authed := x\<rparr>) c di sign = auth_request s c di sign"
  by (simp add: auth_request_def iotx_get_coap_token_fst)

lemma braces_no_token: "json_scan (json_key_pattern ''token'') ''{}'' = None"
  by (simp add: json_key_pattern_def json_scan.simps(2))

text \<open>C3: a handshake answered by \<open>2.05\<close> with body \<open>{"token":"t"}\<close>, where \<open>t\<close> fits the
  token buffer, returns \<open>IOTX_SUCCESS\<close>, marks the session authenticated and stores
  exactly \<open>t\<close>; the only request sent is the authentication request, and the heap is
  unchanged (no module report when no partner id is set).\<close>

theorem IOT_CoAP_DeviceNameAuth_success:
  assumes s: "w_ctx w = Some s" "p_auth_token s = Some b" "p_coap_ctx s = Some c" "auth_token_len s \<noteq> 0"
    "p_devinfo s = Some di"
    and fits: "devinfo_fits di" "length (auth_sign w di) < IOTX_SIGN_LENGTH"
    and mem: "B_auth_payload \<notin> alloc_fail w" "B_sign_src \<notin> alloc_fail w" "B_json_value \<notin> alloc_fail w"
    and net: "ctx_net_ok c" and pid: "partner_id w = []"
    and rsp: "ctx_inbox c = [\<lparr>rsp_code = COAP_MSG_CODE_205_CONTENT, rsp_token = fst (iotx_get_coap_token s),
      rsp_payload = token_json t\<rparr>]"
    and t: "CHR ''\"'' \<notin> set t" "length t < auth_token_len s"
    and f: "4 \<le> f"
  shows "IOT_CoAP_DeviceNameAuth f w = Some (IOTX_SUCCESS,
     w\<lparr>w_ctx := Some (s\<lparr>p_auth_token := Some t, is_authed := True, coap_token := coap_token s + 1,
       p_coap_ctx := Some (c\<lparr>ctx_message_id := ctx_message_id c + 1,
         ctx_sent := ctx_sent c @ [auth_request s c di (auth_sign w di)], ctx_inbox := []\<rparr>)\<rparr>)\<rparr>)"
  using auth_one_response [OF s fits mem(1,2) net pid rsp _ _ f] auth_callback_content_ok t mem(3) s(2)
  by simp

theorem IOT_CoAP_DeviceNameAuth_success_witness:
  "map_option (\<lambda>(r, w'). (r, map_option p_auth_token (w_ctx w'), sess_authed w'))
     (IOT_CoAP_DeviceNameAuth 4 (example_auth_world [\<lparr>rsp_code = COAP_MSG_CODE_205_CONTENT,
        rsp_token = fst (iotx_get_coap_token example_session), rsp_payload = token_json ''T123''\<rparr>]))
   = Some (IOTX_SUCCESS, Some (Some ''T123''), True)"
proof -
  define c0 where "c0 = example_ctx\<lparr>ctx_inbox := [\<lparr>rsp_code = COAP_MSG_CODE_205_CONTENT,
    rsp_token = fst (iotx_get_coap_token example_session), rsp_payload = token_json ''T123''\<rparr>]\<rparr>"
  define s0 where "s0 = example_session\<lparr>p_coap_ctx := Some c0\<rparr>"
  define w0 where "w0 = example_auth_world (ctx_inbox c0)"
  have h: "IOT_CoAP_DeviceNameAuth 4 w0 = Some (IOTX_SUCCESS,
     w0\<lparr>w_ctx := Some (s0\<lparr>p_auth_token := Some ''T123'', is_authed := True,
       coap_token := coap_token s0 + 1, p_coap_ctx := Some (c0\<lparr>ctx_message_id := ctx_message_id c0 + 1,
         ctx_sent := ctx_sent c0 @ [auth_request s0 c0 example_devinfo (auth_sign w0 example_devinfo)],
         ctx_inbox := []\<rparr>)\<rparr>)\<rparr>)"
    by (rule IOT_CoAP_DeviceNameAuth_success)
      (simp_all add: w0_def example_auth_world_def example_world_def example_session_def example_ctx_def s0_def
        c0_def devinfo_fits_def example_devinfo_def auth_sign_def coap_limits iotx_get_coap_token_fst)
  show ?thesis using h by (simp add: sess_authed_def w0_def c0_def)
qed

text \<open>C22: every \<open>5.00\<close> answer makes the handler sleep a second and start a new
  handshake from inside the pending receive, with no bound on the number of
  retries: after \<open>k\<close> consecutive \<open>5.00\<close>, \<open>k + 1\<close> authentication requests have been
  sent, \<open>1000 k\<close> ms have passed, and the call still returns \<open>IOTX_SUCCESS\<close> with the
  session exactly as authenticated as before.\<close>

theorem IOT_CoAP_DeviceNameAuth_retries:
  assumes s: "w_ctx w = Some s" "p_auth_token s = Some b" "p_coap_ctx s = Some c" "auth_token_len s \<noteq> 0"
    "p_devinfo s = Some di"
    and fits: "devinfo_fits di" "length (auth_sign w di) < IOTX_SIGN_LENGTH"
    and mem: "B_auth_payload \<notin> alloc_fail w" "B_sign_src \<notin> alloc_fail w"
    and net: "ctx_net_ok c" and pid: "partner_id w = []"
    and rsp: "ctx_inbox c = retry_inbox s k"
    and f: "4 * k + 4 \<le> f"
  shows "\<exists>w'. IOT_CoAP_DeviceNameAuth f w = Some (IOTX_SUCCESS, w') \<and> clock_ms w' = clock_ms w + 1000 * k
     \<and> sess_authed w' = is_authed s
     \<and> (\<exists>c'. get_cctx w' = Some c' \<and> ctx_sent c' = ctx_sent c @ auth_requests s c di (auth_sign w di) (Suc k))"
  using auth_retry_chain [OF assms] by (simp add: sess_authed_def get_cctx_def)

theorem IOT_CoAP_DeviceNameAuth_retries_witness:
  "\<exists>w'. IOT_CoAP_DeviceNameAuth 12 (example_auth_world (retry_inbox example_session 2)) = Some (IOTX_SUCCESS, w')
     \<and> clock_ms w' = clock_ms (example_auth_world (retry_inbox example_session 2)) + 1000 * 2
     \<and> sess_authed w' = is_authed (example_session\<lparr>p_coap_ctx := Some (example_ctx\<lparr>ctx_inbox := retry_inbox example_session 2\<rparr>)\<rparr>)
     \<and> (\<exists>c'. get_cctx w' = Some c' \<and> ctx_sent c' = ctx_sent (example_ctx\<lparr>ctx_inbox := retry_inbox example_session 2\<rparr>)
          @ auth_requests (example_session\<lparr>p_coap_ctx := Some (example_ctx\<lparr>ctx_inbox := retry_inbox example_session 2\<rparr>)\<rparr>)
              (example_ctx\<lparr>ctx_inbox := retry_inbox example_session 2\<rparr>) example_devinfo
              (auth_sign (example_auth_world (retry_inbox example_session 2)) example_devinfo) (Suc 2))"
proof -
  define c0 where "c0 = example_ctx\<lparr>ctx_inbox := retry_inbox example_session 2\<rparr>"
  define s0 where "s0 = example_session\<lparr>p_coap_ctx := Some c0\<rparr>"
  show ?thesis
    unfolding c0_def [symmetric] s0_def [symmetric]
    by (rule IOT_CoAP_DeviceNameAuth_retries [where b = "[]"])
      (simp_all add: example_auth_world_def example_world_def example_session_def example_ctx_def s0_def c0_def
        devinfo_fits_def example_devinfo_def auth_sign_def coap_limits retry_inbox_def)
qed

text \<open>C19: a server that answers the handshake with \<open>2.05\<close> but no \<open>token\<close> member
  (the authentication is refused) still gets \<open>IOTX_SUCCESS\<close> reported to the
  caller: the receive waits for two responses, sees only one, and the code takes
  the time-out for success.  The session is not authenticated.\<close>

theorem IOT_CoAP_DeviceNameAuth_refused_success:
  assumes s: "w_ctx w = Some s" "p_auth_token s = Some b" "p_coap_ctx s = Some c" "auth_token_len s \<noteq> 0"
    "p_devinfo s = Some di"
    and fits: "devinfo_fits di" "length (auth_sign w di) < IOTX_SIGN_LENGTH"
    and mem: "B_auth_payload \<notin> alloc_fail w" "B_sign_src \<notin> alloc_fail w"
    and net: "ctx_net_ok c" and pid: "partner_id w = []" and na: "\<not> is_authed s"
    and rsp: "ctx_inbox c = [\<lparr>rsp_code = COAP_MSG_CODE_205_CONTENT, rsp_token = fst (iotx_get_coap_token s),
      rsp_payload = p\<rparr>]"
    and p: "json_scan (json_key_pattern ''token'') p = None"
    and f: "4 \<le> f"
  shows "\<exists>w'. IOT_CoAP_DeviceNameAuth f w = Some (IOTX_SUCCESS, w') \<and> \<not> sess_authed w'"
  using auth_one_response [OF s fits mem net pid rsp _ _ f] auth_callback_content_absent p s(2) na
  by (simp add: sess_authed_def)

theorem IOT_CoAP_DeviceNameAuth_refused_success_witness:
  "\<exists>w'. IOT_CoAP_DeviceNameAuth 4 (example_auth_world [\<lparr>rsp_code = COAP_MSG_CODE_205_CONTENT,
        rsp_token = fst (iotx_get_coap_token example_session), rsp_payload = ''{}''\<rparr>])
     = Some (IOTX_SUCCESS, w') \<and> \<not> sess_authed w'"
proof -
  define c0 where "c0 = example_ctx\<lparr>ctx_inbox := [\<lparr>rsp_code = COAP_MSG_CODE_205_CONTENT,
        rsp_token = fst (iotx_get_coap_token example_session), rsp_payload = ''{}''\<rparr>]\<rparr>"
  define s0 where "s0 = example_session\<lparr>p_coap_ctx := Some c0\<rparr>"
  show ?thesis
    by (rule IOT_CoAP_DeviceNameAuth_refused_success [where s = s0 and b = "[]" and c = c0 and di = example_devinfo,
        OF _ _ _ _ _ _ _ _ _ _ _ _ _ braces_no_token])
      (simp_all add: example_auth_world_def example_world_def example_session_def example_ctx_def s0_def c0_def
        devinfo_fits_def example_devinfo_def auth_sign_def coap_limits iotx_get_coap_token_fst)
qed

text \<open>C23: an answer \<open>{"token":""}\<close> authenticates the session with an empty token:
  the code only checks that the member exists and fits, so the specification's
  invariant "authenticated implies a non-empty token" does not hold.\<close>

theorem IOT_CoAP_DeviceNameAuth_empty_token:
  assumes s: "w_ctx w = Some s" "p_auth_token s = Some b" "p_coap_ctx s = Some c" "auth_token_len s \<noteq> 0"
    "p_devinfo s = Some di"
    and fits: "devinfo_fits di" "length (auth_sign w di) < IOTX_SIGN_LENGTH"
    and mem: "B_auth_payload \<notin> alloc_fail w" "B_sign_src \<notin> alloc_fail w" "B_json_value \<notin> alloc_fail w"
    and net: "ctx_net_ok c" and pid: "partner_id w = []"
    and rsp: "ctx_inbox c = [\<lparr>rsp_code = COAP_MSG_CODE_205_CONTENT, rsp_token = fst (iotx_get_coap_token s),
      rsp_payload = token_json []\<rparr>]"
    and f: "4 \<le> f"
  shows "\<exists>w'. IOT_CoAP_DeviceNameAuth f w = Some (IOTX_SUCCESS, w') \<and> sess_authed w'
     \<and> map_option p_auth_token (w_ctx w') = Some (Some [])"
  using auth_one_response [OF s fits mem(1,2) net pid rsp _ _ f] auth_callback_content_ok [of "[]"] s(2,4) mem(3)
  by (simp add: sess_authed_def)

theorem IOT_CoAP_DeviceNameAuth_empty_token_witness:
  "\<exists>w'. IOT_CoAP_DeviceNameAuth 4 (example_auth_world [\<lparr>rsp_code = COAP_MSG_CODE_205_CONTENT,
        rsp_token = fst (iotx_get_coap_token example_session), rsp_payload = token_json []\<rparr>])
     = Some (IOTX_SUCCESS, w') \<and> sess_authed w' \<and> map_option p_auth_token (w_ctx w') = Some (Some [])"
proof -
  define c0 where "c0 = example_ctx\<lparr>ctx_inbox := [\<lparr>rsp_code = COAP_MSG_CODE_205_CONTENT,
        rsp_token = fst (iotx_get_coap_token example_session), rsp_payload = token_json []\<rparr>]\<rparr>"
  define s0 where "s0 = example_session\<lparr>p_coap_ctx := Some c0\<rparr>"
  show ?thesis
    by (rule IOT_CoAP_DeviceNameAuth_empty_token [where s = s0 and b = "[]" and c = c0 and di = example_devinfo])
      (simp_all add: example_auth_world_def example_world_def example_session_def example_ctx_def s0_def c0_def
        devinfo_fits_def example_devinfo_def auth_sign_def coap_limits iotx_get_coap_token_fst braces_no_token)
qed

lemma midreport_payload_short:
  "devinfo_fits di \<Longrightarrow> length mi + length pi \<le> 1000 \<Longrightarrow>
     length (iotx_midreport_payload (iotx_midreport_reqid (product_key di) (device_name di)) mi pi) < 65536"
  by (simp add: devinfo_fits_def coap_limits iotx_midreport_payload_def iotx_midreport_reqid_def)

lemma report_mid_ok:
  assumes s: "w_ctx w = Some s" "p_coap_ctx s = Some c" "is_authed s" "p_devinfo s = Some di"
    and fits: "devinfo_fits di" and net: "ctx_net_ok c"
    and ids: "partner_id w \<noteq> []" "module_id w \<noteq> []" and mem: "B_mid_payload \<notin> alloc_fail w"
    and len: "length (module_id w) + length (partner_id w) + length (auth_token_str s) \<le> 1000"
  shows "report_mid_send w = Inr (w\<lparr>w_ctx := Some (s\<lparr>coap_token := coap_token s + 1,
     p_coap_ctx := Some (c\<lparr>ctx_message_id := ctx_message_id c + 1,
       ctx_sent := ctx_sent c @ [spec_request s c
         (iotx_midreport_topic ''/topic'' (product_key di) (device_name di))
         \<lparr>p_payload = iotx_midreport_payload (iotx_midreport_reqid (product_key di) (device_name di))
            (module_id w) (partner_id w),
          payload_len = of_nat (length (iotx_midreport_payload (iotx_midreport_reqid (product_key di)
            (device_name di)) (module_id w) (partner_id w))),
          resp_callback = Some H_mid_rsphdl, user_data = None,
          iotx_msg_type = IOTX_MESSAGE_NON, content_type = IOTX_CONTENT_TYPE_JSON\<rparr>]\<rparr>)\<rparr>)\<rparr>)"
proof -
  let ?topic = "iotx_midreport_topic ''/topic'' (product_key di) (device_name di)"
  let ?msg = "iotx_midreport_payload (iotx_midreport_reqid (product_key di) (device_name di))
            (module_id w) (partner_id w)"
  let ?w1 = "w\<lparr>heap := heap w + {#B_mid_payload#}\<rparr>"
  have dl: "length (product_key di) \<le> 20" "length (device_name di) \<le> 32"
    using fits by (simp_all add: devinfo_fits_def coap_limits)
  have tl: "length ?topic \<le> IOTX_URI_MAX_LEN"
    using dl by (simp add: iotx_midreport_topic_def coap_limits)
  have tf: "path_fits ?topic"
    by (rule path_fits_short) (use dl in \<open>simp add: iotx_midreport_topic_def coap_limits\<close>)
  have ml: "length ?msg < 65536"
    using fits len by (simp add: midreport_payload_short)
  have pl: "unat (of_nat (length ?msg) :: u16) = length ?msg"
    using ml by (simp add: unat_of_nat)
  have size: "length ?topic + length (auth_token_str s) + unat (of_nat (length ?msg) :: u16) + 15
      \<le> COAP_MSG_MAX_PDU_LEN"
    using dl len pl by (simp add: iotx_midreport_topic_def iotx_midreport_payload_def
        iotx_midreport_reqid_def coap_limits)
  have send: "IOT_CoAP_SendMessage ?w1 (Some ?topic) (Some \<lparr>p_payload = ?msg,
          payload_len = of_nat (length ?msg), resp_callback = Some H_mid_rsphdl, user_data = None,
          iotx_msg_type = IOTX_MESSAGE_NON, content_type = IOTX_CONTENT_TYPE_JSON\<rparr>)
      = (IOTX_SUCCESS, ?w1\<lparr>w_ctx := Some (s\<lparr>coap_token := coap_token s + 1,
             p_coap_ctx := Some (c\<lparr>ctx_message_id := ctx_message_id c + 1,
               ctx_sent := ctx_sent c @ [spec_request s c ?topic \<lparr>p_payload = ?msg,
          payload_len = of_nat (length ?msg), resp_callback = Some H_mid_rsphdl, user_data = None,
          iotx_msg_type = IOTX_MESSAGE_NON, content_type = IOTX_CONTENT_TYPE_JSON\<rparr>]\<rparr>)\<rparr>)\<rparr>)"
    by (rule IOT_CoAP_SendMessage_fits) (use s net tl tf size in simp_all)
  show ?thesis
    using s ids mem send by (simp add: report_mid_send_def coap_malloc_def coap_free_def Let_def)
qed

lemma report_mid_run:
  "report_mid_send w = Inr w3 \<Longrightarrow> get_cctx w3 = Some c \<Longrightarrow> ctx_inbox c = [] \<Longrightarrow>
     iotx_coap_report_mid (Suc (Suc f)) w = Some (SUCCESS_RETURN, w3)"
  by simp

lemma report_mid_oom:
  "partner_id w \<noteq> [] \<Longrightarrow> module_id w \<noteq> [] \<Longrightarrow> w_ctx w = Some s \<Longrightarrow> p_devinfo s = Some di \<Longrightarrow>
     B_mid_payload \<in> alloc_fail w \<Longrightarrow> iotx_coap_report_mid (Suc f) w = Some (FAIL_RETURN, w)"
  by (simp add: report_mid_send_def coap_malloc_def Let_def)

text \<open>C20: when the module-id report that follows a successful authentication
  cannot be sent (here its payload buffer cannot be allocated), the handshake
  returns \<open>IOTX_ERR_SEND_MSG_FAILED\<close> although the session is authenticated with the
  token of the answer: the two outcomes share one result, as section 4.3 of the
  specification says they do.\<close>

theorem IOT_CoAP_DeviceNameAuth_report_fails:
  assumes s: "w_ctx w = Some s" "p_auth_token s = Some b" "p_coap_ctx s = Some c" "auth_token_len s \<noteq> 0"
    "p_devinfo s = Some di"
    and fits: "devinfo_fits di" "length (auth_sign w di) < IOTX_SIGN_LENGTH"
    and mem: "B_auth_payload \<notin> alloc_fail w" "B_sign_src \<notin> alloc_fail w" "B_json_value \<notin> alloc_fail w"
    and oom: "B_mid_payload \<in> alloc_fail w"
    and net: "ctx_net_ok c" and ids: "partner_id w \<noteq> []" "module_id w \<noteq> []"
    and rsp: "ctx_inbox c = [r]" "rsp_code r = COAP_MSG_CODE_205_CONTENT" "rsp_token r = fst (iotx_get_coap_token s)"
      "rsp_payload r = token_json t"
    and t: "CHR ''\"'' \<notin> set t" "length t < auth_token_len s"
    and f: "4 \<le> f"
  shows "IOT_CoAP_DeviceNameAuth f w = Some (IOTX_ERR_SEND_MSG_FAILED,
     w\<lparr>w_ctx := Some (s\<lparr>p_auth_token := Some t, is_authed := True, coap_token := coap_token s + 1,
       p_coap_ctx := Some (c\<lparr>ctx_message_id := ctx_message_id c + 1,
         ctx_sent := ctx_sent c @ [auth_request s c di (auth_sign w di)], ctx_inbox := []\<rparr>)\<rparr>)\<rparr>)"
proof -
  let ?c0 = "c\<lparr>ctx_message_id := ctx_message_id c + 1,
         ctx_sent := ctx_sent c @ [auth_request s c di (auth_sign w di)], ctx_inbox := []\<rparr>"
  let ?s0 = "s\<lparr>coap_token := coap_token s + 1, p_coap_ctx := Some ?c0\<rparr>"
  let ?W = "w\<lparr>w_ctx := Some (s\<lparr>p_auth_token := Some t, is_authed := True, coap_token := coap_token s + 1,
       p_coap_ctx := Some ?c0\<rparr>)\<rparr>"
  have cb: "auth_callback_content ?s0 r (w\<lparr>w_ctx := Some ?s0\<rparr>) = ?W"
    using auth_callback_content_ok [OF t(1), of ?s0 "w\<lparr>w_ctx := Some ?s0\<rparr>" b r] t(2) mem(3) s(2) rsp(4)
    by simp
  have mid: "iotx_coap_report_mid (Suc (Suc g)) (auth_callback_content ?s0 r (w\<lparr>w_ctx := Some ?s0\<rparr>))
      = Some (FAIL_RETURN, ?W)" for g
    unfolding cb by (rule report_mid_oom [where di = di]) (simp add: ids oom s(5))+
  show ?thesis
    using auth_one_response_mid [OF s fits mem(1,2) net rsp(1-3) f mid] by simp
qed

theorem IOT_CoAP_DeviceNameAuth_report_fails_witness:
  "map_option (\<lambda>(r, w'). (r, map_option p_auth_token (w_ctx w'), sess_authed w'))
     (IOT_CoAP_DeviceNameAuth 4 ((example_auth_world [\<lparr>rsp_code = COAP_MSG_CODE_205_CONTENT,
        rsp_token = fst (iotx_get_coap_token example_session), rsp_payload = token_json ''T123''\<rparr>])
        \<lparr>partner_id := ''P1'', module_id := ''M1'', alloc_fail := {B_mid_payload}\<rparr>))
   = Some (IOTX_ERR_SEND_MSG_FAILED, Some (Some ''T123''), True)"
proof -
  define r0 where "r0 = \<lparr>rsp_code = COAP_MSG_CODE_205_CONTENT,
    rsp_token = fst (iotx_get_coap_token example_session), rsp_payload = token_json ''T123''\<rparr>"
  define c0 where "c0 = example_ctx\<lparr>ctx_inbox := [r0]\<rparr>"
  define s0 where "s0 = example_session\<lparr>p_coap_ctx := Some c0\<rparr>"
  define w0 where "w0 = (example_auth_world [r0])\<lparr>partner_id := ''P1'', module_id := ''M1'',
    alloc_fail := {B_mid_payload}\<rparr>"
  have h: "IOT_CoAP_DeviceNameAuth 4 w0 = Some (IOTX_ERR_SEND_MSG_FAILED,
     w0\<lparr>w_ctx := Some (s0\<lparr>p_auth_token := Some ''T123'', is_authed := True,
       coap_token := coap_token s0 + 1, p_coap_ctx := Some (c0\<lparr>ctx_message_id := ctx_message_id c0 + 1,
         ctx_sent := ctx_sent c0 @ [auth_request s0 c0 example_devinfo (auth_sign w0 example_devinfo)],
         ctx_inbox := []\<rparr>)\<rparr>)\<rparr>)"
    by (rule IOT_CoAP_DeviceNameAuth_report_fails [where b = "[]" and r = r0])
      (simp_all add: w0_def r0_def example_auth_world_def example_world_def example_session_def example_ctx_def
        s0_def c0_def devinfo_fits_def example_devinfo_def auth_sign_def coap_limits iotx_get_coap_token_fst)
  show ?thesis using h by (simp add: sess_authed_def w0_def r0_def)
qed

text \<open>C21: with a partner and a module id on the host, a handshake answered by one
  \<open>2.05\<close> with a token authenticates the session and then reports the module id:
  the wire carries, in this order, the authentication request and the report,
  a confirmable request (although the report asks for a non-confirmable one)
  that carries the new token and the report payload, and the call returns
  \<open>IOTX_SUCCESS\<close>.\<close>

theorem IOT_CoAP_DeviceNameAuth_reports_mid:
  assumes s: "w_ctx w = Some s" "p_auth_token s = Some b" "p_coap_ctx s = Some c" "auth_token_len s \<noteq> 0"
    "p_devinfo s = Some di"
    and fits: "devinfo_fits di" "length (auth_sign w di) < IOTX_SIGN_LENGTH"
    and mem: "B_auth_payload \<notin> alloc_fail w" "B_sign_src \<notin> alloc_fail w" "B_json_value \<notin> alloc_fail w"
      "B_mid_payload \<notin> alloc_fail w"
    and net: "ctx_net_ok c" and ids: "partner_id w \<noteq> []" "module_id w \<noteq> []"
    and rsp: "ctx_inbox c = [r]" "rsp_code r = COAP_MSG_CODE_205_CONTENT" "rsp_token r = fst (iotx_get_coap_token s)"
      "rsp_payload r = token_json t"
    and t: "CHR ''\"'' \<notin> set t" "length t < auth_token_len s"
    and len: "length (module_id w) + length (partner_id w) + length t \<le> 1000"
    and f: "4 \<le> f"
  shows "\<exists>w' s' c' m. IOT_CoAP_DeviceNameAuth f w = Some (IOTX_SUCCESS, w')
     \<and> w_ctx w' = Some s' \<and> is_authed s' \<and> p_auth_token s' = Some t \<and> p_coap_ctx s' = Some c'
     \<and> ctx_sent c' = ctx_sent c @ [auth_request s c di (auth_sign w di), m]
     \<and> msg_type m = COAP_MESSAGE_TYPE_CON \<and> msg_handler m = Some H_mid_rsphdl
     \<and> (COAP_OPTION_AUTH_TOKEN, OptStr t) \<in> set (msg_options m)
     \<and> msg_payload m = iotx_midreport_payload (iotx_midreport_reqid (product_key di) (device_name di))
         (module_id w) (partner_id w)"
proof -
  let ?c0 = "c\<lparr>ctx_message_id := ctx_message_id c + 1,
         ctx_sent := ctx_sent c @ [auth_request s c di (auth_sign w di)], ctx_inbox := []\<rparr>"
  let ?s0 = "s\<lparr>coap_token := coap_token s + 1, p_coap_ctx := Some ?c0\<rparr>"
  let ?s1 = "s\<lparr>p_auth_token := Some t, is_authed := True, coap_token := coap_token s + 1,
       p_coap_ctx := Some ?c0\<rparr>"
  let ?W = "w\<lparr>w_ctx := Some ?s1\<rparr>"
  let ?topic = "iotx_midreport_topic ''/topic'' (product_key di) (device_name di)"
  let ?msg = "iotx_midreport_payload (iotx_midreport_reqid (product_key di) (device_name di))
            (module_id ?W) (partner_id ?W)"
  let ?im = "\<lparr>p_payload = ?msg, payload_len = of_nat (length ?msg), resp_callback = Some H_mid_rsphdl,
     user_data = None, iotx_msg_type = IOTX_MESSAGE_NON, content_type = IOTX_CONTENT_TYPE_JSON\<rparr>"
  let ?c2 = "?c0\<lparr>ctx_message_id := ctx_message_id ?c0 + 1, ctx_sent := ctx_sent ?c0 @ [spec_request ?s1 ?c0 ?topic ?im]\<rparr>"
  let ?W3 = "?W\<lparr>w_ctx := Some (?s1\<lparr>coap_token := coap_token ?s1 + 1, p_coap_ctx := Some ?c2\<rparr>)\<rparr>"
  have cb: "auth_callback_content ?s0 r (w\<lparr>w_ctx := Some ?s0\<rparr>) = ?W"
    using auth_callback_content_ok [OF t(1), of ?s0 "w\<lparr>w_ctx := Some ?s0\<rparr>" b r] t(2) mem(3) s(2) rsp(4)
    by simp
  have rep: "report_mid_send ?W = Inr ?W3"
    by (rule report_mid_ok) (use s fits net ids mem len in \<open>simp_all add: auth_token_str_def\<close>)
  have mid: "iotx_coap_report_mid (Suc (Suc g)) (auth_callback_content ?s0 r (w\<lparr>w_ctx := Some ?s0\<rparr>))
      = Some (SUCCESS_RETURN, ?W3)" for g
    unfolding cb by (rule report_mid_run [OF rep]) (simp add: get_cctx_def)+
  have dna: "IOT_CoAP_DeviceNameAuth f w = Some (IOTX_SUCCESS, ?W3)"
    using auth_one_response_mid [OF s fits mem(1,2) net rsp(1-3) f mid] by simp
  let ?s3 = "?s1\<lparr>coap_token := coap_token ?s1 + 1, p_coap_ctx := Some ?c2\<rparr>"
  have pl: "unat (of_nat (length ?msg) :: u16) = length ?msg"
    using midreport_payload_short [OF fits(1), of "module_id w" "partner_id w"] len
    by (simp add: unat_of_nat)
  show ?thesis
    by (rule exI [of _ ?W3], rule exI [of _ ?s3], rule exI [of _ ?c2],
        rule exI [of _ "spec_request ?s1 ?c0 ?topic ?im"])
      (use dna pl in \<open>simp add: spec_request_def uri_path_options_def auth_token_str_def\<close>)
qed

theorem IOT_CoAP_DeviceNameAuth_reports_mid_witness:
  "\<exists>w' s' c' m. IOT_CoAP_DeviceNameAuth 4 ((example_auth_world [\<lparr>rsp_code = COAP_MSG_CODE_205_CONTENT,
        rsp_token = fst (iotx_get_coap_token example_session), rsp_payload = token_json ''T123''\<rparr>])
        \<lparr>partner_id := ''P1'', module_id := ''M1''\<rparr>) = Some (IOTX_SUCCESS, w')
     \<and> w_ctx w' = Some s' \<and> is_authed s' \<and> p_auth_token s' = Some ''T123'' \<and> p_coap_ctx s' = Some c'
     \<and> ctx_sent c' = [auth_request example_session example_ctx example_devinfo
          ''0123456789abcdef0123456789abcdef'', m]
     \<and> msg_type m = COAP_MESSAGE_TYPE_CON \<and> msg_handler m = Some H_mid_rsphdl
     \<and> (COAP_OPTION_AUTH_TOKEN, OptStr ''T123'') \<in> set (msg_options m)
     \<and> msg_payload m = iotx_midreport_payload (iotx_midreport_reqid (product_key example_devinfo)
         (device_name example_devinfo)) ''M1'' ''P1''"
proof -
  define r0 where "r0 = \<lparr>rsp_code = COAP_MSG_CODE_205_CONTENT,
    rsp_token = fst (iotx_get_coap_token example_session), rsp_payload = token_json ''T123''\<rparr>"
  define c0 where "c0 = example_ctx\<lparr>ctx_inbox := [r0]\<rparr>"
  define s0 where "s0 = example_session\<lparr>p_coap_ctx := Some c0\<rparr>"
  define w0 where "w0 = (example_auth_world [r0])\<lparr>partner_id := ''P1'', module_id := ''M1''\<rparr>"
  have e: "auth_request s0 c0 example_devinfo (auth_sign w0 example_devinfo)
      = auth_request example_session example_ctx example_devinfo ''0123456789abcdef0123456789abcdef''"
    by (simp add: auth_request_def s0_def c0_def w0_def auth_sign_def example_auth_world_def
        example_world_def iotx_get_coap_token_def example_session_def example_ctx_def)
  have h: "\<exists>w' s' c' m. IOT_CoAP_DeviceNameAuth 4 w0 = Some (IOTX_SUCCESS, w')
     \<and> w_ctx w' = Some s' \<and> is_authed s' \<and> p_auth_token s' = Some ''T123'' \<and> p_coap_ctx s' = Some c'
     \<and> ctx_sent c' = ctx_sent c0 @ [auth_request s0 c0 example_devinfo (auth_sign w0 example_devinfo), m]
     \<and> msg_type m = COAP_MESSAGE_TYPE_CON \<and> msg_handler m = Some H_mid_rsphdl
     \<and> (COAP_OPTION_AUTH_TOKEN, OptStr ''T123'') \<in> set (msg_options m)
     \<and> msg_payload m = iotx_midreport_payload (iotx_midreport_reqid (product_key example_devinfo)
         (device_name example_devinfo)) (module_id w0) (partner_id w0)"
    by (rule IOT_CoAP_DeviceNameAuth_reports_mid [where b = "[]" and r = r0])
      (simp_all add: w0_def r0_def example_auth_world_def example_world_def example_session_def example_ctx_def
        s0_def c0_def devinfo_fits_def example_devinfo_def auth_sign_def coap_limits iotx_get_coap_token_fst)
  have c: "ctx_sent c0 = []" by (simp add: c0_def example_ctx_def)
  show ?thesis using h unfolding e c by (simp add: w0_def r0_def)
qed

text \<open>C30: when the scratch buffer of the signature cannot be allocated, the handshake
  ignores the error of \<open>iotx_calc_sign\<close> and sends its request with an empty
  \<open>sign\<close>.\<close>

theorem device_name_auth_send_sign_oom:
  assumes s: "w_ctx w = Some s" "p_auth_token s = Some b" "p_coap_ctx s = Some c" "auth_token_len s \<noteq> 0"
    "p_devinfo s = Some di"
    and fits: "devinfo_fits di"
    and mem: "B_auth_payload \<notin> alloc_fail w" "B_sign_src \<in> alloc_fail w"
    and net: "ctx_net_ok c"
  shows "device_name_auth_send w = Inr (w\<lparr>w_ctx := Some (s\<lparr>coap_token := coap_token s + 1,
     p_coap_ctx := Some (c\<lparr>ctx_message_id := ctx_message_id c + 1,
       ctx_sent := ctx_sent c @ [auth_request s c di []]\<rparr>)\<rparr>)\<rparr>)"
  by (rule device_name_auth_send_no_sign [OF assms])

theorem device_name_auth_send_sign_oom_witness:
  "device_name_auth_send ((example_auth_world [])\<lparr>alloc_fail := {B_sign_src}\<rparr>)
   = Inr (((example_auth_world [])\<lparr>alloc_fail := {B_sign_src}\<rparr>)\<lparr>w_ctx := Some (example_session\<lparr>
       coap_token := coap_token example_session + 1,
       p_coap_ctx := Some (example_ctx\<lparr>ctx_message_id := ctx_message_id example_ctx + 1,
         ctx_sent := ctx_sent example_ctx @ [auth_request example_session example_ctx example_devinfo []]\<rparr>)\<rparr>)\<rparr>)"
proof -
  have e: "example_session\<lparr>p_coap_ctx := Some (example_ctx\<lparr>ctx_inbox := []\<rparr>)\<rparr> = example_session"
    "example_ctx\<lparr>ctx_inbox := []\<rparr> = example_ctx"
    by (simp_all add: example_session_def example_ctx_def)
  have "device_name_auth_send ((example_auth_world [])\<lparr>alloc_fail := {B_sign_src}\<rparr>)
   = Inr (((example_auth_world [])\<lparr>alloc_fail := {B_sign_src}\<rparr>)\<lparr>w_ctx := Some (example_session\<lparr>
       coap_token := coap_token example_session + 1,
       p_coap_ctx := Some (example_ctx\<lparr>ctx_message_id := ctx_message_id example_ctx + 1,
         ctx_sent := ctx_sent example_ctx @ [auth_request example_session example_ctx example_devinfo []]\<rparr>)\<rparr>)\<rparr>)"
    by (rule device_name_auth_send_sign_oom)
      (simp_all add: example_auth_world_def e example_session_def example_ctx_def devinfo_fits_def
        example_devinfo_def coap_limits)
  then show ?thesis .
qed

text \<open>A \<open>4.01\<close> answer to a request the session made for itself (its user pointer
  is the session, as for \<open>/.well-known/core\<close>) clears the authenticated flag and
  starts exactly one new handshake.\<close>

lemma handle_unauthorized_session:
  assumes s: "w_ctx w = Some s" "p_auth_token s = Some b" "p_coap_ctx s = Some c" "auth_token_len s \<noteq> 0"
    "p_devinfo s = Some di"
    and fits: "devinfo_fits di" "length (auth_sign w di) < IOTX_SIGN_LENGTH"
    and mem: "B_auth_payload \<notin> alloc_fail w" "B_sign_src \<notin> alloc_fail w"
    and net: "ctx_net_ok c" and pid: "partner_id w = []" and empty: "ctx_inbox c = []"
    and req: "find_request c (rsp_token r) = Some req" "msg_user req = Some U_session"
      "msg_handler req \<noteq> Some H_device_name_auth"
    and code: "rsp_code r = COAP_MSG_CODE_401_UNAUTHORIZED"
    and f: "6 \<le> f"
  shows "CoAPMessage_handle f r w = Some (w\<lparr>w_ctx := Some (s\<lparr>is_authed := False, coap_token := coap_token s + 1,
     p_coap_ctx := Some (c\<lparr>ctx_message_id := ctx_message_id c + 1,
       ctx_sent := ctx_sent c @ [auth_request s c di (auth_sign w di)], ctx_inbox := []\<rparr>)\<rparr>)\<rparr>)"
proof -
  have "\<exists>g. f = Suc (Suc g) \<and> 4 \<le> g" using f by presburger
  then obtain g where g: "f = Suc (Suc g)" and g4: "4 \<le> g" by blast
  let ?w1 = "w\<lparr>w_ctx := Some (s\<lparr>is_authed := False\<rparr>)\<rparr>"
  have chain: "IOT_CoAP_DeviceNameAuth g ?w1 = Some (IOTX_SUCCESS,
     w\<lparr>w_ctx := Some (s\<lparr>is_authed := False, coap_token := coap_token s + 1,
       p_coap_ctx := Some (c\<lparr>ctx_message_id := ctx_message_id c + 1,
         ctx_sent := ctx_sent c @ [auth_request s c di (auth_sign w di)], ctx_inbox := []\<rparr>)\<rparr>)\<rparr>)"
    using auth_retry_chain [where w = ?w1 and s = "s\<lparr>is_authed := False\<rparr>" and b = b and c = c and di = di
        and k = 0 and f = g] assms g4 empty
    by (simp add: auth_sign_def retry_inbox_def auth_requests_def)
  have n: "iotx_event_notifyer (Suc g) (rsp_code r) (Some req) w = Some (w\<lparr>w_ctx := Some (s\<lparr>is_authed := False,
     coap_token := coap_token s + 1, p_coap_ctx := Some (c\<lparr>ctx_message_id := ctx_message_id c + 1,
       ctx_sent := ctx_sent c @ [auth_request s c di (auth_sign w di)], ctx_inbox := []\<rparr>)\<rparr>)\<rparr>)"
    by (rule notifier_unauthorized [OF s(1) req(2) _ chain]) (simp add: code)
  have cc: "get_cctx w = Some c" using s by (simp add: get_cctx_def)
  show ?thesis unfolding g by (rule handle_other_handler [OF cc req(1) n req(3)])
qed

end
