(* ===== verification/Coap_Lifecycle.thy ===== *)
theory Coap_Lifecycle
  imports Coap_Handshake
begin

text \<open>
  The lifecycle manager: \<open>IOT_CoAP_Init\<close> (lines 546--641), \<open>IOT_CoAP_Deinit\<close>
  (lines 643--670) and \<open>IOT_CoAP_Yield\<close> (lines 672--682).  The caller's handle is
  the world's \<open>w_ctx\<close>: \<open>IOT_CoAP_Init\<close> sets it to the session it returns (\<open>None\<close>
  for NULL), \<open>IOT_CoAP_Deinit\<close> frees what the session owns and sets it to NULL.
  The engine's \<open>CoAPContext_create\<close>, \<open>CoAPContext_free\<close> and \<open>CoAPMessage_cycle\<close>
  are not under \<open>src/\<close> and are modelled from the specification: creating a context
  allocates one block and connects it to the network of the world; one cycle
  reads and handles at most one response.
  Lemmas: a successful initialisation allocates exactly four blocks and leaves a
  well-formed, unauthenticated session; a failed one leaves the heap as it was;
  de-initialisation returns every block initialisation took; a cycle of
  \<open>IOT_CoAP_Yield\<close> re-authenticates on a \<open>4.01\<close> to the session's own request
  and consumes one to a request without user data without effect.
\<close>

text \<open>\<open>iotx_coap_config_t\<close>: the caller's configuration.\<close>

record iotx_coap_config =
  cfg_devinfo :: "iotx_deviceinfo option"
  cfg_url :: "string option"
  cfg_wait_time_ms :: nat
  cfg_event_handle :: "nat option"

text \<open>Line 43: the default server, templated on the product key.\<close>

definition IOTX_COAP_ONLINE_DTLS_SERVER_URL :: "string \<Rightarrow> string" where
  "IOTX_COAP_ONLINE_DTLS_SERVER_URL pk = ''coaps://'' @ pk @ ''.iot-as-coap.cn-shanghai.aliyuncs.com:5684''"

definition CoAPContext_create :: "string \<Rightarrow> nat \<Rightarrow> nat \<Rightarrow> world \<Rightarrow> coap_context option \<times> world" where
  "CoAPContext_create url maxcount waittime w =
     (let (ok, w1) = coap_malloc B_coap_ctx w
      in if ok then (Some \<lparr>ctx_url = url, ctx_maxcount = maxcount, ctx_waittime = waittime,
                         ctx_message_id = 1, ctx_sent = [], ctx_inbox = net_inbox w, ctx_net_ok = net_up w\<rparr>, w1)
         else (None, w1))"

definition CoAPContext_free :: "world \<Rightarrow> world" where
  "CoAPContext_free w = coap_free B_coap_ctx w"

text \<open>The \<open>err\<close> label of \<open>IOT_CoAP_Init\<close> (lines 623--640): every block the partial
  session owns is freed, then the session itself.  The stores into the session
  just before it is freed are not observable.\<close>

definition iotx_coap_init_unwind :: "iotx_coap \<Rightarrow> world \<Rightarrow> world" where
  "iotx_coap_init_unwind s w =
     (let w1 = (if p_devinfo s \<noteq> None then coap_free B_devinfo w else w);
          w2 = (if p_auth_token s \<noteq> None then coap_free B_auth_token w1 else w1);
          w3 = (if p_coap_ctx s \<noteq> None then CoAPContext_free w2 else w2)
      in coap_free B_iotx_coap w3)"

text \<open>The bounded copy of the identity (lines 588--594): \<open>strncpy\<close> of at most the
  field's capacity into a zeroed field one byte longer.\<close>

definition devinfo_copy :: "iotx_deviceinfo \<Rightarrow> iotx_deviceinfo" where
  "devinfo_copy di =
     \<lparr>product_key = strncpy_zeroed IOTX_PRODUCT_KEY_LEN (product_key di),
      device_name = strncpy_zeroed IOTX_DEVICE_NAME_LEN (device_name di),
      device_id = strncpy_zeroed IOTX_DEVICE_ID_LEN (device_id di),
      device_secret = strncpy_zeroed IOTX_DEVICE_SECRET_LEN (device_secret di)\<rparr>"

definition IOT_CoAP_Init :: "iotx_coap_config option \<Rightarrow> world \<Rightarrow> world" where
  "IOT_CoAP_Init p_config w =
     (case p_config of
        None \<Rightarrow> w\<lparr>w_ctx := None\<rparr>
      | Some cfg \<Rightarrow>
          (case cfg_devinfo cfg of
             None \<Rightarrow> w\<lparr>w_ctx := None\<rparr>
           | Some di \<Rightarrow>
               (let (ok, w1) = coap_malloc B_iotx_coap w;
                    s0 = \<lparr>p_auth_token = None, auth_token_len = 0, is_authed = False, p_devinfo = None,
                          p_coap_ctx = None, coap_token = 0, event_handle = None\<rparr>
                in if \<not> ok then w1\<lparr>w_ctx := None\<rparr>
                else
                  (let (ok, w2) = coap_malloc B_auth_token w1
                   in if \<not> ok then (iotx_coap_init_unwind s0 w2)\<lparr>w_ctx := None\<rparr>
                   else
                     (let s1 = s0\<lparr>p_auth_token := Some [], is_authed := False,
                                  auth_token_len := IOTX_AUTH_TOKEN_LEN\<rparr>;
                          (ok, w3) = coap_malloc B_devinfo w2
                      in if \<not> ok then (iotx_coap_init_unwind s1 w3)\<lparr>w_ctx := None\<rparr>
                      else
                        (let s2 = s1\<lparr>p_devinfo := Some (devinfo_copy di), coap_token := IOTX_COAP_INIT_TOKEN\<rparr>;
                             url = (case cfg_url cfg of
                                      Some u \<Rightarrow> u
                                    | None \<Rightarrow> snprintf_buf 128
                                        (IOTX_COAP_ONLINE_DTLS_SERVER_URL (product_key (devinfo_copy di))));
                             (ctx, w4) = CoAPContext_create url IOTX_LIST_MAX_ITEM (cfg_wait_time_ms cfg) w3
                         in case ctx of
                              None \<Rightarrow> (iotx_coap_init_unwind s2 w4)\<lparr>w_ctx := None\<rparr>
                            | Some c \<Rightarrow>
                                w4\<lparr>w_ctx := Some (s2\<lparr>p_coap_ctx := Some c,
                                                     event_handle := cfg_event_handle cfg\<rparr>)\<rparr>))))))"

text \<open>\<open>IOT_CoAP_Deinit\<close> with a non-NULL \<open>pp_context\<close>: the handle's session frees its
  token buffer, identity and engine context, then itself, and the handle becomes
  NULL; with a NULL session nothing happens.  The stores into the session before
  it is freed are not observable.\<close>

definition IOT_CoAP_Deinit :: "world \<Rightarrow> world" where
  "IOT_CoAP_Deinit w =
     (case w_ctx w of
        None \<Rightarrow> w
      | Some s \<Rightarrow>
          (let w1 = (if p_auth_token s \<noteq> None then coap_free B_auth_token w else w);
               w2 = (if p_devinfo s \<noteq> None then coap_free B_devinfo w1 else w1);
               w3 = (if p_coap_ctx s \<noteq> None then CoAPContext_free w2 else w2)
           in (coap_free B_iotx_coap w3)\<lparr>w_ctx := None\<rparr>))"

text \<open>One iteration of the engine's event loop reads and handles at most one
  response (spec-modelled).\<close>

definition CoAPMessage_cycle :: "nat \<Rightarrow> world \<Rightarrow> (bool \<times> world) option" where
  "CoAPMessage_cycle f w = CoAPMessage_recv f 1 w"

definition IOT_CoAP_Yield :: "nat \<Rightarrow> world \<Rightarrow> (iotx_ret \<times> world) option" where
  "IOT_CoAP_Yield f w =
     (case w_ctx w of
        None \<Rightarrow> Some (IOTX_ERR_INVALID_PARAM, w)
      | Some s \<Rightarrow>
          (case p_coap_ctx s of
             None \<Rightarrow> Some (IOTX_ERR_INVALID_PARAM, w)
           | Some c \<Rightarrow> map_option (\<lambda>(_, w'). (IOTX_SUCCESS, w')) (CoAPMessage_cycle f w)))"

text \<open>The session a successful \<open>IOT_CoAP_Init\<close> returns.\<close>

definition init_session :: "iotx_coap_config \<Rightarrow> iotx_deviceinfo \<Rightarrow> coap_context \<Rightarrow> iotx_coap" where
  "init_session cfg di c =
     \<lparr>p_auth_token = Some [], auth_token_len = IOTX_AUTH_TOKEN_LEN, is_authed = False,
      p_devinfo = Some (devinfo_copy di), p_coap_ctx = Some c, coap_token = IOTX_COAP_INIT_TOKEN,
      event_handle = cfg_event_handle cfg\<rparr>"

subsection \<open>Allocation\<close>

lemma coap_free_add [simp]: "coap_free b (w\<lparr>heap := heap w + {#b#}\<rparr>) = w"
  by (simp add: coap_free_def)

lemma auth_request_ctx_inbox [simp]:
  "auth_request (s\<lparr>p_coap_ctx := x\<rparr>) (c\<lparr>ctx_inbox := i\<rparr>) di sign = auth_request s c di sign"
  by (simp add: auth_request_def iotx_get_coap_token_fst)

lemma devinfo_copy_fits [simp]: "devinfo_fits (devinfo_copy di)"
  by (simp add: devinfo_fits_def devinfo_copy_def)

subsection \<open>Properties of the lifecycle\<close>

text \<open>C7: \<open>IOT_CoAP_Init\<close> never leaks: when it returns NULL the heap is as it
  was, whichever allocation failed; when it returns a session exactly four blocks
  are live: the session, its token buffer, its identity and the engine context.\<close>

theorem IOT_CoAP_Init_no_leak:
  "heap (IOT_CoAP_Init cfg w) =
     (case w_ctx (IOT_CoAP_Init cfg w) of
        None \<Rightarrow> heap w
      | Some _ \<Rightarrow> heap w + {#B_iotx_coap, B_auth_token, B_devinfo, B_coap_ctx#})"
  by (auto simp: IOT_CoAP_Init_def coap_malloc_def CoAPContext_create_def iotx_coap_init_unwind_def
      coap_free_def CoAPContext_free_def Let_def split: option.splits if_splits)

text \<open>C8: \<open>IOT_CoAP_Deinit\<close> undoes \<open>IOT_CoAP_Init\<close>: whatever the configuration and
  whichever allocations fail, the heap afterwards is the heap before, and the
  caller's handle is NULL.\<close>

theorem IOT_CoAP_Deinit_Init:
  "heap (IOT_CoAP_Deinit (IOT_CoAP_Init cfg w)) = heap w \<and> w_ctx (IOT_CoAP_Deinit (IOT_CoAP_Init cfg w)) = None"
  by (auto simp: IOT_CoAP_Init_def IOT_CoAP_Deinit_def coap_malloc_def CoAPContext_create_def
      iotx_coap_init_unwind_def coap_free_def CoAPContext_free_def Let_def split: option.splits if_splits)

text \<open>C13: with an identity and no failing allocation, \<open>IOT_CoAP_Init\<close> returns an
  unauthenticated session with an empty token buffer of \<open>IOTX_AUTH_TOKEN_LEN\<close>
  bytes, the identity cut to its capacities, the initial correlation token, and
  an engine context on the configured URL, or else on the default URL of the
  product key, which always fits its 128-byte buffer.\<close>

theorem IOT_CoAP_Init_success:
  assumes di: "cfg_devinfo cfg = Some di"
    and mem: "B_iotx_coap \<notin> alloc_fail w" "B_auth_token \<notin> alloc_fail w" "B_devinfo \<notin> alloc_fail w"
      "B_coap_ctx \<notin> alloc_fail w"
  shows "IOT_CoAP_Init (Some cfg) w =
     w\<lparr>heap := heap w + {#B_iotx_coap, B_auth_token, B_devinfo, B_coap_ctx#},
       w_ctx := Some (init_session cfg di
         \<lparr>ctx_url = (case cfg_url cfg of Some u \<Rightarrow> u
                     | None \<Rightarrow> IOTX_COAP_ONLINE_DTLS_SERVER_URL (take IOTX_PRODUCT_KEY_LEN (product_key di))),
          ctx_maxcount = IOTX_LIST_MAX_ITEM, ctx_waittime = cfg_wait_time_ms cfg, ctx_message_id = 1,
          ctx_sent = [], ctx_inbox = net_inbox w, ctx_net_ok = net_up w\<rparr>)\<rparr>"
proof -
  have url: "snprintf_buf 128 (IOTX_COAP_ONLINE_DTLS_SERVER_URL (product_key (devinfo_copy di)))
      = IOTX_COAP_ONLINE_DTLS_SERVER_URL (take IOTX_PRODUCT_KEY_LEN (product_key di))"
    by (simp add: IOTX_COAP_ONLINE_DTLS_SERVER_URL_def devinfo_copy_def strncpy_zeroed_def IOTX_PRODUCT_KEY_LEN_def)
  show ?thesis
    using di mem url
    by (simp add: IOT_CoAP_Init_def coap_malloc_def CoAPContext_create_def init_session_def Let_def
        add_mset_commute split: option.split)
qed

theorem IOT_CoAP_Init_success_witness:
  "IOT_CoAP_Init (Some \<lparr>cfg_devinfo = Some example_devinfo, cfg_url = None, cfg_wait_time_ms = 2000,
      cfg_event_handle = None\<rparr>) example_world
   = example_world\<lparr>heap := {#B_iotx_coap, B_auth_token, B_devinfo, B_coap_ctx#},
       w_ctx := Some example_session\<rparr>"
proof -
  define cfg0 where "cfg0 = \<lparr>cfg_devinfo = Some example_devinfo, cfg_url = None, cfg_wait_time_ms = 2000,
      cfg_event_handle = None\<rparr>"
  have d: "cfg_devinfo cfg0 = Some example_devinfo" by (simp add: cfg0_def)
  have mem: "B_iotx_coap \<notin> alloc_fail example_world" "B_auth_token \<notin> alloc_fail example_world"
    "B_devinfo \<notin> alloc_fail example_world" "B_coap_ctx \<notin> alloc_fail example_world"
    by (simp_all add: example_world_def)
  have e: "init_session cfg0 example_devinfo
         \<lparr>ctx_url = (case cfg_url cfg0 of Some u \<Rightarrow> u
                     | None \<Rightarrow> IOTX_COAP_ONLINE_DTLS_SERVER_URL (take IOTX_PRODUCT_KEY_LEN (product_key example_devinfo))),
          ctx_maxcount = IOTX_LIST_MAX_ITEM, ctx_waittime = cfg_wait_time_ms cfg0, ctx_message_id = 1,
          ctx_sent = [], ctx_inbox = net_inbox example_world, ctx_net_ok = net_up example_world\<rparr> = example_session"
    by (simp add: cfg0_def init_session_def example_session_def example_ctx_def example_devinfo_def devinfo_copy_def
        IOTX_COAP_ONLINE_DTLS_SERVER_URL_def example_world_def coap_limits strncpy_zeroed_def)
  show ?thesis
    using IOT_CoAP_Init_success [OF d mem] unfolding e cfg0_def [symmetric] by (simp add: example_world_def)
qed

text \<open>C18: any answer to a request sent without user data (the module-id report
  sends its request so, and so does an application that passes none), a \<open>4.01\<close>
  or \<open>4.02\<close> included, is consumed by \<open>IOT_CoAP_Yield\<close> and does nothing else: the session stays
  authenticated with its token and no new handshake starts, although section 4.3
  of the specification says any unauthorized event clears the flag and
  re-authenticates.\<close>

theorem IOT_CoAP_Yield_unauthorized_no_user:
  assumes s: "w_ctx w = Some s" "p_coap_ctx s = Some c" and inbox: "ctx_inbox c = r # rs"
    and req: "find_request c (rsp_token r) = Some req" "msg_user req = None"
      "msg_handler req \<noteq> Some H_device_name_auth"
    and f: "3 \<le> f"
  shows "IOT_CoAP_Yield f w = Some (IOTX_SUCCESS, w\<lparr>w_ctx := Some (s\<lparr>p_coap_ctx := Some (c\<lparr>ctx_inbox := rs\<rparr>)\<rparr>)\<rparr>)"
proof -
  have "\<exists>g0. f = Suc (Suc (Suc g0))" using f by presburger
  then obtain g0 where g0: "f = Suc (Suc (Suc g0))" by blast
  define g where "g = Suc g0"
  have g: "f = Suc (Suc g)" using g0 by (simp add: g_def)
  let ?w0 = "w\<lparr>w_ctx := Some (s\<lparr>p_coap_ctx := Some (c\<lparr>ctx_inbox := rs\<rparr>)\<rparr>)\<rparr>"
  have pop: "map_cctx (\<lambda>c. c\<lparr>ctx_inbox := rs\<rparr>) w = ?w0"
    using s by (simp add: map_cctx_def map_sess_def)
  have w0c: "get_cctx ?w0 = Some (c\<lparr>ctx_inbox := rs\<rparr>)" by (simp add: get_cctx_def)
  have find: "find_request (c\<lparr>ctx_inbox := rs\<rparr>) (rsp_token r) = Some req"
    using req(1) by (simp add: find_request_def)
  have n: "iotx_event_notifyer g (rsp_code r) (Some req) ?w0 = Some ?w0"
    using req(2) by (simp add: g_def)
  have h: "CoAPMessage_handle (Suc g) r (map_cctx (\<lambda>c. c\<lparr>ctx_inbox := rs\<rparr>) w) = Some ?w0"
    unfolding pop by (rule handle_other_handler [OF w0c find n req(3)])
  have cc: "get_cctx w = Some c" using s by (simp add: get_cctx_def)
  have recv: "CoAPMessage_recv (Suc (Suc g)) 1 w = Some (True, ?w0)"
    by (rule trans [OF recv_step [OF cc inbox h]]) simp
  show ?thesis
    using s recv by (simp add: g IOT_CoAP_Yield_def CoAPMessage_cycle_def del: CoAPMessage_recv.simps)
qed

theorem IOT_CoAP_Yield_unauthorized_no_user_witness:
  "IOT_CoAP_Yield 3 (example_world\<lparr>w_ctx := Some (example_session\<lparr>is_authed := True,
        p_auth_token := Some ''T123'',
        p_coap_ctx := Some (example_ctx\<lparr>ctx_sent := [CoAPMessage_init\<lparr>msg_token := [9, 9, 9, 9],
          msg_handler := Some H_mid_rsphdl\<rparr>],
          ctx_inbox := [\<lparr>rsp_code = COAP_MSG_CODE_401_UNAUTHORIZED, rsp_token = [9, 9, 9, 9],
            rsp_payload = []\<rparr>]\<rparr>)\<rparr>)\<rparr>)
   = Some (IOTX_SUCCESS, example_world\<lparr>w_ctx := Some (example_session\<lparr>is_authed := True,
        p_auth_token := Some ''T123'',
        p_coap_ctx := Some (example_ctx\<lparr>ctx_sent := [CoAPMessage_init\<lparr>msg_token := [9, 9, 9, 9],
          msg_handler := Some H_mid_rsphdl\<rparr>], ctx_inbox := []\<rparr>)\<rparr>)\<rparr>)"
proof -
  define m0 where "m0 = CoAPMessage_init\<lparr>msg_token := [9, 9, 9, 9], msg_handler := Some H_mid_rsphdl\<rparr>"
  define r0 where "r0 = \<lparr>rsp_code = COAP_MSG_CODE_401_UNAUTHORIZED, rsp_token = [9, 9, 9, 9], rsp_payload = []\<rparr>"
  define c0 where "c0 = example_ctx\<lparr>ctx_sent := [m0], ctx_inbox := [r0]\<rparr>"
  define s0 where "s0 = example_session\<lparr>is_authed := True, p_auth_token := Some ''T123'', p_coap_ctx := Some c0\<rparr>"
  have "IOT_CoAP_Yield 3 (example_world\<lparr>w_ctx := Some s0\<rparr>)
      = Some (IOTX_SUCCESS, (example_world\<lparr>w_ctx := Some s0\<rparr>)\<lparr>w_ctx := Some (s0\<lparr>p_coap_ctx :=
          Some (c0\<lparr>ctx_inbox := []\<rparr>)\<rparr>)\<rparr>)"
    by (rule IOT_CoAP_Yield_unauthorized_no_user [where req = m0 and r = r0])
      (simp_all add: s0_def c0_def r0_def m0_def find_request_def CoAPMessage_init_def)
  then show ?thesis by (simp add: s0_def c0_def r0_def m0_def)
qed

text \<open>C36: \<open>IOT_CoAP_Yield\<close> without a session or without an engine context fails with
  \<open>IOTX_ERR_INVALID_PARAM\<close> and changes nothing.\<close>

theorem IOT_CoAP_Yield_invalid:
  assumes "case w_ctx w of None \<Rightarrow> True | Some s \<Rightarrow> p_coap_ctx s = None"
  shows "IOT_CoAP_Yield f w = Some (IOTX_ERR_INVALID_PARAM, w)"
  using assms by (cases "w_ctx w") (auto simp: IOT_CoAP_Yield_def)

theorem IOT_CoAP_Yield_invalid_witness:
  "IOT_CoAP_Yield 0 example_world = Some (IOTX_ERR_INVALID_PARAM, example_world)"
  by (rule IOT_CoAP_Yield_invalid) (simp add: example_world_def)

text \<open>C5: a \<open>4.01\<close> delivered by \<open>IOT_CoAP_Yield\<close> for a request the session made for
  itself (e.g. \<open>/.well-known/core\<close>) clears the authenticated flag and triggers
  exactly one new handshake dispatch: one request to \<open>auth\<close> goes out.\<close>

theorem IOT_CoAP_Yield_unauthorized:
  assumes s: "w_ctx w = Some s" "p_auth_token s = Some b" "p_coap_ctx s = Some c" "auth_token_len s \<noteq> 0"
    "p_devinfo s = Some di"
    and fits: "devinfo_fits di" "length (auth_sign w di) < IOTX_SIGN_LENGTH"
    and mem: "B_auth_payload \<notin> alloc_fail w" "B_sign_src \<notin> alloc_fail w"
    and net: "ctx_net_ok c" and pid: "partner_id w = []" and inbox: "ctx_inbox c = [r]"
    and req: "find_request c (rsp_token r) = Some req" "msg_user req = Some U_session"
      "msg_handler req \<noteq> Some H_device_name_auth"
    and code: "rsp_code r = COAP_MSG_CODE_401_UNAUTHORIZED"
    and f: "7 \<le> f"
  shows "IOT_CoAP_Yield f w = Some (IOTX_SUCCESS, w\<lparr>w_ctx := Some (s\<lparr>is_authed := False,
     coap_token := coap_token s + 1, p_coap_ctx := Some (c\<lparr>ctx_message_id := ctx_message_id c + 1,
       ctx_sent := ctx_sent c @ [auth_request s c di (auth_sign w di)], ctx_inbox := []\<rparr>)\<rparr>)\<rparr>)"
proof -
  obtain g where g: "f = Suc g" and g6: "6 \<le> g" using f by (cases f) auto
  let ?c0 = "c\<lparr>ctx_inbox := []\<rparr>"
  let ?s0 = "s\<lparr>p_coap_ctx := Some ?c0\<rparr>"
  let ?w0 = "w\<lparr>w_ctx := Some ?s0\<rparr>"
  have pop: "map_cctx (\<lambda>c. c\<lparr>ctx_inbox := []\<rparr>) w = ?w0"
    using s by (simp add: map_cctx_def map_sess_def)
  have h: "CoAPMessage_handle g r ?w0 = Some (?w0\<lparr>w_ctx := Some (?s0\<lparr>is_authed := False,
     coap_token := coap_token ?s0 + 1, p_coap_ctx := Some (?c0\<lparr>ctx_message_id := ctx_message_id ?c0 + 1,
       ctx_sent := ctx_sent ?c0 @ [auth_request ?s0 ?c0 di (auth_sign ?w0 di)], ctx_inbox := []\<rparr>)\<rparr>)\<rparr>)"
    by (rule handle_unauthorized_session) (use assms g6 in \<open>simp_all add: find_request_def auth_sign_def\<close>)
  have cc: "get_cctx w = Some c" using s by (simp add: get_cctx_def)
  have h': "CoAPMessage_handle g r (map_cctx (\<lambda>c. c\<lparr>ctx_inbox := []\<rparr>) w) = Some (?w0\<lparr>w_ctx := Some (?s0\<lparr>is_authed := False,
     coap_token := coap_token ?s0 + 1, p_coap_ctx := Some (?c0\<lparr>ctx_message_id := ctx_message_id ?c0 + 1,
       ctx_sent := ctx_sent ?c0 @ [auth_request ?s0 ?c0 di (auth_sign ?w0 di)], ctx_inbox := []\<rparr>)\<rparr>)\<rparr>)"
    unfolding pop by (rule h)
  have recv: "CoAPMessage_recv (Suc g) 1 w = Some (True, ?w0\<lparr>w_ctx := Some (?s0\<lparr>is_authed := False,
     coap_token := coap_token ?s0 + 1, p_coap_ctx := Some (?c0\<lparr>ctx_message_id := ctx_message_id ?c0 + 1,
       ctx_sent := ctx_sent ?c0 @ [auth_request ?s0 ?c0 di (auth_sign ?w0 di)], ctx_inbox := []\<rparr>)\<rparr>)\<rparr>)"
    by (rule trans [OF recv_step [OF cc inbox h']]) simp
  show ?thesis
    using s recv by (simp add: g IOT_CoAP_Yield_def CoAPMessage_cycle_def del: CoAPMessage_recv.simps)
qed

theorem IOT_CoAP_Yield_unauthorized_witness:
  "IOT_CoAP_Yield 7 ((example_auth_world [\<lparr>rsp_code = COAP_MSG_CODE_401_UNAUTHORIZED, rsp_token = [9, 9, 9, 9],
        rsp_payload = []\<rparr>])\<lparr>w_ctx := Some (example_session\<lparr>is_authed := True, p_auth_token := Some ''T123'',
        p_coap_ctx := Some (example_ctx\<lparr>ctx_sent := [CoAPMessage_init\<lparr>msg_token := [9, 9, 9, 9],
          msg_handler := Some H_get_well_known, msg_user := Some U_session\<rparr>],
          ctx_inbox := [\<lparr>rsp_code = COAP_MSG_CODE_401_UNAUTHORIZED, rsp_token = [9, 9, 9, 9], rsp_payload = []\<rparr>]\<rparr>)\<rparr>)\<rparr>)
   = Some (IOTX_SUCCESS, (example_auth_world [])\<lparr>w_ctx := Some (example_session\<lparr>is_authed := False,
        p_auth_token := Some ''T123'', coap_token := coap_token example_session + 1,
        p_coap_ctx := Some (example_ctx\<lparr>ctx_message_id := ctx_message_id example_ctx + 1,
          ctx_sent := [CoAPMessage_init\<lparr>msg_token := [9, 9, 9, 9],
            msg_handler := Some H_get_well_known, msg_user := Some U_session\<rparr>,
            auth_request example_session example_ctx example_devinfo (auth_sign (example_auth_world []) example_devinfo)],
          ctx_inbox := []\<rparr>)\<rparr>)\<rparr>)"
proof -
  define r0 where "r0 = \<lparr>rsp_code = COAP_MSG_CODE_401_UNAUTHORIZED, rsp_token = [9, 9, 9, 9], rsp_payload = []\<rparr>"
  define wk where "wk = CoAPMessage_init\<lparr>msg_token := [9, 9, 9, 9], msg_handler := Some H_get_well_known,
    msg_user := Some U_session\<rparr>"
  define c0 where "c0 = example_ctx\<lparr>ctx_sent := [wk], ctx_inbox := [r0]\<rparr>"
  define s0 where "s0 = example_session\<lparr>is_authed := True, p_auth_token := Some ''T123'', p_coap_ctx := Some c0\<rparr>"
  define w0 where "w0 = (example_auth_world [r0])\<lparr>w_ctx := Some s0\<rparr>"
  have h: "IOT_CoAP_Yield 7 w0 = Some (IOTX_SUCCESS, w0\<lparr>w_ctx := Some (s0\<lparr>is_authed := False,
     coap_token := coap_token s0 + 1, p_coap_ctx := Some (c0\<lparr>ctx_message_id := ctx_message_id c0 + 1,
       ctx_sent := ctx_sent c0 @ [auth_request s0 c0 example_devinfo (auth_sign w0 example_devinfo)],
       ctx_inbox := []\<rparr>)\<rparr>)\<rparr>)"
    by (rule IOT_CoAP_Yield_unauthorized [where req = wk and b = "''T123''" and r = r0])
      (simp_all add: w0_def s0_def c0_def wk_def r0_def example_auth_world_def example_world_def example_session_def
        example_ctx_def devinfo_fits_def example_devinfo_def auth_sign_def coap_limits find_request_def
        CoAPMessage_init_def)
  have a: "auth_request s0 c0 example_devinfo (auth_sign w0 example_devinfo)
      = auth_request example_session example_ctx example_devinfo (auth_sign (example_auth_world []) example_devinfo)"
    by (simp add: auth_request_def s0_def c0_def w0_def auth_sign_def iotx_get_coap_token_fst example_session_def
        example_ctx_def example_auth_world_def)
  show ?thesis
    using h unfolding a r0_def [symmetric] wk_def [symmetric]
    by (simp add: w0_def s0_def c0_def example_auth_world_def)
qed

text \<open>With no failing allocation, initialisation always yields a session.\<close>

lemma init_no_fail:
  assumes "alloc_fail w = {}" and "cfg_devinfo cfg = Some di"
  shows "\<exists>c. IOT_CoAP_Init (Some cfg) w
      = w\<lparr>heap := heap w + {#B_iotx_coap, B_auth_token, B_devinfo, B_coap_ctx#}, w_ctx := Some (init_session cfg di c)\<rparr>
    \<and> ctx_inbox c = net_inbox w \<and> ctx_net_ok c = net_up w \<and> ctx_sent c = []"
  using assms
  apply (simp add: IOT_CoAP_Init_def coap_malloc_def CoAPContext_create_def init_session_def Let_def
      add.assoc add_mset_commute)
  apply (rule exI, rule conjI, rule refl)
  apply (simp only: coap_context.simps)
  done

text \<open>A handshake answered by one \<open>2.05\<close> right after a successful initialisation
  authenticates the new session with the answered token.\<close>

lemma init_auth_ok:
  assumes di: "cfg_devinfo cfg = Some di" and mem: "alloc_fail w = {}"
    and net: "net_up w" and pid: "partner_id w = []"
    and sign: "length (auth_sign w (devinfo_copy di)) < IOTX_SIGN_LENGTH"
    and rsp: "net_inbox w = [\<lparr>rsp_code = COAP_MSG_CODE_205_CONTENT,
      rsp_token = u32_le_bytes IOTX_COAP_INIT_TOKEN, rsp_payload = token_json t\<rparr>]"
    and t: "CHR ''\"'' \<notin> set t" "length t < IOTX_AUTH_TOKEN_LEN"
    and f: "4 \<le> f"
  shows "\<exists>w2 s c. IOT_CoAP_DeviceNameAuth f (IOT_CoAP_Init (Some cfg) w) = Some (IOTX_SUCCESS, w2)
     \<and> w_ctx w2 = Some s \<and> is_authed s \<and> auth_token_str s = t
     \<and> coap_token s = IOTX_COAP_INIT_TOKEN + 1 \<and> p_coap_ctx s = Some c \<and> ctx_net_ok c"
proof -
  obtain c where init: "IOT_CoAP_Init (Some cfg) w
      = w\<lparr>heap := heap w + {#B_iotx_coap, B_auth_token, B_devinfo, B_coap_ctx#}, w_ctx := Some (init_session cfg di c)\<rparr>"
    and c: "ctx_inbox c = net_inbox w" "ctx_net_ok c = net_up w" "ctx_sent c = []"
    using init_no_fail [OF mem di] by blast
  define w1 where "w1 = w\<lparr>heap := heap w + {#B_iotx_coap, B_auth_token, B_devinfo, B_coap_ctx#},
      w_ctx := Some (init_session cfg di c)\<rparr>"
  define s1 where "s1 = init_session cfg di c"
  define c1 where "c1 = c\<lparr>ctx_message_id := ctx_message_id c + 1,
      ctx_sent := ctx_sent c @ [auth_request s1 c (devinfo_copy di) (auth_sign w1 (devinfo_copy di))], ctx_inbox := []\<rparr>"
  define s2 where "s2 = s1\<lparr>coap_token := coap_token s1 + 1, p_coap_ctx := Some c1, p_auth_token := Some t, is_authed := True\<rparr>"
  have s1: "w_ctx w1 = Some s1" "p_auth_token s1 = Some []" "p_coap_ctx s1 = Some c" "auth_token_len s1 \<noteq> 0"
      "p_devinfo s1 = Some (devinfo_copy di)"
    by (simp_all add: w1_def s1_def init_session_def IOTX_AUTH_TOKEN_LEN_def)
  have sign1: "length (auth_sign w1 (devinfo_copy di)) < IOTX_SIGN_LENGTH"
    using sign by (simp add: w1_def auth_sign_def)
  define r0 where "r0 = \<lparr>rsp_code = COAP_MSG_CODE_205_CONTENT,
      rsp_token = u32_le_bytes IOTX_COAP_INIT_TOKEN, rsp_payload = token_json t\<rparr>"
  have r0: "ctx_inbox c = [r0]" "rsp_code r0 = COAP_MSG_CODE_205_CONTENT"
      "rsp_token r0 = fst (iotx_get_coap_token s1)" "rsp_payload r0 = token_json t"
    using c(1) rsp by (simp_all add: r0_def s1_def init_session_def iotx_get_coap_token_fst)
  have w1: "B_auth_payload \<notin> alloc_fail w1" "B_sign_src \<notin> alloc_fail w1" "B_json_value \<notin> alloc_fail w1"
      "ctx_net_ok c" "partner_id w1 = []"
    using mem c(2) net pid by (simp_all add: w1_def)
  have a1: "IOT_CoAP_DeviceNameAuth f w1 = Some (IOTX_SUCCESS,
      auth_callback_content (s1\<lparr>coap_token := coap_token s1 + 1, p_coap_ctx := Some c1\<rparr>) r0
        (w1\<lparr>w_ctx := Some (s1\<lparr>coap_token := coap_token s1 + 1, p_coap_ctx := Some c1\<rparr>)\<rparr>))"
    unfolding c1_def by (rule auth_one_response [OF s1 devinfo_copy_fits sign1 w1(1,2,4,5) r0(1-3) f])
  have a2: "auth_callback_content (s1\<lparr>coap_token := coap_token s1 + 1, p_coap_ctx := Some c1\<rparr>) r0
        (w1\<lparr>w_ctx := Some (s1\<lparr>coap_token := coap_token s1 + 1, p_coap_ctx := Some c1\<rparr>)\<rparr>)
      = w1\<lparr>w_ctx := Some s2\<rparr>"
    using auth_callback_content_ok [OF t(1), where b = "[]" and r = r0] t(2) w1(3) r0(4)
    by (simp add: s2_def s1_def init_session_def w1_def)
  have dna: "IOT_CoAP_DeviceNameAuth f (IOT_CoAP_Init (Some cfg) w) = Some (IOTX_SUCCESS, w1\<lparr>w_ctx := Some s2\<rparr>)"
    using a1 a2 init by (simp add: w1_def s1_def)
  have s2: "w_ctx (w1\<lparr>w_ctx := Some s2\<rparr>) = Some s2" "p_coap_ctx s2 = Some c1" "is_authed s2"
      "auth_token_str s2 = t" "coap_token s2 = IOTX_COAP_INIT_TOKEN + 1" "ctx_net_ok c1"
    using c(2) net by (simp_all add: s2_def s1_def c1_def init_session_def auth_token_str_def)
  show ?thesis
    using dna s2 by blast
qed

end
