(* ===== verification/Coap_Invariant.thy ===== *)
theory Coap_Invariant
  imports Coap_Lifecycle
begin

text \<open>
  Invariants of the worlds a program can reach.  \<open>api_call\<close> and \<open>api_step\<close>
  are the interface the components agree on; \<open>reachable\<close> closes a session-less
  host under API calls and changes of the environment.  The preservation argument
  is made once, for any predicate \<open>P\<close> on worlds: if the non-recursive steps of the
  family keep \<open>P\<close> (\<open>steps_keep\<close>: the two send halves, popping a response, the
  \<open>2.05\<close> handler, clearing the flag, sleeping, undefined behaviour), then every
  member of the recursive family keeps it whatever the fuel (\<open>kept_all\<close>, by
  induction on the fuel, one lemma per member), and so does every API call if the
  calls outside the family keep it (\<open>api_keeps\<close>, \<open>api_step_keeps\<close>); if
  moreover the environment keeps it (\<open>env_keeps\<close>), it holds in every reachable world
  (\<open>reachable_keeps\<close>, by rule induction).  \<open>session_wf\<close> is the first instance:
  the token buffer holds a C string that fits its \<open>IOTX_AUTH_TOKEN_LEN\<close> bytes,
  the identity fits \<open>iotx_deviceinfo_t\<close>, the engine context exists.
\<close>

definition session_wf :: "iotx_coap \<Rightarrow> bool" where
  "session_wf s \<longleftrightarrow>
     auth_token_len s = IOTX_AUTH_TOKEN_LEN
     \<and> (case p_auth_token s of Some t \<Rightarrow> length t < IOTX_AUTH_TOKEN_LEN | None \<Rightarrow> False)
     \<and> (case p_devinfo s of Some di \<Rightarrow> devinfo_fits di | None \<Rightarrow> False)
     \<and> p_coap_ctx s \<noteq> None"

definition world_wf :: "world \<Rightarrow> bool" where
  "world_wf w \<longleftrightarrow> (case w_ctx w of Some s \<Rightarrow> session_wf s | None \<Rightarrow> True)"

definition steps_keep :: "(world \<Rightarrow> bool) \<Rightarrow> bool" where
  "steps_keep P \<longleftrightarrow>
     (\<forall>w r w'. P w \<longrightarrow> device_name_auth_send w = Inl (r, w') \<longrightarrow> P w')
   \<and> (\<forall>w w'. P w \<longrightarrow> device_name_auth_send w = Inr w' \<longrightarrow> P w')
   \<and> (\<forall>w r w'. P w \<longrightarrow> report_mid_send w = Inl (r, w') \<longrightarrow> P w')
   \<and> (\<forall>w w'. P w \<longrightarrow> report_mid_send w = Inr w' \<longrightarrow> P w')
   \<and> (\<forall>w rs. P w \<longrightarrow> P (map_cctx (\<lambda>c. c\<lparr>ctx_inbox := rs\<rparr>) w))
   \<and> (\<forall>w s r. P w \<longrightarrow> w_ctx w = Some s \<longrightarrow> P (auth_callback_content s r w))
   \<and> (\<forall>w s. P w \<longrightarrow> w_ctx w = Some s \<longrightarrow> P (w\<lparr>w_ctx := Some (s\<lparr>is_authed := False\<rparr>)\<rparr>))
   \<and> (\<forall>w. P w \<longrightarrow> P (HAL_SleepMs 1000 w))
   \<and> (\<forall>w. P w \<longrightarrow> P (mark_ub w))"

definition kept :: "(world \<Rightarrow> bool) \<Rightarrow> nat \<Rightarrow> bool" where
  "kept P f \<longleftrightarrow>
     (\<forall>w r w'. P w \<longrightarrow> IOT_CoAP_DeviceNameAuth f w = Some (r, w') \<longrightarrow> P w')
   \<and> (\<forall>w r w'. P w \<longrightarrow> iotx_coap_report_mid f w = Some (r, w') \<longrightarrow> P w')
   \<and> (\<forall>n w b w'. P w \<longrightarrow> CoAPMessage_recv f n w = Some (b, w') \<longrightarrow> P w')
   \<and> (\<forall>r w w'. P w \<longrightarrow> CoAPMessage_handle f r w = Some w' \<longrightarrow> P w')
   \<and> (\<forall>c m w w'. P w \<longrightarrow> iotx_event_notifyer f c m w = Some w' \<longrightarrow> P w')
   \<and> (\<forall>u mr w w'. P w \<longrightarrow> iotx_device_name_auth_callback f u mr w = Some w' \<longrightarrow> P w')"

text \<open>The calls an application makes, and what each does to the world; the
  handshake and the event loop run with fuel \<open>f\<close>.\<close>

datatype api_call =
    Call_Init "iotx_coap_config option"
  | Call_Deinit
  | Call_DeviceNameAuth
  | Call_SendMessage "string option" "iotx_message option"
  | Call_Yield
  | Call_GetWellKnown

fun api_step :: "nat \<Rightarrow> api_call \<Rightarrow> world \<Rightarrow> world option" where
  "api_step f (Call_Init cfg) w = Some (IOT_CoAP_Init cfg w)"
| "api_step f Call_Deinit w = Some (IOT_CoAP_Deinit w)"
| "api_step f Call_DeviceNameAuth w = map_option snd (IOT_CoAP_DeviceNameAuth f w)"
| "api_step f (Call_SendMessage p m) w = Some (snd (IOT_CoAP_SendMessage w p m))"
| "api_step f Call_Yield w = map_option snd (IOT_CoAP_Yield f w)"
| "api_step f Call_GetWellKnown w = Some (snd (iotx_get_well_known w))"

text \<open>The worlds a program can reach from a host without a session: any sequence
  of API calls, interleaved with the environment changing the network (the
  responses pending and whether datagrams go out), the failing allocations and
  the host's identifiers.\<close>

inductive reachable :: "world \<Rightarrow> bool" where
  start: "w_ctx w = None \<Longrightarrow> reachable w"
| call: "reachable w \<Longrightarrow> api_step f c w = Some w' \<Longrightarrow> reachable w'"
| env: "reachable w \<Longrightarrow>
     reachable (map_cctx (\<lambda>c. c\<lparr>ctx_inbox := rs, ctx_net_ok := up\<rparr>)
       (w\<lparr>alloc_fail := F, partner_id := pid, module_id := mid, net_inbox := ni, net_up := nu\<rparr>))"

text \<open>What the API calls outside the recursive family, and the environment, must
  keep for a predicate to hold in every reachable world.\<close>

definition api_keeps :: "(world \<Rightarrow> bool) \<Rightarrow> bool" where
  "api_keeps P \<longleftrightarrow>
     (\<forall>cfg w. P w \<longrightarrow> P (IOT_CoAP_Init cfg w))
   \<and> (\<forall>w. P w \<longrightarrow> P (IOT_CoAP_Deinit w))
   \<and> (\<forall>w p m. P w \<longrightarrow> P (snd (IOT_CoAP_SendMessage w p m)))
   \<and> (\<forall>w. P w \<longrightarrow> P (snd (iotx_get_well_known w)))"

definition env_keeps :: "(world \<Rightarrow> bool) \<Rightarrow> bool" where
  "env_keeps P \<longleftrightarrow>
     (\<forall>w rs up F pid mid ni nu. P w \<longrightarrow> P (map_cctx (\<lambda>c. c\<lparr>ctx_inbox := rs, ctx_net_ok := up\<rparr>)
       (w\<lparr>alloc_fail := F, partner_id := pid, module_id := mid, net_inbox := ni, net_up := nu\<rparr>)))"

subsection \<open>The family keeps any predicate its steps keep\<close>

lemmas steps_keepD =
  steps_keep_def [THEN iffD1, THEN conjunct1, rule_format]
  steps_keep_def [THEN iffD1, THEN conjunct2, THEN conjunct1, rule_format]
  steps_keep_def [THEN iffD1, THEN conjunct2, THEN conjunct2, THEN conjunct1, rule_format]
  steps_keep_def [THEN iffD1, THEN conjunct2, THEN conjunct2, THEN conjunct2, THEN conjunct1, rule_format]
  steps_keep_def [THEN iffD1, THEN conjunct2, THEN conjunct2, THEN conjunct2, THEN conjunct2, THEN conjunct1, rule_format]
  steps_keep_def [THEN iffD1, THEN conjunct2, THEN conjunct2, THEN conjunct2, THEN conjunct2, THEN conjunct2, THEN conjunct1, rule_format]
  steps_keep_def [THEN iffD1, THEN conjunct2, THEN conjunct2, THEN conjunct2, THEN conjunct2, THEN conjunct2, THEN conjunct2, THEN conjunct1, rule_format]
  steps_keep_def [THEN iffD1, THEN conjunct2, THEN conjunct2, THEN conjunct2, THEN conjunct2, THEN conjunct2, THEN conjunct2, THEN conjunct2, THEN conjunct1, rule_format]
  steps_keep_def [THEN iffD1, THEN conjunct2, THEN conjunct2, THEN conjunct2, THEN conjunct2, THEN conjunct2, THEN conjunct2, THEN conjunct2, THEN conjunct2, rule_format]

lemmas keptD =
  kept_def [THEN iffD1, THEN conjunct1, rule_format]
  kept_def [THEN iffD1, THEN conjunct2, THEN conjunct1, rule_format]
  kept_def [THEN iffD1, THEN conjunct2, THEN conjunct2, THEN conjunct1, rule_format]
  kept_def [THEN iffD1, THEN conjunct2, THEN conjunct2, THEN conjunct2, THEN conjunct1, rule_format]
  kept_def [THEN iffD1, THEN conjunct2, THEN conjunct2, THEN conjunct2, THEN conjunct2, THEN conjunct1,
    rule_format]
  kept_def [THEN iffD1, THEN conjunct2, THEN conjunct2, THEN conjunct2, THEN conjunct2, THEN conjunct2,
    rule_format]

lemmas api_keepsD =
  api_keeps_def [THEN iffD1, THEN conjunct1, rule_format]
  api_keeps_def [THEN iffD1, THEN conjunct2, THEN conjunct1, rule_format]
  api_keeps_def [THEN iffD1, THEN conjunct2, THEN conjunct2, THEN conjunct1, rule_format]
  api_keeps_def [THEN iffD1, THEN conjunct2, THEN conjunct2, THEN conjunct2, rule_format]

lemmas env_keepsD = env_keeps_def [THEN iffD1, rule_format]

lemma kept_auth:
  assumes S: "steps_keep P" and IH: "kept P f" and wf: "P w"
    and h: "IOT_CoAP_DeviceNameAuth (Suc f) w = Some (r, w')"
  shows "P w'"
proof (cases "device_name_auth_send w")
  case (Inl a) then show ?thesis using h steps_keepD(1) [OF S wf, of r w'] by auto
next
  case (Inr w4)
  have w4: "P w4" using steps_keepD(2) [OF S wf Inr] .
  obtain got w5 where recv: "CoAPMessage_recv f 2 w4 = Some (got, w5)"
    using h Inr by (auto split: option.splits)
  have w5: "P w5" using keptD(3) [OF IH w4 recv] .
  show ?thesis
    using h Inr recv w5 keptD(2) [OF IH w5] by (auto split: if_splits option.splits)
qed

lemma kept_mid:
  assumes S: "steps_keep P" and IH: "kept P f" and wf: "P w"
    and h: "iotx_coap_report_mid (Suc f) w = Some (r, w')"
  shows "P w'"
proof (cases "report_mid_send w")
  case (Inl a) then show ?thesis using h steps_keepD(3) [OF S wf, of r w'] by auto
next
  case (Inr w3)
  have w3: "P w3" using steps_keepD(4) [OF S wf Inr] .
  show ?thesis using h Inr keptD(3) [OF IH w3] by (auto split: option.splits)
qed

lemma kept_recv:
  assumes S: "steps_keep P" and IH: "kept P f" and wf: "P w"
    and h: "CoAPMessage_recv (Suc f) n w = Some (b, w')"
  shows "P w'"
proof (cases "\<exists>c r rs. get_cctx w = Some c \<and> ctx_inbox c = r # rs")
  case True
  then obtain c r rs where c: "get_cctx w = Some c" "ctx_inbox c = r # rs" by blast
  have w0: "P (map_cctx (\<lambda>c. c\<lparr>ctx_inbox := rs\<rparr>) w)" by (rule steps_keepD(5) [OF S wf])
  obtain w1 where h1: "CoAPMessage_handle f r (map_cctx (\<lambda>c. c\<lparr>ctx_inbox := rs\<rparr>) w) = Some w1"
    using h c by (auto split: option.splits)
  have w1: "P w1" using keptD(4) [OF IH w0 h1] .
  show ?thesis using h c h1 w1 keptD(3) [OF IH w1] by (auto split: if_splits)
next
  case False
  then show ?thesis using h wf by (auto split: option.splits list.splits)
qed

lemma kept_handle:
  assumes IH: "kept P f" and wf: "P w" and h: "CoAPMessage_handle (Suc f) r w = Some w'"
  shows "P w'"
proof (cases "\<exists>c req. get_cctx w = Some c \<and> find_request c (rsp_token r) = Some req")
  case True
  then obtain c req where c: "get_cctx w = Some c" "find_request c (rsp_token r) = Some req" by blast
  obtain w1 where n: "iotx_event_notifyer f (rsp_code r) (Some req) w = Some w1"
    using h c by (auto split: option.splits)
  have w1: "P w1" using keptD(5) [OF IH wf n] .
  show ?thesis using h c n w1 keptD(6) [OF IH w1] by (auto split: if_splits)
next
  case False
  then show ?thesis using h wf by (auto split: option.splits)
qed

lemma kept_notify:
  assumes S: "steps_keep P" and IH: "kept P f" and wf: "P w"
    and h: "iotx_event_notifyer (Suc f) c m w = Some w'"
  shows "P w'"
proof (cases "\<exists>mm s. m = Some mm \<and> (c = COAP_MSG_CODE_402_BAD_OPTION \<or> c = COAP_MSG_CODE_401_UNAUTHORIZED)
   \<and> msg_user mm = Some U_session \<and> w_ctx w = Some s")
  case True
  then obtain mm s where m: "m = Some mm" "c = COAP_MSG_CODE_402_BAD_OPTION \<or> c = COAP_MSG_CODE_401_UNAUTHORIZED"
    "msg_user mm = Some U_session" "w_ctx w = Some s" by blast
  have w1: "P (w\<lparr>w_ctx := Some (s\<lparr>is_authed := False\<rparr>)\<rparr>)" by (rule steps_keepD(7) [OF S wf m(4)])
  show ?thesis using h m keptD(1) [OF IH w1] by auto
next
  case False
  then show ?thesis
    using h wf steps_keepD(9) [OF S wf] by (auto split: option.splits user_ref.splits if_splits)
qed

lemma kept_callback:
  assumes S: "steps_keep P" and IH: "kept P f" and wf: "P w"
    and h: "iotx_device_name_auth_callback (Suc f) u mr w = Some w'"
  shows "P w'"
proof (cases "\<exists>r s. u = Some U_session \<and> mr = Some r \<and> w_ctx w = Some s")
  case True
  then obtain r s where u: "u = Some U_session" "mr = Some r" "w_ctx w = Some s" by blast
  show ?thesis
  proof (cases "rsp_code r = COAP_MSG_CODE_500_INTERNAL_SERVER_ERROR")
    case True
    then obtain a where "IOT_CoAP_DeviceNameAuth f (HAL_SleepMs 1000 w) = Some (a, w')"
      using h u by auto
    then show ?thesis by (rule keptD(1) [OF IH steps_keepD(8) [OF S wf]])
  next
    case False
    then show ?thesis
      using h u wf steps_keepD(6) [OF S wf u(3)] by (cases "rsp_code r") auto
  qed
next
  case False
  then show ?thesis
    using h wf steps_keepD(9) [OF S wf] by (auto split: option.splits user_ref.splits)
qed

lemma kept_Suc:
  assumes S: "steps_keep P" and IH: "kept P f"
  shows "kept P (Suc f)"
  unfolding kept_def [of P "Suc f"]
  apply (intro conjI allI impI)
       apply (rule kept_auth [OF S IH]; assumption)
      apply (rule kept_mid [OF S IH]; assumption)
     apply (rule kept_recv [OF S IH]; assumption)
    apply (rule kept_handle [OF IH]; assumption)
   apply (rule kept_notify [OF S IH]; assumption)
  apply (rule kept_callback [OF S IH]; assumption)
  done

lemma kept_all: "steps_keep P \<Longrightarrow> kept P f"
  by (induction f) (simp_all add: kept_def [of P 0] kept_Suc)

lemma kept_yield: "steps_keep P \<Longrightarrow> P w \<Longrightarrow> IOT_CoAP_Yield f w = Some (r, w') \<Longrightarrow> P w'"
  using keptD(3) [OF kept_all]
  by (auto simp: IOT_CoAP_Yield_def CoAPMessage_cycle_def split: option.splits)

lemma api_step_keeps:
  assumes S: "steps_keep P" and A: "api_keeps P" and wf: "P w" and h: "api_step f c w = Some w'"
  shows "P w'"
proof (cases c)
  case (Call_Init cfg) then show ?thesis using h api_keepsD(1) [OF A wf] by auto
next
  case Call_Deinit then show ?thesis using h api_keepsD(2) [OF A wf] by auto
next
  case Call_DeviceNameAuth
  then obtain r where "IOT_CoAP_DeviceNameAuth f w = Some (r, w')" using h by auto
  then show ?thesis by (rule keptD(1) [OF kept_all [OF S] wf])
next
  case (Call_SendMessage p m) then show ?thesis using h api_keepsD(3) [OF A wf] by auto
next
  case Call_Yield
  then obtain r where "IOT_CoAP_Yield f w = Some (r, w')" using h by auto
  then show ?thesis by (rule kept_yield [OF S wf])
next
  case Call_GetWellKnown then show ?thesis using h api_keepsD(4) [OF A wf] by auto
qed

text \<open>A predicate that holds without a session, and that the steps of the family,
  the other API calls and the environment keep, holds in every reachable world.\<close>

lemma reachable_keeps:
  assumes S: "steps_keep P" and A: "api_keeps P" and E: "env_keeps P"
    and I: "\<And>w. w_ctx w = None \<Longrightarrow> P w" and r: "reachable w"
  shows "P w"
  using r
proof (induction rule: reachable.induct)
  case (start w)
  then show ?case by (rule I)
next
  case (call w f c w')
  show ?case by (rule api_step_keeps [OF S A call.IH call.hyps(2)])
next
  case (env w rs up F pid mid ni nu)
  show ?case by (rule env_keepsD [OF E env.IH])
qed

subsection \<open>The session invariant\<close>

lemma world_wf_same_ctx: "w_ctx w' = w_ctx w \<Longrightarrow> world_wf w' = world_wf w"
  by (simp add: world_wf_def)

lemma world_wf_simps [simp]:
  "world_wf (mark_ub w) = world_wf w"
  "world_wf (HAL_SleepMs ms w) = world_wf w"
  "world_wf (coap_free b w) = world_wf w"
  "world_wf (w\<lparr>heap := h\<rparr>) = world_wf w"
  "world_wf (w\<lparr>c_ub := x\<rparr>) = world_wf w"
  by (simp_all add: world_wf_def mark_ub_def HAL_SleepMs_def coap_free_def)

lemma session_wf_upd [simp]:
  "session_wf (s\<lparr>is_authed := x\<rparr>) = session_wf s"
  "session_wf (s\<lparr>coap_token := v\<rparr>) = session_wf s"
  "session_wf s \<Longrightarrow> session_wf (s\<lparr>p_coap_ctx := Some c\<rparr>)"
  by (auto simp: session_wf_def)

lemma world_wf_malloc [simp]: "world_wf (snd (coap_malloc b w)) = world_wf w"
  by (simp add: coap_malloc_def world_wf_def)

lemma wf_send:
  "world_wf w \<Longrightarrow> world_wf (snd (IOT_CoAP_SendMessage w p m))"
  by (auto simp: IOT_CoAP_SendMessage_def world_wf_def session_wf_def CoAPMessageId_gen_def
      CoAPMessage_send_def iotx_split_path_2_option_def split_def Let_def iotx_get_coap_token_snd
      split: option.splits if_splits prod.splits)

lemma wf_auth_send:
  "world_wf w \<Longrightarrow> (device_name_auth_send w = Inl (r, w') \<longrightarrow> world_wf w')
     \<and> (device_name_auth_send w = Inr w' \<longrightarrow> world_wf w')"
  using iotx_calc_sign_world
  by (auto simp: device_name_auth_send_def world_wf_def session_wf_def CoAPMessageId_gen_def
      coap_malloc_def CoAPMessage_send_def coap_free_def mark_ub_def split_def Let_def iotx_get_coap_token_snd
      split: option.splits if_splits prod.splits)

lemma wf_mid_send:
  "world_wf w \<Longrightarrow> (report_mid_send w = Inl (r, w') \<longrightarrow> world_wf w')
     \<and> (report_mid_send w = Inr w' \<longrightarrow> world_wf w')"
proof -
  assume wf: "world_wf w"
  show ?thesis
    using wf wf_send
    by (auto simp: report_mid_send_def split_def Let_def split: option.splits if_splits prod.splits)
qed

lemma wf_pop: "world_wf w \<Longrightarrow> world_wf (map_cctx f w)"
  by (auto simp: world_wf_def session_wf_def map_cctx_def map_sess_def split: option.splits)

lemma token_from_json_bound:
  "fst (snd (iotx_get_token_from_json p tok len w)) = tok
   \<or> (\<exists>v. fst (snd (iotx_get_token_from_json p tok len w)) = Some v \<and> (len = 0 \<or> length v < len))"
  by (auto simp: iotx_get_token_from_json_def split: option.splits prod.splits)

lemma wf_callback_content:
  assumes "w_ctx w = Some s" and "world_wf w"
  shows "world_wf (auth_callback_content s r w)"
proof -
  let ?j = "iotx_get_token_from_json (if rsp_payload r = [] then None else Some (rsp_payload r))
              (p_auth_token s) (auth_token_len s) w"
  have wf: "session_wf s" using assms by (simp add: world_wf_def)
  have d: "fst (snd ?j) = p_auth_token s \<or> (\<exists>v. fst (snd ?j) = Some v \<and> length v < IOTX_AUTH_TOKEN_LEN)"
    using token_from_json_bound [of "if rsp_payload r = [] then None else Some (rsp_payload r)"
        "p_auth_token s" "auth_token_len s" w] wf
    by (auto simp: session_wf_def IOTX_AUTH_TOKEN_LEN_def)
  have tok: "session_wf (s\<lparr>p_auth_token := fst (snd ?j), is_authed := x\<rparr>)" for x
    using d wf by (auto simp: session_wf_def)
  show ?thesis
    using tok by (simp add: auth_callback_content_def world_wf_def split_def Let_def)
qed

lemma wf_init: "world_wf (IOT_CoAP_Init cfg w)"
  by (auto simp: IOT_CoAP_Init_def world_wf_def session_wf_def coap_malloc_def CoAPContext_create_def
      IOTX_AUTH_TOKEN_LEN_def Let_def split: option.splits if_splits)

lemma wf_deinit: "world_wf (IOT_CoAP_Deinit w)"
  by (auto simp: IOT_CoAP_Deinit_def world_wf_def Let_def split: option.splits)

lemma wf_well_known: "world_wf w \<Longrightarrow> world_wf (snd (iotx_get_well_known w))"
  by (auto simp: iotx_get_well_known_def world_wf_def session_wf_def CoAPMessageId_gen_def CoAPMessage_send_def
      split_def Let_def iotx_get_coap_token_snd mark_ub_def split: option.splits)

lemma wf_env:
  "world_wf w \<Longrightarrow> world_wf (map_cctx (\<lambda>c. c\<lparr>ctx_inbox := rs, ctx_net_ok := up\<rparr>)
     (w\<lparr>alloc_fail := F, partner_id := pid, module_id := mid, net_inbox := ni, net_up := nu\<rparr>))"
  by (auto simp: world_wf_def session_wf_def map_cctx_def map_sess_def split: option.splits)

lemma steps_keep_world_wf: "steps_keep world_wf"
  unfolding steps_keep_def
  apply (intro conjI allI impI)
          apply (blast dest: wf_auth_send)
         apply (blast dest: wf_auth_send)
        apply (blast dest: wf_mid_send)
       apply (blast dest: wf_mid_send)
      apply (erule wf_pop)
     apply (erule (1) wf_callback_content [rotated])
    apply (simp add: world_wf_def)
   apply simp_all
  done

lemma api_keeps_world_wf: "api_keeps world_wf"
  unfolding api_keeps_def using wf_init wf_deinit wf_send wf_well_known by blast

lemma env_keeps_world_wf: "env_keeps world_wf"
  unfolding env_keeps_def using wf_env by blast

text \<open>A world one API call after initialising a host without a session is reachable.\<close>

lemma reachable_after_init:
  assumes "w_ctx w = None" and "api_step f c (IOT_CoAP_Init cfg w) = Some w'"
  shows "reachable w'"
proof -
  have "reachable (IOT_CoAP_Init cfg w)"
    using reachable.call [OF reachable.start [OF assms(1)], of f "Call_Init cfg"] by simp
  then show ?thesis by (rule reachable.call [OF _ assms(2)])
qed

text \<open>C6: in every world a program can reach, the session (if any) is well formed:
  its token buffer holds a C string shorter than \<open>IOTX_AUTH_TOKEN_LEN\<close>, the
  identity fits \<open>iotx_deviceinfo_t\<close> and the engine context exists; in particular
  no API call or server response makes the token copy overflow its buffer.\<close>

theorem reachable_world_wf:
  assumes "reachable w"
  shows "world_wf w"
  by (rule reachable_keeps [OF steps_keep_world_wf api_keeps_world_wf env_keeps_world_wf _ assms])
    (simp add: world_wf_def)

theorem reachable_world_wf_witness:
  "world_wf (snd (IOT_CoAP_SendMessage (IOT_CoAP_Init (Some \<lparr>cfg_devinfo = Some example_devinfo, cfg_url = None,
      cfg_wait_time_ms = 2000, cfg_event_handle = None\<rparr>) example_world) (Some ''/topic/a'') (Some example_msg)))"
  by (rule reachable_world_wf [OF reachable_after_init
        [where f = 0 and c = "Call_SendMessage (Some ''/topic/a'') (Some example_msg)"]])
    (simp_all add: example_world_def)

end
