(* ===== verification/Coap_Wire.thy ===== *)
theory Coap_Wire
  imports Coap_Invariant
begin

text \<open>
  The second instance of the preservation argument of \<open>Coap_Invariant\<close>: what
  goes on the wire.  Every datagram the engine has accepted from this client is a
  confirmable request, a POST (the handshake, the module-id report, an
  application message) or a GET (\<open>/.well-known/core\<close>), with the 4-byte
  correlation token of \<open>iotx_get_coap_token\<close>, and fits one PDU of
  \<open>COAP_MSG_MAX_PDU_LEN\<close> bytes.  In particular the module-id report, which
  asks for a non-confirmable message, goes out confirmable.
\<close>

definition wire_hdr :: "coap_message \<Rightarrow> bool" where
  "wire_hdr m \<longleftrightarrow> msg_type m = COAP_MESSAGE_TYPE_CON
     \<and> msg_code m \<in> {COAP_MSG_CODE_POST, COAP_MSG_CODE_GET} \<and> length (msg_token m) = 4"

definition wire_msg :: "coap_message \<Rightarrow> bool" where
  "wire_msg m \<longleftrightarrow> wire_hdr m \<and> coap_msg_size m \<le> COAP_MSG_MAX_PDU_LEN"

definition wire_wf :: "world \<Rightarrow> bool" where
  "wire_wf w \<longleftrightarrow> (case get_cctx w of None \<Rightarrow> True | Some c \<Rightarrow> list_all wire_msg (ctx_sent c))"

subsection \<open>The engine accepts only what fits\<close>

lemma CoAPMessage_send_sent:
  "ctx_sent (snd (CoAPMessage_send c m))
     = (if coap_msg_size m \<le> COAP_MSG_MAX_PDU_LEN \<and> ctx_net_ok c then ctx_sent c @ [m] else ctx_sent c)"
  by (simp add: CoAPMessage_send_def)

lemma wire_send_msg:
  "list_all wire_msg (ctx_sent c) \<Longrightarrow> wire_hdr m \<Longrightarrow> list_all wire_msg (ctx_sent (snd (CoAPMessage_send c m)))"
  by (simp add: CoAPMessage_send_sent wire_msg_def)

lemma wire_wf_ctx:
  "w_ctx w = Some s \<Longrightarrow> p_coap_ctx s = Some c \<Longrightarrow> wire_wf w = list_all wire_msg (ctx_sent c)"
  by (simp add: wire_wf_def get_cctx_def)

lemma wire_wf_same_cctx: "get_cctx w' = get_cctx w \<Longrightarrow> wire_wf w' = wire_wf w"
  by (simp add: wire_wf_def)

lemma wire_wf_simps [simp]:
  "wire_wf (mark_ub w) = wire_wf w"
  "wire_wf (HAL_SleepMs ms w) = wire_wf w"
  "wire_wf (coap_free b w) = wire_wf w"
  "wire_wf (snd (coap_malloc b w)) = wire_wf w"
  "wire_wf (w\<lparr>c_ub := x\<rparr>) = wire_wf w"
  by (simp_all add: wire_wf_def get_cctx_def mark_ub_def HAL_SleepMs_def coap_free_def coap_malloc_def)

subsection \<open>Each step keeps the wire well formed\<close>

lemma wire_SendMessage: "wire_wf w \<Longrightarrow> wire_wf (snd (IOT_CoAP_SendMessage w p m))"
  using split_loop_keeps
  by (auto simp: IOT_CoAP_SendMessage_def wire_wf_def get_cctx_def CoAPMessageId_gen_def
      iotx_split_path_2_option_def iotx_content_options_def CoAPUintOption_add_def CoAPStrOption_add_def
      CoAPMessage_send_sent wire_msg_def wire_hdr_def CoAPMessage_init_def split_def Let_def
      iotx_get_coap_token_snd iotx_get_coap_token_length
      split: option.splits if_splits prod.splits)

lemma wire_auth_send:
  "wire_wf w \<Longrightarrow> (device_name_auth_send w = Inl (r, w') \<longrightarrow> wire_wf w')
     \<and> (device_name_auth_send w = Inr w' \<longrightarrow> wire_wf w')"
  using iotx_calc_sign_world
  by (auto simp: device_name_auth_send_def wire_wf_def get_cctx_def CoAPMessageId_gen_def
      coap_malloc_def CoAPMessage_send_sent coap_free_def mark_ub_def split_def Let_def
      CoAPUintOption_add_def CoAPStrOption_add_def wire_msg_def wire_hdr_def CoAPMessage_init_def
      iotx_get_coap_token_snd iotx_get_coap_token_length
      split: option.splits if_splits prod.splits)

lemma wire_mid_send:
  "wire_wf w \<Longrightarrow> (report_mid_send w = Inl (r, w') \<longrightarrow> wire_wf w')
     \<and> (report_mid_send w = Inr w' \<longrightarrow> wire_wf w')"
  using wire_SendMessage
  by (auto simp: report_mid_send_def split_def Let_def split: option.splits if_splits prod.splits)

lemma wire_pop_inbox: "wire_wf w \<Longrightarrow> wire_wf (map_cctx (\<lambda>c. c\<lparr>ctx_inbox := rs\<rparr>) w)"
  by (auto simp: wire_wf_def get_cctx_def map_cctx_def map_sess_def split: option.splits)

lemma wire_callback_content: "w_ctx w = Some s \<Longrightarrow> wire_wf w \<Longrightarrow> wire_wf (auth_callback_content s r w)"
  using auth_callback_content_frame [of w s r] by (simp add: wire_wf_def get_cctx_def)

lemma steps_keep_wire_wf: "steps_keep wire_wf"
  unfolding steps_keep_def
  apply (intro conjI allI impI)
          apply (blast dest: wire_auth_send)
         apply (blast dest: wire_auth_send)
        apply (blast dest: wire_mid_send)
       apply (blast dest: wire_mid_send)
      apply (erule wire_pop_inbox)
     apply (erule (1) wire_callback_content [rotated])
    apply (simp add: wire_wf_def get_cctx_def)
   apply simp_all
  done

lemma wire_init: "wire_wf (IOT_CoAP_Init cfg w)"
  by (auto simp: IOT_CoAP_Init_def wire_wf_def get_cctx_def coap_malloc_def CoAPContext_create_def
      Let_def split: option.splits if_splits)

lemma wire_deinit: "wire_wf (IOT_CoAP_Deinit w)"
  by (auto simp: IOT_CoAP_Deinit_def wire_wf_def get_cctx_def Let_def split: option.splits)

lemma wire_well_known: "wire_wf w \<Longrightarrow> wire_wf (snd (iotx_get_well_known w))"
  by (auto simp: iotx_get_well_known_def wire_wf_def get_cctx_def CoAPMessageId_gen_def CoAPMessage_send_sent
      CoAPUintOption_add_def CoAPStrOption_add_def wire_msg_def wire_hdr_def CoAPMessage_init_def
      split_def Let_def iotx_get_coap_token_snd iotx_get_coap_token_length mark_ub_def split: option.splits)

lemma wire_env:
  "wire_wf w \<Longrightarrow> wire_wf (map_cctx (\<lambda>c. c\<lparr>ctx_inbox := rs, ctx_net_ok := up\<rparr>)
     (w\<lparr>alloc_fail := F, partner_id := pid, module_id := mid, net_inbox := ni, net_up := nu\<rparr>))"
  by (auto simp: wire_wf_def get_cctx_def map_cctx_def map_sess_def split: option.splits)

lemma api_keeps_wire_wf: "api_keeps wire_wf"
  unfolding api_keeps_def using wire_init wire_deinit wire_SendMessage wire_well_known by blast

lemma env_keeps_wire_wf: "env_keeps wire_wf"
  unfolding env_keeps_def using wire_env by blast

text \<open>C10: in every world a program can reach, every datagram the engine has
  accepted from the client is a confirmable GET or POST carrying a 4-byte
  correlation token and fitting one PDU: whatever message type the application
  (or the module-id report) asks for, the wire carries confirmable requests only.\<close>

theorem reachable_wire_wf:
  assumes "reachable w"
  shows "wire_wf w"
  by (rule reachable_keeps [OF steps_keep_wire_wf api_keeps_wire_wf env_keeps_wire_wf _ assms])
    (simp add: wire_wf_def get_cctx_def)

theorem reachable_wire_wf_witness:
  "wire_wf (snd (iotx_get_well_known (IOT_CoAP_Init (Some \<lparr>cfg_devinfo = Some example_devinfo, cfg_url = None,
      cfg_wait_time_ms = 2000, cfg_event_handle = None\<rparr>) example_world)))"
  by (rule reachable_wire_wf [OF reachable_after_init [where f = 0 and c = Call_GetWellKnown]])
    (simp_all add: example_world_def)

end
