(* ===== verification/Coap_Run.thy ===== *)
theory Coap_Run
  imports Coap_Invariant
begin

text \<open>
  Runs of the API: an application's sequence of calls (\<open>api_run\<close>), each call
  with the same fuel.  No API call adds a response to the engine's inbox, and only
  \<open>IOT_CoAP_Init\<close> fills it, from the responses the network holds
  (\<open>net_inbox\<close>), which no API call changes (a third instance of the preservation
  argument of \<open>Coap_Invariant\<close>).  So the number of responses any call can meet
  is bounded by \<open>run_bound\<close> of the initial world, and the termination bound of
  \<open>Coap_Auth\<close> for that many responses lets every call of every sequence return.
\<close>

fun api_run :: "nat \<Rightarrow> api_call list \<Rightarrow> world \<Rightarrow> world option" where
  "api_run f [] w = Some w"
| "api_run f (c # cs) w = (case api_step f c w of None \<Rightarrow> None | Some w' \<Rightarrow> api_run f cs w')"

definition run_bound :: "world \<Rightarrow> nat" where
  "run_bound w = max (inbox_len w) (length (net_inbox w))"

subsection \<open>The network's responses are untouched by the API\<close>

lemma net_auth_send:
  "(device_name_auth_send w = Inl (r, w') \<longrightarrow> net_inbox w' = net_inbox w)
     \<and> (device_name_auth_send w = Inr w' \<longrightarrow> net_inbox w' = net_inbox w)"
  using iotx_calc_sign_world
  by (auto simp: device_name_auth_send_def CoAPMessageId_gen_def coap_malloc_def CoAPMessage_send_def
      coap_free_def mark_ub_def split_def Let_def split: option.splits if_splits prod.splits)

lemma net_SendMessage: "net_inbox (snd (IOT_CoAP_SendMessage w p m)) = net_inbox w"
  by (auto simp: IOT_CoAP_SendMessage_def CoAPMessageId_gen_def CoAPMessage_send_def
      iotx_split_path_2_option_def split_def Let_def split: option.splits if_splits prod.splits)

lemma net_mid_send:
  "(report_mid_send w = Inl (r, w') \<longrightarrow> net_inbox w' = net_inbox w)
     \<and> (report_mid_send w = Inr w' \<longrightarrow> net_inbox w' = net_inbox w)"
  using net_SendMessage
  by (auto simp: report_mid_send_def coap_malloc_def coap_free_def mark_ub_def split_def Let_def
      split: option.splits if_splits prod.splits)

lemma net_callback_content: "net_inbox (auth_callback_content s r w) = net_inbox w"
  by (auto simp: auth_callback_content_def iotx_get_token_from_json_def LITE_json_value_of_def
      coap_malloc_def coap_free_def split_def Let_def split: option.splits prod.splits if_splits)

lemma steps_keep_net: "steps_keep (\<lambda>w. net_inbox w = N)"
  unfolding steps_keep_def
  using net_auth_send net_mid_send net_callback_content
  by (simp add: map_cctx_def map_sess_def HAL_SleepMs_def mark_ub_def)

lemma api_keeps_net: "api_keeps (\<lambda>w. net_inbox w = N)"
  unfolding api_keeps_def using net_SendMessage
  by (auto simp: IOT_CoAP_Init_def IOT_CoAP_Deinit_def iotx_get_well_known_def coap_malloc_def
      coap_free_def CoAPContext_create_def CoAPContext_free_def iotx_coap_init_unwind_def mark_ub_def
      CoAPMessageId_gen_def CoAPMessage_send_def split_def Let_def split: option.splits if_splits prod.splits)

lemma api_step_net:
  assumes "api_step f c w = Some w'"
  shows "net_inbox w' = net_inbox w"
  by (rule api_step_keeps [OF steps_keep_net api_keeps_net _ assms]) simp

subsection \<open>No call adds a response\<close>

lemma inbox_init: "inbox_len (IOT_CoAP_Init cfg w) \<le> length (net_inbox w)"
  by (auto simp: IOT_CoAP_Init_def inbox_len_def get_cctx_def coap_malloc_def CoAPContext_create_def
      Let_def split: option.splits if_splits prod.splits)

lemma inbox_deinit: "inbox_len (IOT_CoAP_Deinit w) = 0"
  by (auto simp: IOT_CoAP_Deinit_def inbox_len_def get_cctx_def Let_def split: option.splits)

lemma inbox_well_known: "inbox_len (snd (iotx_get_well_known w)) = inbox_len w"
  by (auto simp: iotx_get_well_known_def inbox_len_def get_cctx_def CoAPMessageId_gen_def CoAPMessage_send_def
      mark_ub_def split_def Let_def split: option.splits)

lemma api_step_some:
  assumes f: "5 * run_bound w + 3 \<le> f"
  shows "\<exists>w'. api_step f c w = Some w' \<and> inbox_len w' \<le> run_bound w"
proof -
  have i: "inbox_len w \<le> run_bound w" by (simp add: run_bound_def)
  show ?thesis
  proof (cases c)
    case (Call_Init cfg)
    then show ?thesis using inbox_init [of cfg w] by (simp add: run_bound_def)
  next
    case Call_Deinit
    then show ?thesis by (simp add: inbox_deinit)
  next
    case Call_DeviceNameAuth
    obtain r w' where "IOT_CoAP_DeviceNameAuth f w = Some (r, w')" "inbox_len w' \<le> inbox_len w"
      using fuel_enough_D(1) [OF fuel_enough_all, of w f] f i by auto
    then show ?thesis using Call_DeviceNameAuth i by auto
  next
    case (Call_SendMessage p m)
    then show ?thesis
      using IOT_CoAP_SendMessage_inbox [OF prod.collapse [symmetric], of w p m] i by simp
  next
    case Call_Yield
    obtain b w' where "CoAPMessage_recv f 1 w = Some (b, w')" "inbox_len w' \<le> inbox_len w"
      using fuel_enough_D(3) [OF fuel_enough_all, of w f 1] f i by auto
    then show ?thesis
      using Call_Yield i by (auto simp: IOT_CoAP_Yield_def CoAPMessage_cycle_def split: option.splits)
  next
    case Call_GetWellKnown
    then show ?thesis using i by (simp add: inbox_well_known)
  qed
qed

lemma api_step_total:
  assumes "5 * run_bound w + 3 \<le> f"
  shows "\<exists>w'. api_step f c w = Some w' \<and> run_bound w' \<le> run_bound w"
proof -
  obtain w' where s: "api_step f c w = Some w'" and i: "inbox_len w' \<le> run_bound w"
    using api_step_some [OF assms] by blast
  have "run_bound w' \<le> run_bound w"
    using i api_step_net [OF s] by (simp add: run_bound_def)
  then show ?thesis using s by blast
qed

text \<open>Every sequence of calls returns, and a predicate that the steps of the family
  and the other API calls keep holds at its end.\<close>

lemma api_run_total:
  assumes f: "5 * run_bound w + 3 \<le> f" and S: "steps_keep P" and A: "api_keeps P" and p: "P w"
  shows "\<exists>w'. api_run f cs w = Some w' \<and> P w'"
  using f p
proof (induction cs arbitrary: w)
  case Nil
  then show ?case by simp
next
  case (Cons c cs)
  obtain w' where s: "api_step f c w = Some w'" and b: "run_bound w' \<le> run_bound w"
    using api_step_total [OF Cons.prems(1)] by blast
  have "5 * run_bound w' + 3 \<le> f" using b Cons.prems(1) by linarith
  moreover have "P w'" by (rule api_step_keeps [OF S A Cons.prems(2) s])
  ultimately show ?case using Cons.IH s by simp
qed

lemma steps_keep_True: "steps_keep (\<lambda>w. True)"
  by (simp add: steps_keep_def)

lemma api_keeps_True: "api_keeps (\<lambda>w. True)"
  by (simp add: api_keeps_def)

text \<open>C11: the API never hangs: on a host whose engine and network hold at most
  \<open>k\<close> responses, every sequence of API calls, each run with fuel \<open>5 k + 3\<close>,
  returns, handshakes, nested retries, re-authentications and event loops
  included.\<close>

theorem api_run_terminates:
  assumes "5 * run_bound w + 3 \<le> f"
  shows "\<exists>w'. api_run f cs w = Some w'"
  using api_run_total [OF assms steps_keep_True api_keeps_True] by simp

theorem api_run_terminates_witness:
  "\<exists>w'. api_run 8 [Call_Init (Some \<lparr>cfg_devinfo = Some example_devinfo, cfg_url = None,
        cfg_wait_time_ms = 2000, cfg_event_handle = None\<rparr>), Call_DeviceNameAuth,
      Call_SendMessage (Some ''/topic/a'') (Some example_msg), Call_Yield, Call_Deinit]
    (example_world\<lparr>net_inbox := [\<lparr>rsp_code = COAP_MSG_CODE_205_CONTENT,
       rsp_token = u32_le_bytes IOTX_COAP_INIT_TOKEN, rsp_payload = token_json ''T123''\<rparr>]\<rparr>) = Some w'"
  by (rule api_run_terminates) (simp add: run_bound_def inbox_len_def get_cctx_def example_world_def)

end
