(* ===== verification/Coap_Memory.thy ===== *)
theory Coap_Memory
  imports Coap_Run
begin

text \<open>
  The scratch buffers of the API: the payload of the authentication request
  (\<open>B_auth_payload\<close>, \<open>IOT_CoAP_DeviceNameAuth\<close>), the source string of the
  signature (\<open>B_sign_src\<close>, \<open>iotx_calc_sign\<close>) and the payload of the module-id
  report (\<open>B_mid_payload\<close>, \<open>iotx_coap_report_mid\<close>).  Each is allocated and freed
  within one call, on every path that does not reach undefined behaviour.  The
  fourth instance of the preservation argument of \<open>Coap_Invariant\<close>:
  \<open>scratch_ok N\<close> says the scratch blocks of the heap are \<open>N\<close>, unless the
  program has reached undefined behaviour (\<open>c_ub\<close>), after which nothing is
  promised.  The JSON value of \<open>iotx_get_token_from_json\<close> is not a scratch block:
  it leaks on the too-short path (\<open>Coap_Json\<close>).
\<close>

definition scratch_block :: "block \<Rightarrow> bool" where
  "scratch_block b \<longleftrightarrow> b = B_auth_payload \<or> b = B_sign_src \<or> b = B_mid_payload"

definition scratch :: "world \<Rightarrow> block multiset" where
  "scratch w = filter_mset scratch_block (heap w)"

definition scratch_ok :: "block multiset \<Rightarrow> world \<Rightarrow> bool" where
  "scratch_ok N w \<longleftrightarrow> c_ub w \<or> scratch w = N"

text \<open>One step of a call, from \<open>w\<close> to \<open>w'\<close>: undefined behaviour, once reached,
  stays, and without it the scratch blocks are those before the step.\<close>

definition scratch_step :: "world \<Rightarrow> world \<Rightarrow> bool" where
  "scratch_step w w' \<longleftrightarrow> (c_ub w \<longrightarrow> c_ub w') \<and> (c_ub w' \<or> scratch w' = scratch w)"

subsection \<open>The heap operations\<close>

lemma filter_mset_remove:
  "filter_mset P (M - {#b#}) = filter_mset P M - (if P b then {#b#} else {#})"
  by (auto simp: multiset_eq_iff)

lemma scratch_simps [simp]:
  "scratch (w\<lparr>heap := heap w + {#b#}\<rparr>) = (if scratch_block b then scratch w + {#b#} else scratch w)"
  "scratch (coap_free b w) = scratch w - (if scratch_block b then {#b#} else {#})"
  "scratch (w\<lparr>w_ctx := x\<rparr>) = scratch w"
  "scratch (w\<lparr>c_ub := u\<rparr>) = scratch w"
  "scratch (mark_ub w) = scratch w"
  "scratch (HAL_SleepMs ms w) = scratch w"
  "scratch (map_cctx g w) = scratch w"
  by (simp_all add: scratch_def coap_free_def filter_mset_remove mark_ub_def HAL_SleepMs_def
      map_cctx_def map_sess_def)

lemma scratch_step_ok: "scratch_step w w' \<Longrightarrow> scratch_ok N w \<Longrightarrow> scratch_ok N w'"
  by (auto simp: scratch_step_def scratch_ok_def)

lemma scratch_step_same: "c_ub w' = c_ub w \<Longrightarrow> scratch w' = scratch w \<Longrightarrow> scratch_step w w'"
  by (simp add: scratch_step_def)

lemma scratch_block_simps [simp]:
  "scratch_block B_auth_payload" "scratch_block B_sign_src" "scratch_block B_mid_payload"
  "\<not> scratch_block B_json_value" "\<not> scratch_block B_iotx_coap" "\<not> scratch_block B_auth_token"
  "\<not> scratch_block B_devinfo" "\<not> scratch_block B_coap_ctx"
  by (simp_all add: scratch_block_def)

subsection \<open>Every step frees what it allocates\<close>

lemma SendMessage_frame:
  "heap (snd (IOT_CoAP_SendMessage w p m)) = heap w \<and> (c_ub w \<longrightarrow> c_ub (snd (IOT_CoAP_SendMessage w p m)))"
  by (auto simp: IOT_CoAP_SendMessage_def CoAPMessageId_gen_def CoAPMessage_send_def
      iotx_split_path_2_option_def split_def Let_def split: option.splits if_splits prod.splits)

lemma scratch_SendMessage: "scratch_step w (snd (IOT_CoAP_SendMessage w p m))"
  using SendMessage_frame [of w p m] by (simp add: scratch_step_def scratch_def)

lemma scratch_auth_send:
  "(device_name_auth_send w = Inl (r, w') \<longrightarrow> scratch_step w w')
     \<and> (device_name_auth_send w = Inr w' \<longrightarrow> scratch_step w w')"
  using iotx_calc_sign_world
  by (auto simp: device_name_auth_send_def scratch_step_def scratch_def CoAPMessageId_gen_def coap_malloc_def
      coap_free_def filter_mset_remove mark_ub_def CoAPMessage_send_def split_def Let_def split: option.splits if_splits prod.splits)

lemma scratch_mid_send:
  "(report_mid_send w = Inl (r, w') \<longrightarrow> scratch_step w w')
     \<and> (report_mid_send w = Inr w' \<longrightarrow> scratch_step w w')"
  using SendMessage_frame
  by (auto simp: report_mid_send_def scratch_step_def scratch_def coap_malloc_def coap_free_def
      filter_mset_remove mark_ub_def split_def Let_def split: option.splits if_splits prod.splits)

lemma scratch_callback_content: "scratch_step w (auth_callback_content s r w)"
  by (auto simp: auth_callback_content_def iotx_get_token_from_json_def LITE_json_value_of_def
      scratch_step_def scratch_def coap_malloc_def coap_free_def filter_mset_remove split_def Let_def
      split: option.splits prod.splits if_splits)

lemma steps_keep_scratch: "steps_keep (scratch_ok N)"
  unfolding steps_keep_def
  apply (intro conjI allI impI)
          apply (blast intro: scratch_step_ok dest: scratch_auth_send [THEN conjunct1, rule_format])
         apply (blast intro: scratch_step_ok dest: scratch_auth_send [THEN conjunct2, rule_format])
        apply (blast intro: scratch_step_ok dest: scratch_mid_send [THEN conjunct1, rule_format])
       apply (blast intro: scratch_step_ok dest: scratch_mid_send [THEN conjunct2, rule_format])
      apply (simp add: scratch_ok_def map_cctx_def map_sess_def)
     apply (erule scratch_step_ok [OF scratch_callback_content])
    apply (simp_all add: scratch_ok_def scratch_def mark_ub_def HAL_SleepMs_def)
  done

lemma scratch_init: "scratch_step w (IOT_CoAP_Init cfg w)"
  by (auto simp: IOT_CoAP_Init_def scratch_step_def scratch_def coap_malloc_def coap_free_def
      filter_mset_remove CoAPContext_create_def CoAPContext_free_def iotx_coap_init_unwind_def Let_def split: option.splits if_splits prod.splits)

lemma scratch_deinit: "scratch_step w (IOT_CoAP_Deinit w)"
  by (auto simp: IOT_CoAP_Deinit_def scratch_step_def scratch_def coap_free_def filter_mset_remove
      CoAPContext_free_def Let_def split: option.splits)

lemma scratch_well_known: "scratch_step w (snd (iotx_get_well_known w))"
  by (auto simp: iotx_get_well_known_def scratch_step_def scratch_def CoAPMessageId_gen_def
      CoAPMessage_send_def split_def Let_def mark_ub_def split: option.splits)

lemma api_keeps_scratch: "api_keeps (scratch_ok N)"
  unfolding api_keeps_def
  using scratch_step_ok [OF scratch_init] scratch_step_ok [OF scratch_deinit]
    scratch_step_ok [OF scratch_SendMessage] scratch_step_ok [OF scratch_well_known]
  by blast

text \<open>C12: no scratch buffer leaks: every sequence of API calls, run with enough
  fuel, returns, and unless it reached undefined behaviour, the scratch blocks
  of the heap are those it started with; whatever the responses, retries,
  re-authentications, allocation failures and send failures on the way.\<close>

theorem api_run_no_scratch_leak:
  assumes "5 * run_bound w + 3 \<le> f"
  shows "\<exists>w'. api_run f cs w = Some w' \<and> (c_ub w' \<or> scratch w' = scratch w)"
proof -
  have "\<exists>w'. api_run f cs w = Some w' \<and> scratch_ok (scratch w) w'"
    by (rule api_run_total [OF assms steps_keep_scratch api_keeps_scratch]) (simp add: scratch_ok_def)
  then show ?thesis by (simp only: scratch_ok_def)
qed

theorem api_run_no_scratch_leak_witness:
  "\<exists>w'. api_run 8 [Call_Init (Some \<lparr>cfg_devinfo = Some example_devinfo, cfg_url = None,
        cfg_wait_time_ms = 2000, cfg_event_handle = None\<rparr>), Call_DeviceNameAuth,
      Call_SendMessage (Some ''/topic/a'') (Some example_msg), Call_Yield, Call_Deinit]
    (example_world\<lparr>net_inbox := [\<lparr>rsp_code = COAP_MSG_CODE_500_INTERNAL_SERVER_ERROR,
       rsp_token = u32_le_bytes IOTX_COAP_INIT_TOKEN, rsp_payload = []\<rparr>]\<rparr>) = Some w'
    \<and> (c_ub w' \<or> scratch w' = {#})"
proof -
  let ?w0 = "example_world\<lparr>net_inbox := [\<lparr>rsp_code = COAP_MSG_CODE_500_INTERNAL_SERVER_ERROR,
       rsp_token = u32_le_bytes IOTX_COAP_INIT_TOKEN, rsp_payload = []\<rparr>]\<rparr>"
  have e: "scratch ?w0 = {#}" by (simp add: scratch_def example_world_def)
  have "\<exists>w'. api_run 8 [Call_Init (Some \<lparr>cfg_devinfo = Some example_devinfo, cfg_url = None,
        cfg_wait_time_ms = 2000, cfg_event_handle = None\<rparr>), Call_DeviceNameAuth,
      Call_SendMessage (Some ''/topic/a'') (Some example_msg), Call_Yield, Call_Deinit] ?w0 = Some w'
    \<and> (c_ub w' \<or> scratch w' = scratch ?w0)"
    by (rule api_run_no_scratch_leak) (simp add: run_bound_def inbox_len_def get_cctx_def example_world_def)
  then show ?thesis by (simp only: e)
qed

end
