(* ===== verification/Coap_Refinement.thy ===== *)
theory Coap_Refinement
  imports Coap_Send
begin

text \<open>
  The dispatcher against an abstract specification.  \<open>spec_session\<close> is the
  AuthSession of the specification (section 3) as the dispatcher sees it: the
  authenticated flag, the token, the request counter and the requests handed to
  the transport; a request (\<open>spec_req\<close>) is what section 4.5 says one carries.
  \<open>spec_send\<close> is section 4.5 read as a function, its checks in the order the
  specification lists them.  \<open>abs_session\<close> maps a world to its abstract session,
  reading each message on the wire back into a \<open>spec_req\<close> (the correlation
  counter is decoded from the token bytes).  The refinement theorem says that
  \<open>IOT_CoAP_SendMessage\<close> commutes with the abstraction on every branch.
\<close>

record spec_req =
  rq_confirmable :: bool
  rq_path :: "string list"
  rq_cbor :: bool
  rq_auth :: string
  rq_payload :: string
  rq_corr :: u32

record spec_session =
  as_authed :: bool
  as_token :: string
  as_counter :: u32
  as_sent :: "spec_req list"

fun opt_path :: "(coap_option_num \<times> coap_opt_val) list \<Rightarrow> string list" where
  "opt_path [] = []"
| "opt_path ((COAP_OPTION_URI_PATH, OptStr v) # os) = v # opt_path os"
| "opt_path (_ # os) = opt_path os"

fun opt_auth :: "(coap_option_num \<times> coap_opt_val) list \<Rightarrow> string" where
  "opt_auth [] = []"
| "opt_auth ((COAP_OPTION_AUTH_TOKEN, OptStr v) # os) = v"
| "opt_auth (_ # os) = opt_auth os"

definition abs_request :: "coap_message \<Rightarrow> spec_req" where
  "abs_request m =
     \<lparr>rq_confirmable = (msg_type m = COAP_MESSAGE_TYPE_CON), rq_path = opt_path (msg_options m),
      rq_cbor = ((COAP_OPTION_CONTENT_FORMAT, OptUint COAP_CT_APP_CBOR) \<in> set (msg_options m)),
      rq_auth = opt_auth (msg_options m), rq_payload = msg_payload m, rq_corr = le_decode (msg_token m)\<rparr>"

definition abs_session :: "world \<Rightarrow> spec_session option" where
  "abs_session w =
     (case w_ctx w of
        None \<Rightarrow> None
      | Some s \<Rightarrow>
          (case p_coap_ctx s of
             None \<Rightarrow> None
           | Some c \<Rightarrow> Some \<lparr>as_authed = is_authed s, as_token = auth_token_str s,
                             as_counter = coap_token s, as_sent = map abs_request (ctx_sent c)\<rparr>))"

definition spec_send :: "spec_session \<Rightarrow> string \<Rightarrow> nat \<Rightarrow> string \<Rightarrow> bool \<Rightarrow> iotx_ret \<times> spec_session" where
  "spec_send a path len payload cbor =
     (if COAP_MSG_MAX_PDU_LEN \<le> len then (IOTX_ERR_MSG_TOO_LOOG, a)
      else if \<not> as_authed a then (IOTX_ERR_NOT_AUTHED, a)
      else if IOTX_URI_MAX_LEN < length path then (IOTX_ERR_URI_TOO_LOOG, a\<lparr>as_counter := as_counter a + 1\<rparr>)
      else (IOTX_SUCCESS, a\<lparr>as_counter := as_counter a + 1,
              as_sent := as_sent a @ [\<lparr>rq_confirmable = True, rq_path = uri_path_segments path, rq_cbor = cbor,
                rq_auth = as_token a, rq_payload = take len payload, rq_corr = as_counter a\<rparr>]\<rparr>))"

lemma opt_path_map [simp]: "opt_path (map (\<lambda>s. (COAP_OPTION_URI_PATH, OptStr s)) xs @ os) = xs @ opt_path os"
  by (induction xs) auto

lemma opt_auth_map [simp]: "opt_auth (map (\<lambda>s. (COAP_OPTION_URI_PATH, OptStr s)) xs @ os) = opt_auth os"
  by (induction xs) auto

lemma uri_path_options_simps [simp]:
  "opt_path (uri_path_options p @ os) = uri_path_segments p @ opt_path os"
  "opt_auth (uri_path_options p @ os) = opt_auth os"
  "(COAP_OPTION_CONTENT_FORMAT, v) \<notin> set (uri_path_options p)"
  "(COAP_OPTION_CONTENT_FORMAT, v) \<notin> (\<lambda>x. (COAP_OPTION_URI_PATH, OptStr x)) ` S"
  by (auto simp: uri_path_options_def)

lemma abs_spec_request:
  "abs_request (spec_request s ctx path msg) =
     \<lparr>rq_confirmable = True, rq_path = uri_path_segments path,
      rq_cbor = (content_type msg = IOTX_CONTENT_TYPE_CBOR), rq_auth = auth_token_str s,
      rq_payload = take (unat (payload_len msg)) (p_payload msg), rq_corr = coap_token s\<rparr>"
  by (simp add: abs_request_def spec_request_def uri_path_options_def le_decode_token)

text \<open>C14: \<open>IOT_CoAP_SendMessage\<close> refines the send of the specification: on a session
  with an engine context, whenever the path segments fit the encoder's buffer and
  the engine accepts the datagram, the result code and the abstract session after
  the concrete call are those of \<open>spec_send\<close> on the abstract session before it
  (payload too long, not authenticated, path too long, or exactly one new request
  carrying the session token and the next correlation counter).\<close>

theorem IOT_CoAP_SendMessage_refines:
  assumes s: "w_ctx w = Some s" and sc: "p_coap_ctx s = Some ctx" and a: "abs_session w = Some a"
    and fits: "path_fits path" and net: "ctx_net_ok ctx"
    and size: "coap_msg_size (spec_request s ctx path msg) \<le> COAP_MSG_MAX_PDU_LEN"
  shows "map_prod id abs_session (IOT_CoAP_SendMessage w (Some path) (Some msg))
       = map_prod id Some (spec_send a path (unat (payload_len msg)) (p_payload msg)
           (content_type msg = IOTX_CONTENT_TYPE_CBOR))"
proof -
  have a': "a = \<lparr>as_authed = is_authed s, as_token = auth_token_str s, as_counter = coap_token s,
      as_sent = map abs_request (ctx_sent ctx)\<rparr>"
    using a s sc by (simp add: abs_session_def)
  show ?thesis
  proof (cases "COAP_MSG_MAX_PDU_LEN \<le> unat (payload_len msg) \<or> \<not> is_authed s")
    case True
    then show ?thesis using s sc a a' by (auto simp: IOT_CoAP_SendMessage_def spec_send_def)
  next
    case False
    then have len: "unat (payload_len msg) < COAP_MSG_MAX_PDU_LEN" and au: "is_authed s" by auto
    show ?thesis
    proof (cases "IOTX_URI_MAX_LEN < length path")
      case True
      then show ?thesis
        using s sc len au a'
        by (simp add: IOT_CoAP_SendMessage_def iotx_split_path_2_option_def CoAPMessageId_gen_def
            split_def iotx_get_coap_token_snd Let_def spec_send_def abs_session_def auth_token_str_def)
    next
      case False
      then have pl: "length path \<le> IOTX_URI_MAX_LEN" by simp
      show ?thesis
        using IOT_CoAP_SendMessage_authed_unfold [OF s sc au len pl fits] size s net sc len au a' False
        by (simp add: CoAPMessage_send_def spec_send_def abs_session_def abs_spec_request auth_token_str_def)
    qed
  qed
qed

theorem IOT_CoAP_SendMessage_refines_witness:
  "map_prod id abs_session (IOT_CoAP_SendMessage
       (example_world\<lparr>w_ctx := Some (example_session\<lparr>is_authed := True, p_auth_token := Some ''T123''\<rparr>)\<rparr>)
       (Some ''/topic/a'') (Some example_msg))
   = map_prod id Some (spec_send \<lparr>as_authed = True, as_token = ''T123'', as_counter = 0x01020304, as_sent = []\<rparr>
       ''/topic/a'' (unat (payload_len example_msg)) (p_payload example_msg)
       (content_type example_msg = IOTX_CONTENT_TYPE_CBOR))"
proof -
  let ?s = "example_session\<lparr>is_authed := True, p_auth_token := Some ''T123''\<rparr>"
  let ?w = "example_world\<lparr>w_ctx := Some ?s\<rparr>"
  have s: "w_ctx ?w = Some ?s" by simp
  have sc: "p_coap_ctx ?s = Some example_ctx" by (simp add: example_session_def)
  have a: "abs_session ?w = Some \<lparr>as_authed = True, as_token = ''T123'', as_counter = 0x01020304, as_sent = []\<rparr>"
    by (simp add: abs_session_def example_session_def example_ctx_def auth_token_str_def)
  have f: "path_fits ''/topic/a''" by (simp add: path_fits_def COAP_MSG_MAX_PATH_LEN_def)
  have n: "ctx_net_ok example_ctx" by (simp add: example_ctx_def)
  have z: "coap_msg_size (spec_request ?s example_ctx ''/topic/a'' example_msg) \<le> COAP_MSG_MAX_PDU_LEN"
    by (simp add: spec_request_def coap_msg_size_def COAP_MSG_MAX_PDU_LEN_def example_msg_def
        example_session_def iotx_get_coap_token_def uri_path_options_def uri_path_segments_def auth_token_str_def)
  show ?thesis by (rule IOT_CoAP_SendMessage_refines [OF s sc a f n z])
qed

end
