(* ===== verification/Coap_Handlers.thy ===== *)
theory Coap_Handlers
  imports Coap_Json Coap_Send
begin

text \<open>
  The two response handlers that only log: \<open>iotx_get_well_known_handler\<close>
  (lines 183--193), registered by \<open>iotx_get_well_known\<close>, and
  \<open>iotx_coap_mid_rsphdl\<close> (lines 224--247), registered by the module-id report.
  Neither touches the session, the heap or the engine, so the engine's dispatch
  (\<open>CoAPMessage_handle\<close> in \<open>Coap_Auth\<close>) leaves the world unchanged when it runs
  them; what they do is print, and they are modelled as the list of log lines
  they emit: a level, the format string and its arguments.  An argument read
  from a variable the code never set is \<open>LUninit\<close>; a \<open>%s\<close> of a NULL pointer is
  \<open>LNull\<close>; a \<open>%s\<close> of a pointer into a buffer prints from there to the end of
  the buffer.  \<open>json_get_value_by_name\<close> belongs to the utility library and is
  modelled from the specification: it finds \<open>"key":\<close> in the first \<open>len\<close>
  bytes and returns a pointer to the value inside the buffer (after the opening
  quote of a string) and the value's length.
\<close>

datatype log_level = LOG_INFO | LOG_DEBUG | LOG_WARNING

datatype log_arg = LInt int | LCode coap_msg_code | LStr string | LUninit | LNull

type_synonym log_line = "log_level \<times> string \<times> log_arg list"

fun json_find :: "string \<Rightarrow> string \<Rightarrow> string option" where
  "json_find pat [] = None"
| "json_find pat (c # cs) =
     (if take (length pat) (c # cs) = pat then Some (drop (length pat) (c # cs)) else json_find pat cs)"

definition json_get_value_by_name :: "string \<Rightarrow> nat \<Rightarrow> string \<Rightarrow> (string \<times> nat) option" where
  "json_get_value_by_name src len key =
     (case json_find (CHR ''\"'' # key @ ''\":'') (take len src) of
        None \<Rightarrow> None
      | Some rest \<Rightarrow>
          (let v = drop (length src - length rest) src
           in case v of
                [] \<Rightarrow> None
              | c # cs \<Rightarrow>
                  (if c = CHR ''\"'' then Some (cs, length (takeWhile (\<lambda>x. x \<noteq> CHR ''\"'') cs))
                   else Some (v, length (takeWhile (\<lambda>x. x \<noteq> CHR '','' \<and> x \<noteq> CHR ''}'') v)))))"

text \<open>\<open>resp_code\<close> is not initialised and \<open>p_payload\<close> is NULL when the accessors
  refuse a NULL response.\<close>

text \<open>The conversion \<open>'%s'\<close> of two format strings.\<close>

definition quoted_s :: string where
  "quoted_s = [CHR 0x27, CHR ''%'', CHR ''s'', CHR 0x27]"

definition log_code :: "coap_msg_code option \<Rightarrow> log_arg" where
  "log_code c = (case c of Some k \<Rightarrow> LCode k | None \<Rightarrow> LUninit)"

definition iotx_get_well_known_handler :: "coap_response option \<Rightarrow> log_line list" where
  "iotx_get_well_known_handler p_response =
     (let (_, code) = IOT_CoAP_GetMessageCode p_response;
          (_, pl) = IOT_CoAP_GetMessagePayload p_response;
          (payload, len) = (case pl of Some (p, n) \<Rightarrow> (LStr p, int n) | None \<Rightarrow> (LNull, 0))
      in [(LOG_INFO, ''[APPL]: Message response code: %d'', [log_code code]),
          (LOG_INFO, ''[APPL]: Len: %d, Payload: %s, '', [LInt len, payload])])"

definition iotx_coap_mid_rsphdl :: "coap_response option \<Rightarrow> log_line list" where
  "iotx_coap_mid_rsphdl p_response =
     (let (_, code) = IOT_CoAP_GetMessageCode p_response;
          (_, pl) = IOT_CoAP_GetMessagePayload p_response;
          (p_payload, p_payload_len) = (case pl of Some (p, n) \<Rightarrow> (p, n) | None \<Rightarrow> ([], 0))
      in [(LOG_DEBUG, ''MID Report: CoAP response code = %d'', [log_code code]),
          (LOG_DEBUG, ''MID Report: CoAP msg_len = %d'', [LInt (int p_payload_len)])]
         @ (if 0 < p_payload_len then
              (LOG_DEBUG, ''MID Report: CoAP msg = '' @ quoted_s, [LStr p_payload])
              # (case json_get_value_by_name p_payload p_payload_len ''id'' of
                   Some (msg, _) \<Rightarrow>
                     [(LOG_DEBUG, ''MID Report: CoAP mid_report responseID = '' @ quoted_s, [LStr msg])]
                 | None \<Rightarrow>
                     [(LOG_WARNING, ''MID Report: CoAP mid_report responseID not found in msg'', [])])
            else [(LOG_WARNING, ''MID Report: CoAP response payload_len = 0'', [])]))"

declare json_find.simps(2) [simp del]

lemma json_find_here: "pat \<noteq> [] \<Longrightarrow> json_find pat (pat @ rest) = Some rest"
  by (cases pat) (simp_all add: json_find.simps(2))

lemma json_find_skip: "c \<noteq> hd pat \<Longrightarrow> pat \<noteq> [] \<Longrightarrow> json_find pat (c # cs) = json_find pat cs"
  by (cases pat) (simp_all add: json_find.simps(2))

text \<open>C37: when the module-id report is answered with \<open>{"id":"v"...}\<close>, the handler
  logs the code, the length, the body, and as \<open>responseID\<close> not the value \<open>v\<close> but
  everything from \<open>v\<close> to the end of the body: \<open>json_get_value_by_name\<close> returns a
  pointer into the body and its length output is ignored by the \<open>%s\<close>.\<close>

theorem iotx_coap_mid_rsphdl_response_id:
  assumes "rsp_payload r = ''{\"id\":\"'' @ v @ CHR ''\"'' # rest"
  shows "iotx_coap_mid_rsphdl (Some r) =
     [(LOG_DEBUG, ''MID Report: CoAP response code = %d'', [LCode (rsp_code r)]),
      (LOG_DEBUG, ''MID Report: CoAP msg_len = %d'', [LInt (int (length (rsp_payload r)))]),
      (LOG_DEBUG, ''MID Report: CoAP msg = '' @ quoted_s, [LStr (rsp_payload r)]),
      (LOG_DEBUG, ''MID Report: CoAP mid_report responseID = '' @ quoted_s, [LStr (v @ CHR ''\"'' # rest)])]"
proof -
  have find: "json_find (CHR ''\"'' # ''id'' @ ''\":'') (rsp_payload r) = Some (CHR ''\"'' # v @ CHR ''\"'' # rest)"
    using assms json_find_here [of "''\"id\":''" "CHR ''\"'' # v @ CHR ''\"'' # rest"]
    by (simp add: json_find_skip)
  have "json_get_value_by_name (rsp_payload r) (length (rsp_payload r)) ''id''
      = Some (v @ CHR ''\"'' # rest, length (takeWhile (\<lambda>x. x \<noteq> CHR ''\"'') (v @ CHR ''\"'' # rest)))"
    using find assms by (simp add: json_get_value_by_name_def)
  then show ?thesis
    using assms
    by (simp add: iotx_coap_mid_rsphdl_def IOT_CoAP_GetMessageCode_def IOT_CoAP_GetMessagePayload_def log_code_def)
qed

theorem iotx_coap_mid_rsphdl_response_id_witness:
  "iotx_coap_mid_rsphdl (Some \<lparr>rsp_code = COAP_MSG_CODE_205_CONTENT, rsp_token = [1, 2, 3, 4],
      rsp_payload = ''{\"id\":\"42\",\"code\":200}''\<rparr>) ! 3
   = (LOG_DEBUG, ''MID Report: CoAP mid_report responseID = '' @ quoted_s, [LStr ''42\",\"code\":200}''])"
  by (simp add: iotx_coap_mid_rsphdl_response_id [where v = "''42''" and rest = "'',\"code\":200}''"])

end
