(* ===== verification/Spec2Isabelle.thy ===== *)
theory Spec2Isabelle
  imports Coap_Token Coap_Path Coap_Json Coap_Sign Coap_Send Coap_Auth Coap_Handshake Coap_Lifecycle Coap_Invariant Coap_Wire Coap_Run Coap_Memory Coap_Refinement Coap_Handlers
begin

text \<open>
  \<^bold>\<open>Verification of the CoAP client of the IoT device SDK\<close>,
  \<open>src/src/coap/iotx_coap_api.c\<close>: the device-side API that opens a CoAP/DTLS
  session to the cloud, authenticates the device by name and signature, sends
  application messages carrying the session token, and receives responses through
  the CoAP engine's callbacks.

  \<^bold>\<open>Parts of the program and how they interact.\<close>  The application calls
  \<open>IOT_CoAP_Init\<close>, \<open>IOT_CoAP_DeviceNameAuth\<close>, \<open>IOT_CoAP_SendMessage\<close>,
  \<open>IOT_CoAP_Yield\<close> and \<open>IOT_CoAP_Deinit\<close> on one session object
  (\<open>iotx_coap_t\<close>).  The session owns a CoAP engine context; the handshake sends a
  request and blocks in the engine's receive loop, and the engine hands every
  response to the event notifier and to the handler registered with the request.
  The handshake's handler retries on \<open>5.00\<close>, stores the token on \<open>2.05\<close>; the
  notifier re-runs the handshake on \<open>4.01\<close>/\<open>4.02\<close>.  So the handshake, the
  receive loop and the callbacks are mutually recursive.

  \<^bold>\<open>Theories.\<close>
  \<^item> \<open>Prelude\<close>: the word types \<open>u8\<close>, \<open>u16\<close>, \<open>u32\<close>, the collections
    \<open>coap_simps\<close> and \<open>coap_limits\<close>, generic lemmas on lists and words.
  \<^item> \<open>Coap_Model\<close>: the data of the C code (\<open>iotx_ret\<close>, \<open>iotx_message_t\<close>,
    \<open>iotx_deviceinfo_t\<close>, \<open>iotx_coap_t\<close> as records and datatypes, the constants of
    the header files) and the host it runs on: a \<open>world\<close> record with the heap as a
    multiset of live blocks (\<open>coap_malloc\<close>/\<open>coap_free\<close>, with a set of blocks whose
    allocation fails), the session pointer, the HMAC and the network.  The engine
    (\<open>CoAPMessage_send\<close>, \<open>CoAPMessageId_gen\<close>, option adds, the message size) is
    not under \<open>src/\<close> and is modelled from the specification.
  \<^item> \<open>Coap_Token\<close>: \<open>iotx_get_coap_token\<close> (the 4-byte little-endian token and the
    counter increment modulo \<open>2^32\<close>), with the round trip through
    \<open>le_decode\<close> and the distinctness of up to \<open>2^32\<close> consecutive tokens.
  \<^item> \<open>Coap_Path\<close>: \<open>iotx_split_path_2_option\<close> as the byte loop of the code
    (\<open>split_loop\<close>) and its equivalence with a reference split
    (\<open>uri_path_segments\<close>) when the segments fit the 128-byte buffer, and the
    overrun when they do not.
  \<^item> \<open>Coap_Json\<close>: \<open>iotx_get_token_from_json\<close> over a spec-modelled
    \<open>LITE_json_value_of\<close>: token extraction, truncation and the error paths, and the
    print/parse round trip with \<open>token_json\<close>.
  \<^item> \<open>Coap_Sign\<close>: \<open>iotx_calc_sign\<close>: the canonical sign source and the
    allocation failure.
  \<^item> \<open>Coap_Send\<close>: \<open>IOT_CoAP_SendMessage\<close>, \<open>iotx_get_well_known\<close> and the
    accessors; every branch (no session, payload too long, not authenticated, URI
    too long, engine error, success) is a lemma, and a successful send appends
    exactly \<open>spec_request\<close> to the engine's wire.
  \<^item> \<open>Coap_Auth\<close>: the mutual family \<open>IOT_CoAP_DeviceNameAuth\<close>,
    \<open>iotx_coap_report_mid\<close>, \<open>CoAPMessage_recv\<close>, \<open>CoAPMessage_handle\<close>,
    \<open>iotx_event_notifyer\<close>, \<open>iotx_device_name_auth_callback\<close>, defined by
    recursion on a fuel argument (\<open>None\<close> = not returned within the fuel), and its
    termination: \<open>5 * n + 3\<close> units suffice with \<open>n\<close> responses pending, because
    every recursive call is made while a response is handled and the handling
    pops it; each member consumes at most five units per response.
  \<^item> \<open>Coap_Handshake\<close>: runs of the family: success on \<open>2.05\<close>, one retry per
    \<open>5.00\<close>, success reported on a refusal, the empty token, the allocation
    failure of the signature, the module-id report after a successful
    authentication (sent after the authentication request, confirmable, with the
    new token; or failed, with the session still authenticated).
  \<^item> \<open>Coap_Lifecycle\<close>: \<open>IOT_CoAP_Init\<close> with its error unwinding,
    \<open>IOT_CoAP_Deinit\<close>, \<open>IOT_CoAP_Yield\<close>: no leak on any path of Init, Deinit
    after Init restores the heap, Yield re-authenticates on a \<open>4.01\<close> to the
    session's own request and ignores one to a request without user data.
  \<^item> \<open>Coap_Invariant\<close>: the well-formedness of a session (token bounded by
    its buffer, identity strings fitting theirs, an engine context present), the
    API as a step function \<open>api_step\<close> over \<open>api_call\<close>, the inductive
    \<open>reachable\<close> (start, any API call, any network event) and the invariant on every
    reachable world.  The preservation argument is made once for any predicate
    on worlds (\<open>steps_keep\<close>, \<open>kept_all\<close>, \<open>api_keeps\<close>, \<open>reachable_keeps\<close>:
    induction on the fuel for the recursive family, rule induction for
    reachability) and instantiated for each invariant.
  \<^item> \<open>Coap_Wire\<close>: the second instance: every datagram on the wire is a
    confirmable GET or POST with a 4-byte token that fits one PDU.
  \<^item> \<open>Coap_Run\<close>: sequences of API calls (\<open>api_run\<close>); no call adds a
    response and none changes the network's (a third instance of the
    preservation argument), so fuel \<open>5 k + 3\<close> per call, \<open>k\<close> bounding the
    responses of the engine and the network (\<open>run_bound\<close>), lets every sequence
    return.
  \<^item> \<open>Coap_Memory\<close>: the scratch buffers of the heap (the authentication
    payload, the sign source, the module-id payload) as a fourth instance of the
    preservation argument: every sequence of API calls with enough fuel ends with
    them as it started, unless it reached undefined behaviour, because every path
    of the handshake and the report frees what it allocates, retries included.
  \<^item> \<open>Coap_Refinement\<close>: an abstract session (flag, token, counter, requests sent)
    and \<open>spec_send\<close>, the send of the specification; \<open>IOT_CoAP_SendMessage\<close>
    refines it under the abstraction that decodes the wire.
  \<^item> \<open>Coap_Handlers\<close>: the two response handlers that only log,
    \<open>iotx_get_well_known_handler\<close> and \<open>iotx_coap_mid_rsphdl\<close>, as the list of
    log lines they print; the responseID the second one logs is the rest of the
    body, not the id.
  \<^item> This theory: the composition of the components, \<open>init_auth_send\<close>:
    \<open>IOT_CoAP_Init\<close>, a handshake answered by \<open>2.05\<close>, and an application send
    that then succeeds and carries the token of the handshake.  It is proved from
    the run lemmas of \<open>Coap_Handshake\<close>, the unfolding of the send in
    \<open>Coap_Send\<close> and the size bound of the path options in \<open>Coap_Path\<close>.

  \<^bold>\<open>Bounds and fuel.\<close>  Fuel only measures the mutual recursion; theorems about
  runs give the fuel they need (\<open>5 * n + 3\<close>, or explicit small values), and the
  termination theorems state that this much fuel yields \<open>Some\<close>, for one
  handshake and for every sequence of API calls (\<open>k\<close> is then the larger of the
  responses in the engine and on the network, since only \<open>IOT_CoAP_Init\<close> moves
  the latter into the former).  Integers keep
  the width of the code where it matters: the token counter is a \<open>u32\<close> that
  wraps, message ids are \<open>u16\<close>, lengths are bounded by the buffer sizes of the
  header files.

  \<^bold>\<open>Not modelled.\<close>  The DTLS transport and the CoAP engine's internals (only
  their interface, from the specification); the JSON parser beyond the key
  lookup used here; HMAC (a field \<open>hal_hmac\<close> of the world, any function); the log is
  not part of the world (the handlers that only log are modelled as functions
  returning their lines, the error logs of the other functions are left out); the
  unused \<open>event_handle\<close> of the configuration; real time (\<open>HAL_SleepMs\<close>
  only advances a counter \<open>clock_ms\<close>); \<open>IOT_CoAP_Deinit\<close> on a NULL
  pointer-to-pointer.  Undefined behaviour the code can reach (a callback using
  an application's \<open>user_data\<close> as the session, a NULL identity) sets the flag
  \<open>c_ub\<close> and ends the step, as a failed guard does: what the code would do next
  (on a \<open>4.01\<close> to an application request, line 170 runs the handshake on the
  application's object) is not modelled, and no theorem speaks of it.  The
  formatter of the report topic is modelled as total, so the \<open>ret < 0\<close> branch
  of \<open>iotx_coap_report_mid\<close> (lines 312--316) is left out: the formatter is
  SDK code outside this repository and writes a fixed pattern.
\<close>

text \<open>C9: the components compose: after \<open>IOT_CoAP_Init\<close> with no failing allocation
  and a network up, \<open>IOT_CoAP_DeviceNameAuth\<close> answered by one \<open>2.05\<close> carrying a token
  returns \<open>IOTX_SUCCESS\<close> with an authenticated session holding that token and the
  next correlation counter, and a following \<open>IOT_CoAP_SendMessage\<close> of a request
  that fits one datagram returns \<open>IOTX_SUCCESS\<close> and puts on the wire exactly the
  request of section 4.5, which carries the token of the handshake.\<close>

theorem init_auth_send:
  assumes di: "cfg_devinfo cfg = Some di" and mem: "alloc_fail w = {}"
    and net: "net_up w" and pid: "partner_id w = []"
    and sign: "length (auth_sign w (devinfo_copy di)) < IOTX_SIGN_LENGTH"
    and rsp: "net_inbox w = [\<lparr>rsp_code = COAP_MSG_CODE_205_CONTENT,
      rsp_token = u32_le_bytes IOTX_COAP_INIT_TOKEN, rsp_payload = token_json t\<rparr>]"
    and t: "CHR ''\"'' \<notin> set t" "length t < IOTX_AUTH_TOKEN_LEN"
    and f: "4 \<le> f"
    and path: "length path \<le> IOTX_URI_MAX_LEN" "path_fits path"
    and size: "length path + length t + unat (payload_len msg) + 15 \<le> COAP_MSG_MAX_PDU_LEN"
  shows "\<exists>w2 s c. IOT_CoAP_DeviceNameAuth f (IOT_CoAP_Init (Some cfg) w) = Some (IOTX_SUCCESS, w2)
     \<and> w_ctx w2 = Some s \<and> is_authed s \<and> auth_token_str s = t
     \<and> coap_token s = IOTX_COAP_INIT_TOKEN + 1 \<and> p_coap_ctx s = Some c
     \<and> IOT_CoAP_SendMessage w2 (Some path) (Some msg)
         = (IOTX_SUCCESS, w2\<lparr>w_ctx := Some (s\<lparr>coap_token := coap_token s + 1,
             p_coap_ctx := Some (c\<lparr>ctx_message_id := ctx_message_id c + 1,
               ctx_sent := ctx_sent c @ [spec_request s c path msg]\<rparr>)\<rparr>)\<rparr>)"
proof -
  obtain w2 s c where dna: "IOT_CoAP_DeviceNameAuth f (IOT_CoAP_Init (Some cfg) w) = Some (IOTX_SUCCESS, w2)"
    and s: "w_ctx w2 = Some s" "is_authed s" "auth_token_str s = t" "coap_token s = IOTX_COAP_INIT_TOKEN + 1"
      "p_coap_ctx s = Some c" "ctx_net_ok c"
    using init_auth_ok [OF di mem net pid sign rsp t f] by blast
  show ?thesis
    using dna s IOT_CoAP_SendMessage_fits [OF s(1,5,2,6) path] size by auto
qed

theorem init_auth_send_witness:
  "\<exists>w2 s c. IOT_CoAP_DeviceNameAuth 4 (IOT_CoAP_Init (Some \<lparr>cfg_devinfo = Some example_devinfo, cfg_url = None,
         cfg_wait_time_ms = 2000, cfg_event_handle = None\<rparr>)
       (example_world\<lparr>hal_hmac := (\<lambda>m k. ''0123456789abcdef0123456789abcdef''),
          net_inbox := [\<lparr>rsp_code = COAP_MSG_CODE_205_CONTENT, rsp_token = u32_le_bytes IOTX_COAP_INIT_TOKEN,
            rsp_payload = token_json ''T123''\<rparr>]\<rparr>)) = Some (IOTX_SUCCESS, w2)
     \<and> w_ctx w2 = Some s \<and> is_authed s \<and> auth_token_str s = ''T123''
     \<and> coap_token s = IOTX_COAP_INIT_TOKEN + 1 \<and> p_coap_ctx s = Some c
     \<and> IOT_CoAP_SendMessage w2 (Some ''/topic/a'') (Some example_msg)
         = (IOTX_SUCCESS, w2\<lparr>w_ctx := Some (s\<lparr>coap_token := coap_token s + 1,
             p_coap_ctx := Some (c\<lparr>ctx_message_id := ctx_message_id c + 1,
               ctx_sent := ctx_sent c @ [spec_request s c ''/topic/a'' example_msg]\<rparr>)\<rparr>)\<rparr>)"
  by (rule init_auth_send [where di = example_devinfo])
    (simp_all add: example_world_def auth_sign_def IOTX_SIGN_LENGTH_def coap_limits path_fits_def
      example_msg_def)

end
